theory Spec2Isabelle
  imports Main "HOL-Library.Word" "HOL-Library.Sublist"
begin

unbundle bit_operations_syntax

section \<open>Remote memory reader (mem.h, Linux branch)\<close>

text \<open>
  Pointers and \<^verbatim>\<open>size_t\<close> are 64-bit words (an LP64 Linux host), \<^verbatim>\<open>ssize_t\<close>,
  \<^verbatim>\<open>int\<close> and \<^verbatim>\<open>pid_t\<close> values are integers.

  \<^verbatim>\<open>process_vm_readv\<close> is the kernel: what it answers to one call is a parameter of the
  model. It either transfers some number of bytes and returns that number, or returns
  \<^verbatim>\<open>-1\<close> with \<^verbatim>\<open>errno\<close> set.
\<close>

type_synonym addr = "64 word"

datatype readv_outcome = Bytes nat | Errno int

fun readv_result :: "readv_outcome \<Rightarrow> int" where
  "readv_result (Bytes n) = int n"
| "readv_result (Errno e) = - 1"

type_synonym kernel = "int \<Rightarrow> addr \<Rightarrow> int \<Rightarrow> readv_outcome"

definition EPERM :: int where "EPERM = 1"
definition ENOENT :: int where "ENOENT = 2"
definition ESRCH :: int where "ESRCH = 3"
definition EACCES :: int where "EACCES = 13"

text \<open>
  Modelled from the spec: error.h is not among the sources. The error kinds are the names
  the sources pass to \<^verbatim>\<open>set_error\<close>: \<open>EPROCNPID\<close> is the spec's NoSuchProcess,
  \<open>EPROCPERM\<close> its PermissionDenied, \<open>EMEMCOPY\<close> its MemoryFault; \<open>EPROCVM\<close> is set
  by the maps parser. \<^verbatim>\<open>set_error\<close> stores the kind in the process-wide error slot, which is
  \<open>None\<close> as long as nothing was stored.
\<close>

datatype error_t = EPROCNPID | EPROCPERM | EMEMCOPY | EPROCVM

record io_state =
  austin_errno :: "error_t option"
  reads :: "(int \<times> addr \<times> int) list"

definition set_error :: "error_t \<Rightarrow> io_state \<Rightarrow> io_state" where
  "set_error e io = io\<lparr>austin_errno := Some e\<rparr>"

text \<open>
  \<open>reads\<close> logs the calls of the platform read primitive, in order, each with the pid,
  the remote address and the length it was issued with.
\<close>

definition process_vm_readv :: "kernel \<Rightarrow> io_state \<Rightarrow> int \<Rightarrow> addr \<Rightarrow> int \<Rightarrow> int \<times> int \<times> io_state" where
  "process_vm_readv k io pid a len =
     (case k pid a len of
        Bytes n \<Rightarrow> (int n, 0, io\<lparr>reads := reads io @ [(pid, a, len)]\<rparr>)
      | Errno e \<Rightarrow> (- 1, e, io\<lparr>reads := reads io @ [(pid, a, len)]\<rparr>))"

text \<open>
  \<^verbatim>\<open>copy_memory(pid, addr, len, buf)\<close>: one call of the primitive; when it returns
  \<^verbatim>\<open>-1\<close> the \<^verbatim>\<open>errno\<close> is classified; the return value is \<^verbatim>\<open>result != len\<close>.
\<close>

definition copy_memory :: "kernel \<Rightarrow> io_state \<Rightarrow> int \<Rightarrow> addr \<Rightarrow> int \<Rightarrow> int \<times> io_state" where
  "copy_memory k io pid a len =
     (let (result, errno, io1) = process_vm_readv k io pid a len;
          io2 = (if result = - 1
                 then (if errno = ESRCH then set_error EPROCNPID io1
                       else if errno = EPERM then set_error EPROCPERM io1
                       else set_error EMEMCOPY io1)
                 else io1)
      in (if result \<noteq> len then 1 else 0, io2))"

section \<open>Process map introspection (linux/py\_proc.h)\<close>

text \<open>
  \<^verbatim>\<open>strstr(hay, needle) != NULL\<close>: the needle occurs in the text.
\<close>

fun strstr :: "string \<Rightarrow> string \<Rightarrow> bool" where
  "strstr [] needle = (needle = [])"
| "strstr (c # cs) needle = (prefix needle (c # cs) \<or> strstr cs needle)"

record region =
  base :: addr
  size_b :: "64 word"

record proc_vm_map =
  elf :: region
  heap :: region
  bss :: region

text \<open>
  Modelled from the spec: py\_proc.h of the parent directory, which declares
  \<^verbatim>\<open>py_proc_t\<close>, is not among the sources. The fields are those the sources use; the two
  anchors are the spec's RuntimeAnchors, the remote addresses of the runtime's global state
  and of the thread-state head, null (0) until resolved.
\<close>

record py_proc =
  pid :: int
  bin_path :: "string option"
  lib_path :: "string option"
  min_raddr :: addr
  max_raddr :: addr
  map_r :: proc_vm_map
  py_runtime_raddr :: addr
  tstate_head_raddr :: addr

text \<open>
  One line of \<^verbatim>\<open>/proc/pid/maps\<close> with what \<^verbatim>\<open>sscanf\<close> makes of it: \<open>field_count\<close>
  is the number of conversions minus 7, \<open>lower\<close> and \<open>upper\<close> the bounds, and
  \<open>pathname\<close> the content of the path buffer while the line is processed (the eighth
  conversion when \<open>field_count\<close> is 1).
\<close>

record maps_line =
  line :: string
  field_count :: int
  lower :: addr
  upper :: addr
  pathname :: string

text \<open>
  The file system as \<^verbatim>\<open>_file_size\<close> (\<^verbatim>\<open>stat\<close>) and \<^verbatim>\<open>_elf_is_executable\<close>
  (the \<^verbatim>\<open>e_type\<close> of the file's header) see it.
\<close>

record filesystem =
  st_size :: "string \<Rightarrow> int"
  e_type_of :: "string \<Rightarrow> 16 word"

definition ET_EXEC :: "16 word" where "ET_EXEC = 2"

definition elf_is_executable :: "filesystem \<Rightarrow> string \<Rightarrow> bool" where
  "elf_is_executable fs object_file = (e_type_of fs object_file = ET_EXEC)"

definition file_size :: "filesystem \<Rightarrow> string \<Rightarrow> int" where
  "file_size fs file = st_size fs file"

definition HEAP_MAP :: int where "HEAP_MAP = 8"

definition set_elf :: "maps_line \<Rightarrow> py_proc \<Rightarrow> py_proc" where
  "set_elf e self =
     self\<lparr>map_r := (map_r self)\<lparr>elf := \<lparr>base = lower e, size_b = upper e - lower e\<rparr>\<rparr>\<rparr>"

definition set_heap :: "maps_line \<Rightarrow> py_proc \<Rightarrow> py_proc" where
  "set_heap e self =
     self\<lparr>map_r := (map_r self)\<lparr>heap := \<lparr>base = lower e, size_b = upper e - lower e\<rparr>\<rparr>\<rparr>"

definition update_bounds :: "maps_line \<Rightarrow> py_proc \<Rightarrow> py_proc" where
  "update_bounds e self =
     (let s1 = (if lower e < min_raddr self then self\<lparr>min_raddr := lower e\<rparr> else self)
      in if max_raddr s1 < upper e then s1\<lparr>max_raddr := upper e\<rparr> else s1)"

text \<open>
  The body of the \<^verbatim>\<open>getline\<close> loop on one line; every \<^verbatim>\<open>continue\<close> is a branch that
  returns the state reached so far.
\<close>

definition maps_step :: "filesystem \<Rightarrow> maps_line \<Rightarrow> py_proc \<times> int \<Rightarrow> py_proc \<times> int" where
  "maps_step fs e st =
     (let (self, maps_flag) = st in
      if 0 \<le> field_count e then
        let s1 = (if field_count e = 0 \<or> \<not> strstr (pathname e) ''[v''
                  then update_bounds e self else self)
        in if maps_flag AND HEAP_MAP = 0 \<and> strstr (line e) (''[heap]'' @ [CHR 0x0A])
           then (set_heap e s1, maps_flag OR HEAP_MAP)
           else if \<not> strstr (line e) ''python'' then (s1, maps_flag)
           else if elf_is_executable fs (pathname e)
                then (if bin_path s1 \<noteq> None \<or> file_size fs (pathname e) < 2 ^ 20
                      then (s1, maps_flag)
                      else (set_elf e (s1\<lparr>bin_path := Some (pathname e)\<rparr>), maps_flag))
                else (if bin_path s1 \<noteq> None \<or> lib_path s1 \<noteq> None
                         \<or> file_size fs (pathname e) < 2 ^ 20
                      then (s1, maps_flag)
                      else (set_elf e (s1\<lparr>lib_path := Some (pathname e)\<rparr>), maps_flag))
      else st)"

fun maps_loop :: "filesystem \<Rightarrow> maps_line list \<Rightarrow> py_proc \<times> int \<Rightarrow> py_proc \<times> int" where
  "maps_loop fs [] st = st"
| "maps_loop fs (e # es) st = maps_loop fs es (maps_step fs e st)"

text \<open>
  \<^verbatim>\<open>sfree\<close> (hints.h) frees a string and resets the pointer to \<^verbatim>\<open>NULL\<close>.
  \<open>maps_reset\<close> is the state in which the loop starts.
\<close>

definition maps_reset :: "py_proc \<Rightarrow> py_proc" where
  "maps_reset self =
     self\<lparr>min_raddr := - 1, max_raddr := 0, bin_path := None, lib_path := None\<rparr>"

definition maps_return :: "py_proc \<Rightarrow> int \<Rightarrow> int" where
  "maps_return self maps_flag =
     (if (bin_path self = None \<and> lib_path self = None) \<or> maps_flag \<noteq> HEAP_MAP then 1 else 0)"

text \<open>
  \<^verbatim>\<open>_py_proc__parse_maps_file\<close>. The outcome of \<^verbatim>\<open>fopen\<close> is a parameter: the
  \<^verbatim>\<open>errno\<close> of a failed call, or the lines of the listing.
\<close>

definition py_proc__parse_maps_file ::
  "filesystem \<Rightarrow> int + maps_line list \<Rightarrow> io_state \<Rightarrow> py_proc \<Rightarrow> int \<times> py_proc \<times> io_state" where
  "py_proc__parse_maps_file fs fp io self =
     (case fp of
        Inl errno \<Rightarrow>
          (maps_return self 0, self,
           if errno = EACCES then set_error EPROCPERM io
           else if errno = ENOENT then set_error EPROCNPID io
           else set_error EPROCVM io)
      | Inr ls \<Rightarrow>
          (let (s, maps_flag) = maps_loop fs ls (maps_reset self, 0)
           in (maps_return s maps_flag, s, io)))"

section \<open>ELF analysis (linux/py\_proc.h)\<close>

text \<open>
  The structures of \<^verbatim>\<open>elf.h\<close>, with the fields the analysis reads. The records are
  polymorphic in the word type \<open>'w\<close> of addresses and offsets: \<open>32 word\<close> gives the
  \<^verbatim>\<open>Elf32_\<close> structures, \<open>64 word\<close> the \<^verbatim>\<open>Elf64_\<close> ones. \<open>e_ident\<close> is the
  identification array.
\<close>

record 'w elf_ehdr =
  e_ident :: "nat \<Rightarrow> 8 word"
  e_phoff :: 'w
  e_shoff :: 'w
  e_phentsize :: "16 word"
  e_phnum :: "16 word"
  e_shentsize :: "16 word"
  e_shnum :: "16 word"
  e_shstrndx :: "16 word"

record 'w elf_phdr =
  p_type :: "32 word"
  p_vaddr :: 'w
  p_align :: 'w

record 'w elf_shdr =
  sh_name :: "32 word"
  sh_type :: "32 word"
  sh_addr :: 'w
  sh_offset :: 'w
  sh_size :: 'w
  sh_link :: "32 word"
  sh_entsize :: 'w

record 'w elf_sym =
  st_name :: "32 word"
  st_value :: 'w

text \<open>
  The mapping \<^verbatim>\<open>elf_map\<close> of the object file: what a cast of \<^verbatim>\<open>elf_map + offset\<close> to
  a program header, a section header, a symbol or a C string reads at that byte offset.
  Offsets are pointer-sized. A read is \<open>None\<close> when the bytes at the offset are not readable
  in the mapping: the behaviour of the program is then undefined, in practice a fault that
  ends the process.
\<close>

record 'w elf_file =
  phdr_at :: "addr \<Rightarrow> 'w elf_phdr option"
  shdr_at :: "addr \<Rightarrow> 'w elf_shdr option"
  sym_at :: "addr \<Rightarrow> 'w elf_sym option"
  str_at :: "addr \<Rightarrow> string option"

text \<open>
  The global union \<^verbatim>\<open>ehdr_v\<close>: one buffer seen as a 32-bit and as a 64-bit header.
  The two views are independent fields here; how the bytes of one determine the other is
  not represented.
\<close>

record ehdr_union =
  v32 :: "32 word elf_ehdr"
  v64 :: "64 word elf_ehdr"

definition PT_LOAD :: "32 word" where "PT_LOAD = 1"
definition SHT_DYNSYM :: "32 word" where "SHT_DYNSYM = 11"
definition EI_CLASS :: nat where "EI_CLASS = 4"
definition ELFCLASS32 :: "8 word" where "ELFCLASS32 = 1"
definition ELFCLASS64 :: "8 word" where "ELFCLASS64 = 2"
definition ELFMAG :: "8 word list" where "ELFMAG = [0x7f, 0x45, 0x4c, 0x46]"
definition SELFMAG :: nat where "SELFMAG = 4"
definition SYMBOLS :: int where "SYMBOLS = 2"

text \<open>
  \<^verbatim>\<open>_get_base_64\<close> and \<^verbatim>\<open>_get_base_32\<close> are the same text up to the types, so the
  loop is defined once, for any width, from index \<open>i\<close> on. The index is an \<^verbatim>\<open>int\<close> and so
  is its product with \<^verbatim>\<open>e_phentsize\<close>: it is sign-extended when it is added to the
  pointer \<^verbatim>\<open>elf_map + ehdr->e_phoff\<close>. C leaves the overflow of an \<^verbatim>\<open>int\<close> product
  undefined; here, and in the other products of two 16-bit fields below, the model takes
  the result of the compiled code, which wraps at 32 bits. The sentinel \<^verbatim>\<open>UINT64_MAX\<close>,
  \<^verbatim>\<open>UINT32_MAX\<close> is the word \<open>- 1\<close>. The result \<open>None\<close> is a program header that is not
  readable, or the division by zero of \<^verbatim>\<open>p_vaddr % p_align\<close> when \<^verbatim>\<open>p_align\<close> is 0, which
  ends the process.
\<close>

definition phdr_ptr :: "('a :: len) word elf_ehdr \<Rightarrow> nat \<Rightarrow> addr" where
  "phdr_ptr ehdr i =
     ucast (e_phoff ehdr) + scast ((of_nat i :: 32 word) * ucast (e_phentsize ehdr))"

function get_base_from ::
  "('a :: len) word elf_ehdr \<Rightarrow> 'a word elf_file \<Rightarrow> nat \<Rightarrow> 'a word option" where
  "get_base_from ehdr elf_map i =
     (if i < unat (e_phnum ehdr) then
        (case phdr_at elf_map (phdr_ptr ehdr i) of
           None \<Rightarrow> None
         | Some phdr \<Rightarrow>
             if p_type phdr = PT_LOAD
             then (if p_align phdr = 0 then None
                   else Some (p_vaddr phdr - p_vaddr phdr mod p_align phdr))
             else get_base_from ehdr elf_map (i + 1))
      else Some (- 1))"
  by pat_completeness auto
termination
  by (relation "measure (\<lambda>(ehdr, elf_map, i). unat (e_phnum ehdr) - i)") auto

declare get_base_from.simps [simp del]

definition get_base_64 :: "64 word elf_ehdr \<Rightarrow> 64 word elf_file \<Rightarrow> 64 word option" where
  "get_base_64 ehdr elf_map = get_base_from ehdr elf_map 0"

definition get_base_32 :: "32 word elf_ehdr \<Rightarrow> 32 word elf_file \<Rightarrow> 32 word option" where
  "get_base_32 ehdr elf_map = get_base_from ehdr elf_map 0"

text \<open>
  Modelled from the spec: \<^verbatim>\<open>_py_proc__check_sym\<close> is defined in py\_proc.c, which is not
  among the sources. Following the spec's Symbol Resolver, it holds a fixed list of anchor
  names, here the two names of \<open>anchor_names\<close>; a symbol whose name is in the list gets its
  remote address stored in the session and counts 1, any other symbol counts 0.
\<close>

record anchor_names =
  tstate_sym :: string
  runtime_sym :: string

definition py_proc__check_sym ::
  "anchor_names \<Rightarrow> py_proc \<Rightarrow> string \<Rightarrow> addr \<Rightarrow> int \<times> py_proc" where
  "py_proc__check_sym an self name v =
     (if name = tstate_sym an then (1, self\<lparr>tstate_head_raddr := v\<rparr>)
      else if name = runtime_sym an then (1, self\<lparr>py_runtime_raddr := v\<rparr>)
      else (0, self))"

text \<open>
  The macro \<^verbatim>\<open>ELF_SH_OFF(ehdr, i)\<close>, at the two types of index it is used with. With a
  16-bit \<^verbatim>\<open>e_shstrndx\<close> the product with \<^verbatim>\<open>e_shentsize\<close> is an \<^verbatim>\<open>int\<close>: it wraps at 32
  bits and is converted to the type of \<^verbatim>\<open>e_shoff\<close>, with sign extension when that type
  is wider. With a 32-bit \<^verbatim>\<open>sh_link\<close> the product is an \<^verbatim>\<open>unsigned int\<close>: it wraps at 32
  bits and is extended with zeros.
\<close>

definition ELF_SH_OFF16 :: "('a :: len) word elf_ehdr \<Rightarrow> 16 word \<Rightarrow> 'a word" where
  "ELF_SH_OFF16 ehdr i = e_shoff ehdr + scast ((ucast i * ucast (e_shentsize ehdr)) :: 32 word)"

definition ELF_SH_OFF32 :: "('a :: len) word elf_ehdr \<Rightarrow> 32 word \<Rightarrow> 'a word" where
  "ELF_SH_OFF32 ehdr i = e_shoff ehdr + ucast (i * ucast (e_shentsize ehdr))"

text \<open>
  \<^verbatim>\<open>sht_size\<close>, a 64-bit \<^verbatim>\<open>Elf64_Xword\<close> or \<^verbatim>\<open>Elf32_Xword\<close> initialised with the
  \<^verbatim>\<open>int\<close> product \<^verbatim>\<open>ehdr.e_shnum * ehdr.e_shentsize\<close>.
\<close>

definition sht_size :: "('a :: len) word elf_ehdr \<Rightarrow> 64 word" where
  "sht_size ehdr = scast ((ucast (e_shnum ehdr) * ucast (e_shentsize ehdr)) :: 32 word)"

text \<open>
  The loop over the dynamic symbols, the same text in both analyzers. \<open>p_strtabsh\<close> is the
  offset of the section header of the string table, which the loop reads at every entry.
  The state is the count \<^verbatim>\<open>symbols\<close>, the session, and the log of the entries read so
  far: the offset of each entry with the name passed to \<^verbatim>\<open>_py_proc__check_sym\<close>. The
  loop need not end (\<^verbatim>\<open>sh_entsize\<close> may be 0, the offsets may wrap) and a read may fail:
  in both cases the result is \<open>None\<close>.
\<close>

partial_function (option) scan_dynsym ::
  "anchor_names \<Rightarrow> ('a :: len) word elf_file \<Rightarrow> addr \<Rightarrow> 'a word \<Rightarrow> 'a word \<Rightarrow> 'a word \<Rightarrow> 'a word
     \<Rightarrow> int \<times> py_proc \<times> (addr \<times> string) list
     \<Rightarrow> (int \<times> py_proc \<times> (addr \<times> string) list) option" where
  "scan_dynsym an elf_map p_strtabsh b limit entsize tab_off st =
     (if tab_off < limit then
        (case sym_at elf_map (ucast tab_off) of
           None \<Rightarrow> None
         | Some entry \<Rightarrow>
        (case shdr_at elf_map p_strtabsh of
           None \<Rightarrow> None
         | Some strtabsh \<Rightarrow>
        (case str_at elf_map (ucast (sh_offset strtabsh) + ucast (st_name entry)) of
           None \<Rightarrow> None
         | Some sym_name \<Rightarrow>
             (let symbols = fst st; self = fst (snd st); tr = snd (snd st);
                  v = base (elf (map_r self)) + ucast (st_value entry - b);
                  r = py_proc__check_sym an self sym_name v;
                  symbols1 = symbols + fst r
              in if SYMBOLS \<le> symbols1
                 then Some (symbols1, snd r, tr @ [(ucast tab_off, sym_name)])
                 else scan_dynsym an elf_map p_strtabsh b limit entsize (tab_off + entsize)
                        (symbols1, snd r, tr @ [(ucast tab_off, sym_name)])))))
      else Some st)"

declare scan_dynsym.simps [code]

text \<open>
  The block \<^verbatim>\<open>if (p_dynsym != NULL) { if (p_dynsym->sh_offset != 0) { ... } }\<close>, the same
  text in both analyzers. \<open>sec\<close> is what the loop over the section headers leaves: the
  offset of the header \<^verbatim>\<open>p_dynsym\<close> points to, if any, and the session.
\<close>

definition search_dynsym ::
  "anchor_names \<Rightarrow> ('a :: len) word elf_ehdr \<Rightarrow> 'a word elf_file \<Rightarrow> 'a word
     \<Rightarrow> addr option \<times> py_proc \<Rightarrow> (int \<times> py_proc \<times> (addr \<times> string) list) option" where
  "search_dynsym an ehdr elf_map b sec =
     (case fst sec of
        None \<Rightarrow> Some (0, snd sec, [])
      | Some d \<Rightarrow>
          (case shdr_at elf_map d of
             None \<Rightarrow> None
           | Some p_dynsym \<Rightarrow>
               if sh_offset p_dynsym \<noteq> 0 then
                 scan_dynsym an elf_map (ucast (ELF_SH_OFF32 ehdr (sh_link p_dynsym))) b
                   (sh_offset p_dynsym + sh_size p_dynsym) (sh_entsize p_dynsym)
                   (sh_offset p_dynsym) (0, snd sec, [])
               else Some (0, snd sec, [])))"

text \<open>\<^verbatim>\<open>return !symbols;\<close>\<close>

definition not_symbols :: "int \<Rightarrow> int" where
  "not_symbols symbols = (if symbols = 0 then 1 else 0)"

text \<open>
  The object file is the library when \<^verbatim>\<open>lib_path\<close> is set, the binary otherwise.
\<close>

definition object_file :: "py_proc \<Rightarrow> string option" where
  "object_file self = (if lib_path self \<noteq> None then lib_path self else bin_path self)"

text \<open>
  The body of the loop over the section headers of \<^verbatim>\<open>_py_proc__analyze_elf64\<close>, and the
  loop. The 64-bit loop records \<^verbatim>\<open>.dynsym\<close> and fills \<^verbatim>\<open>map.bss\<close> from a section
  named \<^verbatim>\<open>.bss\<close>; it reads the name of every section header.
\<close>

definition sec_step_64 ::
  "64 word elf_file \<Rightarrow> addr \<Rightarrow> 64 word \<Rightarrow> 64 word \<Rightarrow> addr option \<times> py_proc
     \<Rightarrow> (addr option \<times> py_proc) option" where
  "sec_step_64 elf_map sh_name_base b sh_off st =
     (case shdr_at elf_map sh_off of
        None \<Rightarrow> None
      | Some p_shdr \<Rightarrow>
     (case str_at elf_map (sh_name_base + ucast (sh_name p_shdr)) of
        None \<Rightarrow> None
      | Some name \<Rightarrow>
          Some (if sh_type p_shdr = SHT_DYNSYM \<and> name = ''.dynsym'' then (Some sh_off, snd st)
                else if name = ''.bss''
                then (fst st,
                      (snd st)\<lparr>map_r := (map_r (snd st))\<lparr>bss :=
                         \<lparr>base = base (elf (map_r (snd st))) + (sh_addr p_shdr - b),
                          size_b = sh_size p_shdr\<rparr>\<rparr>\<rparr>)
                else st)))"

partial_function (option) scan_sections_64 ::
  "64 word elf_file \<Rightarrow> addr \<Rightarrow> 64 word \<Rightarrow> 64 word \<Rightarrow> 16 word \<Rightarrow> 64 word
     \<Rightarrow> addr option \<times> py_proc \<Rightarrow> (addr option \<times> py_proc) option" where
  "scan_sections_64 elf_map sh_name_base b elf_map_size shentsize sh_off st =
     (if sh_off < elf_map_size
      then (case sec_step_64 elf_map sh_name_base b sh_off st of
              None \<Rightarrow> None
            | Some st1 \<Rightarrow>
                scan_sections_64 elf_map sh_name_base b elf_map_size shentsize
                  (sh_off + ucast shentsize) st1)
      else Some st)"

declare scan_sections_64.simps [code]

text \<open>
  \<^verbatim>\<open>open(object_file, O_RDONLY)\<close> followed by
  \<^verbatim>\<open>mmap(NULL, elf_map_size, PROT_READ, MAP_SHARED, fd, 0)\<close>. \<^verbatim>\<open>open\<close> fails on a
  \<^verbatim>\<open>NULL\<close> path and \<^verbatim>\<open>mmap\<close> fails on a length of 0, whatever the file. Otherwise the
  two calls are the environment: the parameter \<open>files\<close> gives, for the path and the
  length, the mapping, or \<open>None\<close> when one of the two calls fails (no such file, a length
  that the kernel refuses). The code tests neither call: after a failure \<^verbatim>\<open>elf_map\<close> is
  \<^verbatim>\<open>MAP_FAILED\<close> and every read goes through it.
\<close>

definition open_mmap ::
  "(string option \<Rightarrow> addr \<Rightarrow> 'w elf_file option) \<Rightarrow> string option \<Rightarrow> addr
     \<Rightarrow> 'w elf_file option" where
  "open_mmap files path len = (if path = None \<or> len = 0 then None else files path len)"

text \<open>
  \<^verbatim>\<open>_py_proc__analyze_elf64\<close>. The first read, of the section header of the section
  names, comes before anything else. The result is the return value, the session and the
  log of the symbols read; \<open>None\<close> when the call does not return.
\<close>

definition py_proc__analyze_elf64 ::
  "anchor_names \<Rightarrow> (string option \<Rightarrow> addr \<Rightarrow> 64 word elf_file option) \<Rightarrow> ehdr_union \<Rightarrow> py_proc
     \<Rightarrow> (int \<times> py_proc \<times> (addr \<times> string) list) option" where
  "py_proc__analyze_elf64 an files ehdr_v self =
     (let ehdr = v64 ehdr_v;
          elf_map_size = e_shoff ehdr + sht_size ehdr
      in case open_mmap files (object_file self) elf_map_size of
           None \<Rightarrow> None
         | Some elf_map \<Rightarrow>
      (case shdr_at elf_map (ELF_SH_OFF16 ehdr (e_shstrndx ehdr)) of
           None \<Rightarrow> None
         | Some p_shstrtab \<Rightarrow>
      (case get_base_64 ehdr elf_map of
           None \<Rightarrow> None
         | Some b \<Rightarrow>
             if b \<noteq> - 1 then
               (case scan_sections_64 elf_map (sh_offset p_shstrtab) b elf_map_size
                       (e_shentsize ehdr) (e_shoff ehdr) (None, self) of
                  None \<Rightarrow> None
                | Some sec \<Rightarrow>
                    (case search_dynsym an ehdr elf_map b sec of
                       None \<Rightarrow> None
                     | Some y \<Rightarrow> Some (not_symbols (fst y), snd y)))
             else Some (not_symbols 0, self, []))))"

text \<open>
  The 32-bit loop over the section headers records \<^verbatim>\<open>.dynsym\<close> only, and reads the name
  of a section header only when its type is \<^verbatim>\<open>SHT_DYNSYM\<close>. In
  \<^verbatim>\<open>_py_proc__analyze_elf32\<close> the size of the mapping is an \<^verbatim>\<open>Elf32_Off\<close>: the 64-bit
  sum is truncated.
\<close>

definition sec_step_32 ::
  "32 word elf_file \<Rightarrow> addr \<Rightarrow> 32 word \<Rightarrow> addr option \<times> py_proc
     \<Rightarrow> (addr option \<times> py_proc) option" where
  "sec_step_32 elf_map sh_name_base sh_off st =
     (case shdr_at elf_map (ucast sh_off) of
        None \<Rightarrow> None
      | Some p_shdr \<Rightarrow>
          if sh_type p_shdr = SHT_DYNSYM
          then (case str_at elf_map (sh_name_base + ucast (sh_name p_shdr)) of
                  None \<Rightarrow> None
                | Some name \<Rightarrow>
                    Some (if name = ''.dynsym'' then (Some (ucast sh_off), snd st) else st))
          else Some st)"

partial_function (option) scan_sections_32 ::
  "32 word elf_file \<Rightarrow> addr \<Rightarrow> 32 word \<Rightarrow> 16 word \<Rightarrow> 32 word
     \<Rightarrow> addr option \<times> py_proc \<Rightarrow> (addr option \<times> py_proc) option" where
  "scan_sections_32 elf_map sh_name_base elf_map_size shentsize sh_off st =
     (if sh_off < elf_map_size
      then (case sec_step_32 elf_map sh_name_base sh_off st of
              None \<Rightarrow> None
            | Some st1 \<Rightarrow>
                scan_sections_32 elf_map sh_name_base elf_map_size shentsize
                  (sh_off + ucast shentsize) st1)
      else Some st)"

declare scan_sections_32.simps [code]

definition py_proc__analyze_elf32 ::
  "anchor_names \<Rightarrow> (string option \<Rightarrow> addr \<Rightarrow> 32 word elf_file option) \<Rightarrow> ehdr_union \<Rightarrow> py_proc
     \<Rightarrow> (int \<times> py_proc \<times> (addr \<times> string) list) option" where
  "py_proc__analyze_elf32 an files ehdr_v self =
     (let ehdr = v32 ehdr_v;
          elf_map_size = (ucast (ucast (e_shoff ehdr) + sht_size ehdr) :: 32 word)
      in case open_mmap files (object_file self) (ucast elf_map_size) of
           None \<Rightarrow> None
         | Some elf_map \<Rightarrow>
      (case shdr_at elf_map (ucast (ELF_SH_OFF16 ehdr (e_shstrndx ehdr))) of
           None \<Rightarrow> None
         | Some p_shstrtab \<Rightarrow>
      (case get_base_32 ehdr elf_map of
           None \<Rightarrow> None
         | Some b \<Rightarrow>
             if b \<noteq> - 1 then
               (case scan_sections_32 elf_map (ucast (sh_offset p_shstrtab)) elf_map_size
                       (e_shentsize ehdr) (e_shoff ehdr) (None, self) of
                  None \<Rightarrow> None
                | Some sec \<Rightarrow>
                    (case search_dynsym an ehdr elf_map b sec of
                       None \<Rightarrow> None
                     | Some y \<Rightarrow> Some (not_symbols (fst y), snd y)))
             else Some (not_symbols 0, self, []))))"

text \<open>
  \<^verbatim>\<open>_py_proc__analyze_elf\<close>. \<^verbatim>\<open>FAIL\<close> (hints.h) returns a non-zero status, 1 here;
  \<^verbatim>\<open>memcmp(a, b, n) != 0\<close> is \<open>memcmp\<close>. \<^verbatim>\<open>py_proc__memcpy\<close> (py\_proc.h of the
  parent directory) reads the header of the mapped binary from the target into
  \<^verbatim>\<open>ehdr_v\<close>: it is a parameter that gives its return value and the content of the buffer
  after the call. The local \<^verbatim>\<open>ehdr\<close> is initialised from \<^verbatim>\<open>ehdr_v.v64\<close> in its
  declaration, before that read. The result also gives \<^verbatim>\<open>ehdr_v\<close> after the call.
\<close>

definition FAIL :: int where "FAIL = 1"

definition memcmp :: "(nat \<Rightarrow> 8 word) \<Rightarrow> 8 word list \<Rightarrow> nat \<Rightarrow> bool" where
  "memcmp a bs n = (map a [0..<n] \<noteq> take n bs)"

record object_files =
  as_elf32 :: "string option \<Rightarrow> addr \<Rightarrow> 32 word elf_file option"
  as_elf64 :: "string option \<Rightarrow> addr \<Rightarrow> 64 word elf_file option"

definition py_proc__analyze_elf ::
  "anchor_names \<Rightarrow> object_files \<Rightarrow> (py_proc \<Rightarrow> addr \<Rightarrow> int \<times> ehdr_union) \<Rightarrow> ehdr_union
     \<Rightarrow> py_proc \<Rightarrow> (int \<times> py_proc \<times> (addr \<times> string) list) option \<times> ehdr_union" where
  "py_proc__analyze_elf an files py_proc__memcpy ehdr_v self =
     (let ehdr = v64 ehdr_v;
          rd = py_proc__memcpy self (base (elf (map_r self)));
          ehdr_v1 = snd rd
      in if fst rd \<noteq> 0 then (Some (FAIL, self, []), ehdr_v1)
         else if e_shoff ehdr = 0 \<or> e_shnum ehdr < 2 \<or> memcmp (e_ident ehdr) ELFMAG SELFMAG
         then (Some (FAIL, self, []), ehdr_v1)
         else if e_ident ehdr EI_CLASS = ELFCLASS32
         then (py_proc__analyze_elf32 an (as_elf32 files) ehdr_v1 self, ehdr_v1)
         else if e_ident ehdr EI_CLASS = ELFCLASS64
         then (py_proc__analyze_elf64 an (as_elf64 files) ehdr_v1 self, ehdr_v1)
         else (Some (FAIL, self, []), ehdr_v1))"

section \<open>Notions the claims are stated with\<close>

subsection \<open>Regions of the listing\<close>

text \<open>
  A line is a region when \<^verbatim>\<open>sscanf\<close> converted at least the seven leading fields. A
  pseudo-region is a region that stands for no memory of the program or of a file but for a
  page the kernel provides for its virtual system calls; the listing gives it a name in
  brackets that starts with \<^verbatim>\<open>[v\<close> (\<^verbatim>\<open>[vsyscall]\<close>, \<^verbatim>\<open>[vdso]\<close>, \<^verbatim>\<open>[vvar]\<close>). Every
  other region, one without a path included, is real.
\<close>

definition parsed :: "maps_line \<Rightarrow> bool" where
  "parsed e = (0 \<le> field_count e)"

definition pseudo_region :: "maps_line \<Rightarrow> bool" where
  "pseudo_region e = (field_count e \<noteq> 0 \<and> prefix ''[v'' (pathname e))"

definition real_region :: "maps_line \<Rightarrow> bool" where
  "real_region e = (parsed e \<and> \<not> pseudo_region e)"

definition real_regions :: "maps_line list \<Rightarrow> maps_line list" where
  "real_regions ls = filter real_region ls"

text \<open>
  The regions that enter the bounds in the code: those without a path and those whose path
  does not contain \<^verbatim>\<open>[v\<close>.
\<close>

definition counted :: "maps_line \<Rightarrow> bool" where
  "counted e = (0 \<le> field_count e \<and> (field_count e = 0 \<or> \<not> strstr (pathname e) ''[v''))"

definition counted_regions :: "maps_line list \<Rightarrow> maps_line list" where
  "counted_regions ls = filter counted ls"

definition region_of :: "maps_line \<Rightarrow> region" where
  "region_of e = \<lparr>base = lower e, size_b = upper e - lower e\<rparr>"

text \<open>
  A candidate is a region whose line names the interpreter family and whose backing file
  has at least \<open>2 ^ 20\<close> bytes.
\<close>

definition candidate :: "filesystem \<Rightarrow> maps_line \<Rightarrow> bool" where
  "candidate fs e =
     (0 \<le> field_count e \<and> strstr (line e) ''python'' \<and> 2 ^ 20 \<le> file_size fs (pathname e))"

text \<open>The session after the listing \<open>ls\<close> was read.\<close>

definition maps_result :: "filesystem \<Rightarrow> maps_line list \<Rightarrow> io_state \<Rightarrow> py_proc \<Rightarrow> py_proc" where
  "maps_result fs ls io self = fst (snd (py_proc__parse_maps_file fs (Inr ls) io self))"

subsection \<open>The load bias\<close>

text \<open>
  The offset of the program header number \<open>i\<close> of the table, the program headers of the
  table as the mapping gives them, the first loadable one of a list of program headers, and
  the load bias as the specification words it: the virtual address of the first loadable
  segment aligned down to the segment's alignment, the sentinel when there is no loadable
  segment. The table fits when its size is below \<open>2 ^ 31\<close>.
\<close>

definition phdr_off :: "('a :: len) word elf_ehdr \<Rightarrow> nat \<Rightarrow> addr" where
  "phdr_off ehdr i = ucast (e_phoff ehdr) + of_nat (i * unat (e_phentsize ehdr))"

definition phdrs :: "('a :: len) word elf_ehdr \<Rightarrow> 'a word elf_file \<Rightarrow> 'a word elf_phdr option list" where
  "phdrs ehdr elf_map = map (\<lambda>i. phdr_at elf_map (phdr_off ehdr i)) [0..<unat (e_phnum ehdr)]"

definition first_load :: "'w elf_phdr list \<Rightarrow> 'w elf_phdr option" where
  "first_load phs = find (\<lambda>ph. p_type ph = PT_LOAD) phs"

definition load_bias_spec :: "('a :: len) word elf_phdr list \<Rightarrow> 'a word" where
  "load_bias_spec phs =
     (case first_load phs of
        None \<Rightarrow> - 1
      | Some ph \<Rightarrow> p_vaddr ph - p_vaddr ph mod p_align ph)"

definition phdrs_fit :: "('a :: len) word elf_ehdr \<Rightarrow> bool" where
  "phdrs_fit ehdr = (unat (e_phnum ehdr) * unat (e_phentsize ehdr) < 2 ^ 31)"

subsection \<open>The dynamic symbols read\<close>

text \<open>
  Whether a name is an anchor; how many entries of a log resolve an anchor; and the offsets
  of the first \<open>n\<close> entries of a table that starts at \<open>off\<close>, in table order.
\<close>

definition is_anchor :: "anchor_names \<Rightarrow> string \<Rightarrow> bool" where
  "is_anchor an name = (name = tstate_sym an \<or> name = runtime_sym an)"

definition resolved :: "anchor_names \<Rightarrow> (addr \<times> string) list \<Rightarrow> int" where
  "resolved an tr = int (length (filter (\<lambda>x. is_anchor an (snd x)) tr))"

definition table_order :: "('a :: len) word \<Rightarrow> 'a word \<Rightarrow> nat \<Rightarrow> addr list" where
  "table_order off entsize n = map (\<lambda>k. ucast (off + of_nat k * entsize)) [0..<n]"

definition scan_post ::
  "anchor_names \<Rightarrow> ('a :: len) word \<Rightarrow> 'a word \<Rightarrow> 'a word
     \<Rightarrow> int \<times> py_proc \<times> (addr \<times> string) list
     \<Rightarrow> int \<times> py_proc \<times> (addr \<times> string) list \<Rightarrow> bool" where
  "scan_post an limit entsize off st y =
     (\<exists>tr. snd (snd y) = snd (snd st) @ tr
         \<and> map fst tr = table_order off entsize (length tr)
         \<and> fst y = fst st + resolved an tr
         \<and> (\<forall>k < length tr. off + of_nat k * entsize < limit)
         \<and> (\<forall>k < length tr. fst st + resolved an (take k tr) < SYMBOLS)
         \<and> ((0 < length tr \<and> SYMBOLS \<le> fst y) \<or> \<not> off + of_nat (length tr) * entsize < limit)
         \<and> map_r (fst (snd y)) = map_r (fst (snd st)))"

text \<open>
  A symbol entry is readable when the entry, the section header of the string table and
  the name of the entry are. A dynamic symbol table is regular when its entry size is not 0
  and stepping through it does not wrap around, and readable when each of its entries is.
\<close>

definition sym_readable :: "('a :: len) word elf_file \<Rightarrow> addr \<Rightarrow> addr \<Rightarrow> bool" where
  "sym_readable elf_map p_strtabsh off =
     (case sym_at elf_map off of
        None \<Rightarrow> False
      | Some entry \<Rightarrow>
          (case shdr_at elf_map p_strtabsh of
             None \<Rightarrow> False
           | Some strtabsh \<Rightarrow>
               str_at elf_map (ucast (sh_offset strtabsh) + ucast (st_name entry)) \<noteq> None))"

definition regular_table :: "('a :: len) word \<Rightarrow> 'a word \<Rightarrow> bool" where
  "regular_table limit entsize =
     (0 < unat entsize \<and> unat limit + unat entsize \<le> 2 ^ LENGTH('a))"

definition dynsym_readable ::
  "('a :: len) word elf_file \<Rightarrow> addr \<Rightarrow> 'a word \<Rightarrow> 'a word \<Rightarrow> 'a word \<Rightarrow> bool" where
  "dynsym_readable elf_map p_strtabsh limit entsize off =
     (\<forall>k. unat off + k * unat entsize < unat limit \<longrightarrow>
          sym_readable elf_map p_strtabsh (ucast (off + of_nat k * entsize)))"

subsection \<open>The section headers\<close>

text \<open>
  The offset of the section header number \<open>j\<close> of the table, and the name of a section
  header: the string at its \<^verbatim>\<open>sh_name\<close> in the section that \<^verbatim>\<open>e_shstrndx\<close> names. The
  table fits when its size is below \<open>2 ^ 31\<close> and its end does not wrap around; the index of
  the section names fits when the offset it stands for is below \<open>2 ^ 31\<close>.
\<close>

definition shdr_off :: "('a :: len) word elf_ehdr \<Rightarrow> nat \<Rightarrow> 'a word" where
  "shdr_off ehdr j = e_shoff ehdr + of_nat (j * unat (e_shentsize ehdr))"

definition section_name ::
  "('a :: len) word elf_ehdr \<Rightarrow> 'a word elf_file \<Rightarrow> 'a word elf_shdr \<Rightarrow> string option" where
  "section_name ehdr elf_map sh =
     (case shdr_at elf_map (ucast (shdr_off ehdr (unat (e_shstrndx ehdr)))) of
        None \<Rightarrow> None
      | Some names \<Rightarrow> str_at elf_map (ucast (sh_offset names) + ucast (sh_name sh)))"

definition table_fits :: "('a :: len) word elf_ehdr \<Rightarrow> bool" where
  "table_fits ehdr =
     (unat (e_shnum ehdr) * unat (e_shentsize ehdr) < 2 ^ 31
      \<and> unat (e_shoff ehdr) + unat (e_shnum ehdr) * unat (e_shentsize ehdr) < 2 ^ LENGTH('a))"

definition names_fit :: "('a :: len) word elf_ehdr \<Rightarrow> bool" where
  "names_fit ehdr = (unat (e_shstrndx ehdr) * unat (e_shentsize ehdr) < 2 ^ 31)"

definition map_size :: "('a :: len) word elf_ehdr \<Rightarrow> 'a word" where
  "map_size ehdr = shdr_off ehdr (unat (e_shnum ehdr))"

text \<open>
  An object file, as mapped, is well formed for the analysis when the two tables and the
  index of the section names fit, the section header of the section names is readable,
  every program header is readable and no loadable one has alignment 0, and every section
  header of the table is readable with its name and, when it is a dynamic symbol table with
  a non-zero offset, stands for a regular and readable table.
\<close>

definition well_formed :: "('a :: len) word elf_ehdr \<Rightarrow> 'a word elf_file \<Rightarrow> bool" where
  "well_formed ehdr elf_map =
     (table_fits ehdr \<and> names_fit ehdr \<and> phdrs_fit ehdr
      \<and> shdr_at elf_map (ucast (shdr_off ehdr (unat (e_shstrndx ehdr)))) \<noteq> None
      \<and> (\<exists>phs. phdrs ehdr elf_map = map Some phs
             \<and> (\<forall>ph \<in> set phs. p_type ph = PT_LOAD \<longrightarrow> p_align ph \<noteq> 0))
      \<and> (\<forall>j < unat (e_shnum ehdr).
            \<exists>sh. shdr_at elf_map (ucast (shdr_off ehdr j)) = Some sh
              \<and> section_name ehdr elf_map sh \<noteq> None
              \<and> (sh_type sh = SHT_DYNSYM \<and> sh_offset sh \<noteq> 0 \<longrightarrow>
                   regular_table (sh_offset sh + sh_size sh) (sh_entsize sh)
                   \<and> dynsym_readable elf_map (ucast (ELF_SH_OFF32 ehdr (sh_link sh)))
                       (sh_offset sh + sh_size sh) (sh_entsize sh) (sh_offset sh))))"

section \<open>Concrete inputs\<close>

subsection \<open>Listings\<close>

text \<open>
  Lines of a listing: a non-PIE interpreter binary, the heap, an anonymous region (the path
  buffer still holds the path of the line before), the virtual-syscall page, and the
  interpreter's shared library mapped below the binary.
\<close>

definition line_python :: maps_line where
  "line_python =
     \<lparr>line = ''00400000-00800000 r-xp 00000000 08:01 1234 /usr/bin/python3.6'' @ [CHR 0x0A],
      field_count = 1, lower = 0x400000, upper = 0x800000, pathname = ''/usr/bin/python3.6''\<rparr>"

definition line_heap :: maps_line where
  "line_heap =
     \<lparr>line = ''01c00000-01e00000 rw-p 00000000 00:00 0 [heap]'' @ [CHR 0x0A],
      field_count = 1, lower = 0x1c00000, upper = 0x1e00000, pathname = ''[heap]''\<rparr>"

definition line_anon :: maps_line where
  "line_anon =
     \<lparr>line = ''7f0000000000-7f0000021000 rw-p 00000000 00:00 0 '' @ [CHR 0x0A],
      field_count = 0, lower = 0x7f0000000000, upper = 0x7f0000021000, pathname = ''[heap]''\<rparr>"

definition line_vsyscall :: maps_line where
  "line_vsyscall =
     \<lparr>line = ''ffffffffff600000-ffffffffff601000 r-xp 00000000 00:00 0 [vsyscall]'' @ [CHR 0x0A],
      field_count = 1, lower = 0xffffffffff600000, upper = 0xffffffffff601000,
      pathname = ''[vsyscall]''\<rparr>"

definition line_libpython :: maps_line where
  "line_libpython =
     \<lparr>line = ''00100000-00300000 r-xp 00000000 08:01 5678 /usr/lib/libpython3.6m.so.1.0''
              @ [CHR 0x0A],
      field_count = 1, lower = 0x100000, upper = 0x300000,
      pathname = ''/usr/lib/libpython3.6m.so.1.0''\<rparr>"

definition line_bracket :: maps_line where
  "line_bracket =
     \<lparr>line = ''00400000-00800000 r-xp 00000000 08:01 1234 /opt/[v3]/bin/python3.6''
              @ [CHR 0x0A],
      field_count = 1, lower = 0x400000, upper = 0x800000,
      pathname = ''/opt/[v3]/bin/python3.6''\<rparr>"

definition maps_demo :: "maps_line list" where
  "maps_demo = [line_python, line_heap]"

definition maps_full :: "maps_line list" where
  "maps_full = [line_python, line_heap, line_anon, line_vsyscall]"

definition maps_lib_first :: "maps_line list" where
  "maps_lib_first = [line_libpython, line_python, line_heap]"

text \<open>
  A listing of an interpreter installed under a directory whose name has a bracket: the
  binary, the heap and an anonymous region.
\<close>

definition maps_bracket :: "maps_line list" where
  "maps_bracket = [line_bracket, line_heap, line_anon]"

text \<open>
  Three file systems: every file has 4 MiB, or every file has exactly 1 MiB; the binary is
  an executable (\<^verbatim>\<open>ET_EXEC\<close>), any other file a shared object (\<^verbatim>\<open>ET_DYN\<close>).
\<close>

definition fs_demo :: filesystem where
  "fs_demo = \<lparr>st_size = (\<lambda>p. 4194304),
               e_type_of = (\<lambda>p. if p = ''/usr/bin/python3.6'' then 2 else 3)\<rparr>"

definition fs_1mib :: filesystem where
  "fs_1mib = \<lparr>st_size = (\<lambda>p. 1048576),
               e_type_of = (\<lambda>p. if p = ''/usr/bin/python3.6'' then 2 else 3)\<rparr>"

definition fs_bracket :: filesystem where
  "fs_bracket = \<lparr>st_size = (\<lambda>p. 4194304),
                  e_type_of = (\<lambda>p. if p = ''/opt/[v3]/bin/python3.6'' then 2 else 3)\<rparr>"

definition proc0 :: py_proc where
  "proc0 = \<lparr>pid = 42, bin_path = None, lib_path = None, min_raddr = 0, max_raddr = 0,
     map_r = \<lparr>elf = \<lparr>base = 0, size_b = 0\<rparr>, heap = \<lparr>base = 0, size_b = 0\<rparr>,
              bss = \<lparr>base = 0, size_b = 0\<rparr>\<rparr>,
     py_runtime_raddr = 0, tstate_head_raddr = 0\<rparr>"

definition io0 :: io_state where
  "io0 = \<lparr>austin_errno = None, reads = []\<rparr>"

definition demo_session :: py_proc where
  "demo_session = fst (snd (py_proc__parse_maps_file fs_demo (Inr maps_demo) io0 proc0))"

subsection \<open>Kernels\<close>

text \<open>Three kernels: the address is unreadable, the target is gone, four bytes are transferred.\<close>

definition kernel_efault :: kernel where
  "kernel_efault p a len = Errno 14"

definition kernel_esrch :: kernel where
  "kernel_esrch p a len = Errno ESRCH"

definition kernel_partial :: kernel where
  "kernel_partial p a len = Bytes 4"

subsection \<open>Object files\<close>

text \<open>
  A kernel with pages of 4096 bytes: a mapping of the first \<open>len\<close> bytes of a file of \<open>n\<close>
  bytes makes readable the whole pages that hold some of these bytes and some bytes of the
  file. A structure or a string is readable when it ends within the readable bytes; the
  sizes are those of the structures of \<^verbatim>\<open>elf.h\<close>. Every path names the one file.
\<close>

definition page_up :: "nat \<Rightarrow> nat" where
  "page_up n = ((n + 4095) div 4096) * 4096"

definition readable_bytes :: "nat \<Rightarrow> addr \<Rightarrow> nat" where
  "readable_bytes n len = min (page_up (unat len)) (page_up n)"

definition struct_at :: "nat \<Rightarrow> nat \<Rightarrow> (addr \<Rightarrow> 'x) \<Rightarrow> addr \<Rightarrow> 'x option" where
  "struct_at ext size_of f off = (if unat off + size_of \<le> ext then Some (f off) else None)"

definition string_at :: "nat \<Rightarrow> (addr \<Rightarrow> string) \<Rightarrow> addr \<Rightarrow> string option" where
  "string_at ext f off = (if unat off + length (f off) + 1 \<le> ext then Some (f off) else None)"

text \<open>
  A 64-bit file: two program headers, the second loadable at \<open>0x400040\<close> with alignment
  \<open>0x1000\<close>; five section headers from \<open>0x2000\<close> on (null, \<^verbatim>\<open>.dynsym\<close>, \<^verbatim>\<open>.dynstr\<close>,
  \<^verbatim>\<open>.bss\<close>, \<^verbatim>\<open>.shstrtab\<close>); four dynamic symbols from \<open>0x300\<close> on, the second and
  the third of which are the two anchors.
\<close>

definition an_demo :: anchor_names where
  "an_demo = \<lparr>tstate_sym = ''_PyThreadState_Current'', runtime_sym = ''_PyRuntime''\<rparr>"

definition ident64_demo :: "nat \<Rightarrow> 8 word" where
  "ident64_demo i = (if i = 0 then 0x7f else if i = 1 then 0x45 else if i = 2 then 0x4c
                     else if i = 3 then 0x46 else if i = 4 then 2 else if i = 5 then 1
                     else if i = 6 then 1 else 0)"

definition ehdr64_demo :: "64 word elf_ehdr" where
  "ehdr64_demo = \<lparr>e_ident = ident64_demo, e_phoff = 64, e_shoff = 0x2000, e_phentsize = 56,
     e_phnum = 2, e_shentsize = 64, e_shnum = 5, e_shstrndx = 4\<rparr>"

definition phdr64_demo :: "addr \<Rightarrow> 64 word elf_phdr" where
  "phdr64_demo off =
     (if off = 64 then \<lparr>p_type = 6, p_vaddr = 0x400040, p_align = 8\<rparr>
      else if off = 120 then \<lparr>p_type = 1, p_vaddr = 0x400040, p_align = 0x1000\<rparr>
      else \<lparr>p_type = 0, p_vaddr = 0, p_align = 0\<rparr>)"

definition shdr64_demo :: "addr \<Rightarrow> 64 word elf_shdr" where
  "shdr64_demo off =
     (if off = 0x2040 then \<lparr>sh_name = 1, sh_type = 11, sh_addr = 0x400300, sh_offset = 0x300,
                             sh_size = 96, sh_link = 2, sh_entsize = 24\<rparr>
      else if off = 0x2080 then \<lparr>sh_name = 9, sh_type = 3, sh_addr = 0x400400, sh_offset = 0x400,
                                  sh_size = 43, sh_link = 0, sh_entsize = 0\<rparr>
      else if off = 0x20c0 then \<lparr>sh_name = 17, sh_type = 8, sh_addr = 0x6b0000, sh_offset = 0x1000,
                                  sh_size = 0x2000, sh_link = 0, sh_entsize = 0\<rparr>
      else if off = 0x2100 then \<lparr>sh_name = 22, sh_type = 3, sh_addr = 0, sh_offset = 0x1f00,
                                  sh_size = 32, sh_link = 0, sh_entsize = 0\<rparr>
      else \<lparr>sh_name = 0, sh_type = 0, sh_addr = 0, sh_offset = 0, sh_size = 0, sh_link = 0,
             sh_entsize = 0\<rparr>)"

definition sym64_demo :: "addr \<Rightarrow> 64 word elf_sym" where
  "sym64_demo off =
     (if off = 0x318 then \<lparr>st_name = 1, st_value = 0x6b1000\<rparr>
      else if off = 0x330 then \<lparr>st_name = 24, st_value = 0x6b1800\<rparr>
      else if off = 0x348 then \<lparr>st_name = 35, st_value = 0x4a0000\<rparr>
      else \<lparr>st_name = 0, st_value = 0\<rparr>)"

definition str_demo :: "addr \<Rightarrow> string" where
  "str_demo off =
     (if off = 0x1f01 then ''.dynsym'' else if off = 0x1f09 then ''.dynstr''
      else if off = 0x1f11 then ''.bss'' else if off = 0x1f16 then ''.shstrtab''
      else if off = 0x401 then ''_PyThreadState_Current'' else if off = 0x418 then ''_PyRuntime''
      else if off = 0x423 then ''Py_Main'' else [])"

text \<open>
  The file has \<open>0x2140\<close> bytes, up to the end of its section header table, and
  \<open>elf64_demo\<close> is its mapping in full. A second file differs in its dynamic symbols only:
  it imports the anchor \<^verbatim>\<open>_PyRuntime\<close>, an undefined symbol with value 0.
\<close>

definition elf64_view :: "(addr \<Rightarrow> 64 word elf_sym) \<Rightarrow> nat \<Rightarrow> 64 word elf_file" where
  "elf64_view syms ext =
     \<lparr>phdr_at = struct_at ext 56 phdr64_demo, shdr_at = struct_at ext 64 shdr64_demo,
      sym_at = struct_at ext 24 syms, str_at = string_at ext str_demo\<rparr>"

definition elf64_demo :: "64 word elf_file" where
  "elf64_demo = elf64_view sym64_demo 0x3000"

definition files64_demo :: "string option \<Rightarrow> addr \<Rightarrow> 64 word elf_file option" where
  "files64_demo p len = Some (elf64_view sym64_demo (readable_bytes 0x2140 len))"

definition sym64_import :: "addr \<Rightarrow> 64 word elf_sym" where
  "sym64_import off =
     (if off = 0x318 then \<lparr>st_name = 24, st_value = 0\<rparr>
      else if off = 0x330 then \<lparr>st_name = 35, st_value = 0x4a0000\<rparr>
      else \<lparr>st_name = 0, st_value = 0\<rparr>)"

definition elf64_import :: "64 word elf_file" where
  "elf64_import = elf64_view sym64_import 0x3000"

definition files64_import :: "string option \<Rightarrow> addr \<Rightarrow> 64 word elf_file option" where
  "files64_import p len = Some (elf64_view sym64_import (readable_bytes 0x2140 len))"

text \<open>
  A 32-bit file with the same strings: two program headers, the second loadable at
  \<open>0x08048000\<close>; five section headers of 40 bytes from \<open>0x2000\<close> on, \<^verbatim>\<open>.bss\<close> among
  them; three dynamic symbols of 16 bytes from \<open>0x300\<close> on, the second of which is an
  anchor.
\<close>

definition ident32_demo :: "nat \<Rightarrow> 8 word" where
  "ident32_demo i = (if i = 0 then 0x7f else if i = 1 then 0x45 else if i = 2 then 0x4c
                     else if i = 3 then 0x46 else if i = 4 then 1 else if i = 5 then 1
                     else if i = 6 then 1 else 0)"

definition ehdr32_demo :: "32 word elf_ehdr" where
  "ehdr32_demo = \<lparr>e_ident = ident32_demo, e_phoff = 52, e_shoff = 0x2000, e_phentsize = 32,
     e_phnum = 2, e_shentsize = 40, e_shnum = 5, e_shstrndx = 4\<rparr>"

definition phdr32_demo :: "addr \<Rightarrow> 32 word elf_phdr" where
  "phdr32_demo off =
     (if off = 52 then \<lparr>p_type = 6, p_vaddr = 0x08048034, p_align = 4\<rparr>
      else if off = 84 then \<lparr>p_type = 1, p_vaddr = 0x08048000, p_align = 0x1000\<rparr>
      else \<lparr>p_type = 0, p_vaddr = 0, p_align = 0\<rparr>)"

definition shdr32_demo :: "addr \<Rightarrow> 32 word elf_shdr" where
  "shdr32_demo off =
     (if off = 0x2028 then \<lparr>sh_name = 1, sh_type = 11, sh_addr = 0x08048300, sh_offset = 0x300,
                             sh_size = 48, sh_link = 2, sh_entsize = 16\<rparr>
      else if off = 0x2050 then \<lparr>sh_name = 9, sh_type = 3, sh_addr = 0x08048400,
                                  sh_offset = 0x400, sh_size = 43, sh_link = 0, sh_entsize = 0\<rparr>
      else if off = 0x2078 then \<lparr>sh_name = 17, sh_type = 8, sh_addr = 0x081b0000,
                                  sh_offset = 0x1000, sh_size = 0x2000, sh_link = 0,
                                  sh_entsize = 0\<rparr>
      else if off = 0x20a0 then \<lparr>sh_name = 22, sh_type = 3, sh_addr = 0, sh_offset = 0x1f00,
                                  sh_size = 32, sh_link = 0, sh_entsize = 0\<rparr>
      else \<lparr>sh_name = 0, sh_type = 0, sh_addr = 0, sh_offset = 0, sh_size = 0, sh_link = 0,
             sh_entsize = 0\<rparr>)"

definition sym32_demo :: "addr \<Rightarrow> 32 word elf_sym" where
  "sym32_demo off =
     (if off = 0x310 then \<lparr>st_name = 24, st_value = 0x081b1800\<rparr>
      else if off = 0x320 then \<lparr>st_name = 35, st_value = 0x080a0000\<rparr>
      else \<lparr>st_name = 0, st_value = 0\<rparr>)"

text \<open>The file has \<open>0x20c8\<close> bytes and \<open>elf32_demo\<close> is its mapping in full.\<close>

definition elf32_view :: "nat \<Rightarrow> 32 word elf_file" where
  "elf32_view ext =
     \<lparr>phdr_at = struct_at ext 32 phdr32_demo, shdr_at = struct_at ext 40 shdr32_demo,
      sym_at = struct_at ext 16 sym32_demo, str_at = string_at ext str_demo\<rparr>"

definition elf32_demo :: "32 word elf_file" where
  "elf32_demo = elf32_view 0x3000"

definition files32_demo :: "string option \<Rightarrow> addr \<Rightarrow> 32 word elf_file option" where
  "files32_demo p len = Some (elf32_view (readable_bytes 0x20c8 len))"

definition object_files_demo :: object_files where
  "object_files_demo = \<lparr>as_elf32 = files32_demo, as_elf64 = files64_demo\<rparr>"

text \<open>
  The header buffer: all zero, as a global is when the program starts, holding the header
  of the 64-bit file or of the 32-bit file, and holding headers that give the first program
  header only, which is not loadable. \<open>memcpy_demo\<close> is a successful read of the 64-bit
  header from the target.
\<close>

definition ehdr32_zero :: "32 word elf_ehdr" where
  "ehdr32_zero = \<lparr>e_ident = (\<lambda>i. 0), e_phoff = 0, e_shoff = 0, e_phentsize = 0, e_phnum = 0,
     e_shentsize = 0, e_shnum = 0, e_shstrndx = 0\<rparr>"

definition ehdr64_zero :: "64 word elf_ehdr" where
  "ehdr64_zero = \<lparr>e_ident = (\<lambda>i. 0), e_phoff = 0, e_shoff = 0, e_phentsize = 0, e_phnum = 0,
     e_shentsize = 0, e_shnum = 0, e_shstrndx = 0\<rparr>"

definition ehdr_v_zero :: ehdr_union where
  "ehdr_v_zero = \<lparr>v32 = ehdr32_zero, v64 = ehdr64_zero\<rparr>"

definition ehdr_v_demo :: ehdr_union where
  "ehdr_v_demo = \<lparr>v32 = ehdr32_zero, v64 = ehdr64_demo\<rparr>"

definition ehdr_v_demo32 :: ehdr_union where
  "ehdr_v_demo32 = \<lparr>v32 = ehdr32_demo, v64 = ehdr64_zero\<rparr>"

definition ehdr_v_noload :: ehdr_union where
  "ehdr_v_noload = \<lparr>v32 = ehdr32_demo\<lparr>e_phnum := 1\<rparr>, v64 = ehdr64_demo\<lparr>e_phnum := 1\<rparr>\<rparr>"

definition memcpy_demo :: "py_proc \<Rightarrow> addr \<Rightarrow> int \<times> ehdr_union" where
  "memcpy_demo self a = (0, ehdr_v_demo)"

text \<open>
  The sessions the analyses of the two files leave, and the one the analysis of the file
  that imports the anchor leaves.
\<close>

definition session_analysed :: py_proc where
  "session_analysed =
     demo_session\<lparr>map_r := (map_r demo_session)\<lparr>bss := \<lparr>base = 0x6b0000, size_b = 0x2000\<rparr>\<rparr>,
       py_runtime_raddr := 0x6b1800, tstate_head_raddr := 0x6b1000\<rparr>"

definition session_analysed32 :: py_proc where
  "session_analysed32 = demo_session\<lparr>py_runtime_raddr := 0x569800\<rparr>"

definition session_import :: py_proc where
  "session_import =
     demo_session\<lparr>map_r := (map_r demo_session)\<lparr>bss := \<lparr>base = 0x6b0000, size_b = 0x2000\<rparr>\<rparr>\<rparr>"



section \<open>The remote memory reader: bounds and error classification\<close>

lemma demo_session_eq:
  "demo_session =
     proc0\<lparr>bin_path := Some ''/usr/bin/python3.6'', min_raddr := 0x400000, max_raddr := 0x1e00000,
       map_r := \<lparr>elf = \<lparr>base = 0x400000, size_b = 0x400000\<rparr>,
                 heap = \<lparr>base = 0x1c00000, size_b = 0x200000\<rparr>,
                 bss = \<lparr>base = 0, size_b = 0\<rparr>\<rparr>\<rparr>"
  by (simp add: demo_session_def py_proc__parse_maps_file_def maps_demo_def line_python_def
      line_heap_def fs_demo_def io0_def proc0_def maps_step_def maps_reset_def maps_return_def
      HEAP_MAP_def update_bounds_def set_heap_def set_elf_def Let_def elf_is_executable_def
      file_size_def ET_EXEC_def)

text \<open>
  C1, as the code has it. \<open>copy_memory\<close> takes no bounds and tests none: whatever the
  address, inside or outside \<open>[min_raddr, max_raddr)\<close>, it issues exactly one call of the
  platform read primitive, at that address and with that length. Range checks are left to
  its callers.
\<close>

theorem copy_memory_issues_read:
  "reads (snd (copy_memory k io p a len)) = reads io @ [(p, a, len)]"
  by (simp add: copy_memory_def process_vm_readv_def set_error_def Let_def
      split: readv_outcome.split)

text \<open>
  C1 as stated fails: in the session that the two-line listing gives, whose bounds are
  \<open>0x400000\<close> and \<open>0x1e00000\<close>, a read at address \<open>0x10\<close> reaches the primitive.
\<close>

theorem copy_memory_out_of_bounds:
  "\<not> (min_raddr demo_session \<le> 0x10 \<and> 0x10 < max_raddr demo_session)
   \<and> reads (snd (copy_memory kernel_efault io0 (pid demo_session) 0x10 8)) = [(42, 0x10, 8)]"
  by (simp add: demo_session_eq proc0_def io0_def copy_memory_def process_vm_readv_def
      kernel_efault_def set_error_def ESRCH_def EPERM_def)

text \<open>
  C2, as the code has it. \<open>copy_memory\<close> returns 0 exactly when the primitive's return
  value equals \<open>len\<close>; for \<open>len \<noteq> -1\<close> that is exactly when \<open>len\<close> bytes were
  transferred, so a partial read returns non-zero. When the primitive fails, the error slot
  is set to \<open>EPROCNPID\<close> for \<open>ESRCH\<close>, to \<open>EPROCPERM\<close> for \<open>EPERM\<close> and to
  \<open>EMEMCOPY\<close> otherwise; when it transfers bytes, too few included, the error slot is
  left as it was. The primitive is called once: there is no retry.
\<close>

theorem copy_memory_classifies:
  "(fst (copy_memory k io p a len) = 0 \<longleftrightarrow> readv_result (k p a len) = len)
   \<and> (len \<noteq> - 1 \<longrightarrow>
        (fst (copy_memory k io p a len) = 0 \<longleftrightarrow> 0 \<le> len \<and> k p a len = Bytes (nat len)))
   \<and> (\<forall>e. k p a len = Errno e \<longrightarrow>
         austin_errno (snd (copy_memory k io p a len)) =
           Some (if e = ESRCH then EPROCNPID else if e = EPERM then EPROCPERM else EMEMCOPY))
   \<and> (\<forall>n. k p a len = Bytes n \<longrightarrow>
         austin_errno (snd (copy_memory k io p a len)) = austin_errno io)
   \<and> reads (snd (copy_memory k io p a len)) = reads io @ [(p, a, len)]"
  by (cases "k p a len")
     (auto simp add: copy_memory_def process_vm_readv_def set_error_def Let_def)

theorem copy_memory_classifies_witness:
  "fst (copy_memory kernel_esrch io0 42 0x400000 8) \<noteq> 0
   \<and> austin_errno (snd (copy_memory kernel_esrch io0 42 0x400000 8)) = Some EPROCNPID
   \<and> fst (copy_memory kernel_partial io0 42 0x400000 4) = 0
   \<and> austin_errno (snd (copy_memory kernel_partial io0 42 0x400000 4)) = None"
  using copy_memory_classifies [of kernel_esrch io0 42 "0x400000" 8]
        copy_memory_classifies [of kernel_partial io0 42 "0x400000" 4]
  by (simp add: kernel_esrch_def kernel_partial_def io0_def)

text \<open>
  C2 as stated fails: a read of 8 bytes of which 4 are transferred is a failure, and no
  error kind is recorded for it.
\<close>

theorem copy_memory_partial_read_unclassified:
  "fst (copy_memory kernel_partial io0 42 0x400000 8) \<noteq> 0
   \<and> austin_errno (snd (copy_memory kernel_partial io0 42 0x400000 8)) \<noteq> Some EPROCNPID
   \<and> austin_errno (snd (copy_memory kernel_partial io0 42 0x400000 8)) \<noteq> Some EPROCPERM
   \<and> austin_errno (snd (copy_memory kernel_partial io0 42 0x400000 8)) \<noteq> Some EMEMCOPY"
  by (simp add: copy_memory_def process_vm_readv_def kernel_partial_def io0_def)

section \<open>The maps listing: bounds\<close>

lemma update_bounds_fields [simp]:
  "bin_path (update_bounds e s) = bin_path s"
  "lib_path (update_bounds e s) = lib_path s"
  "map_r (update_bounds e s) = map_r s"
  by (simp_all add: update_bounds_def Let_def)

lemma update_bounds_min: "min_raddr (update_bounds e s) = min (lower e) (min_raddr s)"
  by (auto simp add: update_bounds_def Let_def min_def)

lemma update_bounds_max: "max_raddr (update_bounds e s) = max (upper e) (max_raddr s)"
  by (auto simp add: update_bounds_def Let_def max_def)

lemma maps_step_min:
  "min_raddr (fst (maps_step fs e (s, f))) =
     (if counted e then min (lower e) (min_raddr s) else min_raddr s)"
  by (auto simp add: maps_step_def counted_def Let_def set_heap_def
      set_elf_def update_bounds_min)

lemma maps_step_max:
  "max_raddr (fst (maps_step fs e (s, f))) =
     (if counted e then max (upper e) (max_raddr s) else max_raddr s)"
  by (auto simp add: maps_step_def counted_def Let_def set_heap_def
      set_elf_def update_bounds_max)

lemma set_counted_regions: "set (counted_regions ls) = {e \<in> set ls. counted e}"
  by (simp add: counted_regions_def)

lemma maps_loop_min:
  "min_raddr (fst (maps_loop fs ls st)) \<le> min_raddr (fst st)
   \<and> (\<forall>e \<in> set (counted_regions ls). min_raddr (fst (maps_loop fs ls st)) \<le> lower e)
   \<and> (min_raddr (fst (maps_loop fs ls st)) = min_raddr (fst st)
      \<or> min_raddr (fst (maps_loop fs ls st)) \<in> lower ` set (counted_regions ls))"
proof (induction ls arbitrary: st)
  case Nil
  then show ?case by (simp add: counted_regions_def)
next
  case (Cons e es)
  obtain s f where st: "st = (s, f)" by (cases st)
  let ?st1 = "maps_step fs e (s, f)"
  let ?m = "min_raddr (fst (maps_loop fs es ?st1))"
  have ih1: "?m \<le> min_raddr (fst ?st1)"
    and ih2: "\<forall>x \<in> set (counted_regions es). ?m \<le> lower x"
    and ih3: "?m = min_raddr (fst ?st1) \<or> ?m \<in> lower ` set (counted_regions es)"
    using Cons.IH [where st = ?st1] by blast+
  show ?case
  proof (cases "counted e")
    case True
    then have m1: "min_raddr (fst ?st1) = min (lower e) (min_raddr s)"
      by (simp add: maps_step_min)
    have a: "?m \<le> min_raddr s" using ih1 m1 by simp
    have b: "?m \<le> lower e" using ih1 m1 by simp
    have c: "?m = min_raddr s \<or> ?m = lower e \<or> ?m \<in> lower ` set (counted_regions es)"
      using ih3 m1 by (auto simp add: min_def split: if_splits)
    show ?thesis using True a b c ih2 by (auto simp add: st set_counted_regions)
  next
    case False
    then have m1: "min_raddr (fst ?st1) = min_raddr s"
      by (simp add: maps_step_min)
    show ?thesis using False ih1 ih2 ih3 m1 by (auto simp add: st set_counted_regions)
  qed
qed

lemma maps_loop_max:
  "max_raddr (fst st) \<le> max_raddr (fst (maps_loop fs ls st))
   \<and> (\<forall>e \<in> set (counted_regions ls). upper e \<le> max_raddr (fst (maps_loop fs ls st)))
   \<and> (max_raddr (fst (maps_loop fs ls st)) = max_raddr (fst st)
      \<or> max_raddr (fst (maps_loop fs ls st)) \<in> upper ` set (counted_regions ls))"
proof (induction ls arbitrary: st)
  case Nil
  then show ?case by (simp add: counted_regions_def)
next
  case (Cons e es)
  obtain s f where st: "st = (s, f)" by (cases st)
  let ?st1 = "maps_step fs e (s, f)"
  let ?m = "max_raddr (fst (maps_loop fs es ?st1))"
  have ih1: "max_raddr (fst ?st1) \<le> ?m"
    and ih2: "\<forall>x \<in> set (counted_regions es). upper x \<le> ?m"
    and ih3: "?m = max_raddr (fst ?st1) \<or> ?m \<in> upper ` set (counted_regions es)"
    using Cons.IH [where st = ?st1] by blast+
  show ?case
  proof (cases "counted e")
    case True
    then have m1: "max_raddr (fst ?st1) = max (upper e) (max_raddr s)"
      by (simp add: maps_step_max)
    have a: "max_raddr s \<le> ?m" using ih1 m1 by simp
    have b: "upper e \<le> ?m" using ih1 m1 by simp
    have c: "?m = max_raddr s \<or> ?m = upper e \<or> ?m \<in> upper ` set (counted_regions es)"
      using ih3 m1 by (auto simp add: max_def split: if_splits)
    show ?thesis using True a b c ih2 by (auto simp add: st set_counted_regions)
  next
    case False
    then have m1: "max_raddr (fst ?st1) = max_raddr s"
      by (simp add: maps_step_max)
    show ?thesis using False ih1 ih2 ih3 m1 by (auto simp add: st set_counted_regions)
  qed
qed

lemma maps_result_eq: "maps_result fs ls io self = fst (maps_loop fs ls (maps_reset self, 0))"
  by (simp add: maps_result_def py_proc__parse_maps_file_def case_prod_unfold Let_def)

text \<open>
  When the listing has a region that the code counts, \<open>min_raddr\<close> is the lowest base and
  \<open>max_raddr\<close> the highest end over the regions counted, as unsigned addresses.
\<close>

lemma maps_bounds_counted:
  assumes "counted_regions ls \<noteq> []"
  shows "min_raddr (maps_result fs ls io self) = Min (lower ` set (counted_regions ls))
       \<and> max_raddr (maps_result fs ls io self) = Max (upper ` set (counted_regions ls))"
proof -
  let ?s = "fst (maps_loop fs ls (maps_reset self, 0))"
  obtain e0 where e0: "e0 \<in> set (counted_regions ls)"
    using assms by (cases "counted_regions ls") auto
  have lo: "\<forall>e \<in> set (counted_regions ls). min_raddr ?s \<le> lower e"
    and lo_in: "min_raddr ?s = - 1 \<or> min_raddr ?s \<in> lower ` set (counted_regions ls)"
    using maps_loop_min [where fs = fs and ls = ls and st = "(maps_reset self, 0)"]
    by (simp_all add: maps_reset_def)
  have "min_raddr ?s \<in> lower ` set (counted_regions ls)"
  proof (cases "min_raddr ?s = - 1")
    case True
    then have "lower e0 = - 1" using lo e0 by (metis word_n1_ge antisym)
    then show ?thesis using True e0 by (metis imageI)
  next
    case False
    then show ?thesis using lo_in by blast
  qed
  then have min_eq: "Min (lower ` set (counted_regions ls)) = min_raddr ?s"
    using lo by (intro Min_eqI) auto
  have hi: "\<forall>e \<in> set (counted_regions ls). upper e \<le> max_raddr ?s"
    and hi_in: "max_raddr ?s = 0 \<or> max_raddr ?s \<in> upper ` set (counted_regions ls)"
    using maps_loop_max [where fs = fs and ls = ls and st = "(maps_reset self, 0)"]
    by (simp_all add: maps_reset_def)
  have "max_raddr ?s \<in> upper ` set (counted_regions ls)"
  proof (cases "max_raddr ?s = 0")
    case True
    then have "upper e0 = 0" using hi e0 by (metis word_le_0_iff)
    then show ?thesis using True e0 by (metis imageI)
  next
    case False
    then show ?thesis using hi_in by blast
  qed
  then have max_eq: "Max (upper ` set (counted_regions ls)) = max_raddr ?s"
    using hi by (intro Max_eqI) auto
  show ?thesis using min_eq max_eq by (simp add: maps_result_eq)
qed

text \<open>
  On a listing in which \<^verbatim>\<open>[v\<close> occurs in a path only at its start, the regions counted
  are the real regions, and the bounds are taken over the real regions.
\<close>

lemma prefix_strstr: "prefix needle hay \<Longrightarrow> strstr hay needle"
  by (cases hay) simp_all

lemma maps_bounds_real:
  assumes "\<forall>e \<in> set ls. strstr (pathname e) ''[v'' \<longrightarrow> prefix ''[v'' (pathname e)"
    and "real_regions ls \<noteq> []"
  shows "min_raddr (maps_result fs ls io self) = Min (lower ` set (real_regions ls))
       \<and> max_raddr (maps_result fs ls io self) = Max (upper ` set (real_regions ls))"
proof -
  have "counted e = real_region e" if "e \<in> set ls" for e
    using assms(1) that prefix_strstr [of "''[v''" "pathname e"]
    by (auto simp add: counted_def real_region_def parsed_def pseudo_region_def)
  then have "counted_regions ls = real_regions ls"
    unfolding counted_regions_def real_regions_def by (intro filter_cong) simp_all
  with maps_bounds_counted [of ls fs io self] assms(2) show ?thesis by simp
qed

lemma maps_result_bracket:
  "py_proc__parse_maps_file fs_bracket (Inr maps_bracket) io0 proc0 =
     (0,
      proc0\<lparr>min_raddr := 0x1c00000, max_raddr := 0x7f0000021000,
        bin_path := Some ''/opt/[v3]/bin/python3.6'',
        map_r := \<lparr>elf = \<lparr>base = 0x400000, size_b = 0x400000\<rparr>,
                  heap = \<lparr>base = 0x1c00000, size_b = 0x200000\<rparr>,
                  bss = \<lparr>base = 0, size_b = 0\<rparr>\<rparr>\<rparr>,
      io0)"
  by (simp add: py_proc__parse_maps_file_def maps_bracket_def maps_step_def maps_reset_def
      maps_return_def line_bracket_def line_heap_def line_anon_def fs_bracket_def proc0_def
      elf_is_executable_def file_size_def ET_EXEC_def HEAP_MAP_def
      update_bounds_def set_heap_def set_elf_def Let_def)

lemma real_regions_bracket: "real_regions maps_bracket = [line_bracket, line_heap, line_anon]"
  by (simp add: real_regions_def real_region_def maps_bracket_def parsed_def pseudo_region_def
      line_bracket_def line_heap_def line_anon_def)

text \<open>
  C9. The interpreter is installed as \<^verbatim>\<open>/opt/[v3]/bin/python3.6\<close>. Its region, from
  \<open>0x400000\<close> on, is the memory of a file and so a real region, the lowest of the listing.
  The parser succeeds and records the region as the \<open>elf\<close> region, but leaves it out of the
  bounds because its path contains \<^verbatim>\<open>[v\<close>: \<open>min_raddr\<close> is the base of the heap,
  \<open>0x1c00000\<close>, above the base of the interpreter binary.
\<close>

theorem parse_maps_bounds_bracket_path:
  "fst (py_proc__parse_maps_file fs_bracket (Inr maps_bracket) io0 proc0) = 0
   \<and> bin_path (maps_result fs_bracket maps_bracket io0 proc0) = Some ''/opt/[v3]/bin/python3.6''
   \<and> elf (map_r (maps_result fs_bracket maps_bracket io0 proc0))
       = \<lparr>base = 0x400000, size_b = 0x400000\<rparr>
   \<and> real_regions maps_bracket = [line_bracket, line_heap, line_anon]
   \<and> Min (lower ` set (real_regions maps_bracket)) = 0x400000
   \<and> min_raddr (maps_result fs_bracket maps_bracket io0 proc0) = 0x1c00000
   \<and> Max (upper ` set (real_regions maps_bracket)) = 0x7f0000021000
   \<and> max_raddr (maps_result fs_bracket maps_bracket io0 proc0) = 0x7f0000021000"
  by (simp add: maps_result_def maps_result_bracket real_regions_bracket line_bracket_def
      line_heap_def line_anon_def)

section \<open>The maps listing: the interpreter binary and library\<close>

lemma set_heap_fields [simp]:
  "bin_path (set_heap e s) = bin_path s"
  "lib_path (set_heap e s) = lib_path s"
  "elf (map_r (set_heap e s)) = elf (map_r s)"
  by (simp_all add: set_heap_def)

lemma set_elf_fields [simp]:
  "bin_path (set_elf e s) = bin_path s"
  "lib_path (set_elf e s) = lib_path s"
  "elf (map_r (set_elf e s)) = region_of e"
  by (simp_all add: set_elf_def region_of_def)

lemma maps_step_cases:
  "(bin_path (fst (maps_step fs e (s, f))) = bin_path s
      \<and> lib_path (fst (maps_step fs e (s, f))) = lib_path s
      \<and> elf (map_r (fst (maps_step fs e (s, f)))) = elf (map_r s))
   \<or> (candidate fs e \<and> elf_is_executable fs (pathname e) \<and> bin_path s = None
        \<and> bin_path (fst (maps_step fs e (s, f))) = Some (pathname e)
        \<and> lib_path (fst (maps_step fs e (s, f))) = lib_path s
        \<and> elf (map_r (fst (maps_step fs e (s, f)))) = region_of e)
   \<or> (candidate fs e \<and> \<not> elf_is_executable fs (pathname e) \<and> bin_path s = None
        \<and> lib_path s = None \<and> bin_path (fst (maps_step fs e (s, f))) = None
        \<and> lib_path (fst (maps_step fs e (s, f))) = Some (pathname e)
        \<and> elf (map_r (fst (maps_step fs e (s, f)))) = region_of e)"
  by (simp add: maps_step_def candidate_def Let_def)

lemma maps_loop_append:
  "maps_loop fs (xs @ ys) st = maps_loop fs ys (maps_loop fs xs st)"
  by (induction xs arbitrary: st) simp_all

lemma maps_loop_exec_found:
  "bin_path s \<noteq> None \<Longrightarrow>
     bin_path (fst (maps_loop fs ls (s, f))) = bin_path s
     \<and> lib_path (fst (maps_loop fs ls (s, f))) = lib_path s
     \<and> elf (map_r (fst (maps_loop fs ls (s, f)))) = elf (map_r s)"
proof (induction ls arbitrary: s f)
  case Nil
  then show ?case by simp
next
  case (Cons e es)
  obtain s1 f1 where st1: "maps_step fs e (s, f) = (s1, f1)"
    by (cases "maps_step fs e (s, f)")
  have keep: "bin_path s1 = bin_path s \<and> lib_path s1 = lib_path s
              \<and> elf (map_r s1) = elf (map_r s)"
    using maps_step_cases [of fs e s f] Cons.prems by (auto simp add: st1)
  then have "bin_path s1 \<noteq> None" using Cons.prems by simp
  from Cons.IH [OF this, of f1] keep show ?case by (simp add: st1)
qed

lemma maps_loop_bin:
  "bin_path (fst (maps_loop fs ls (s, f))) = bin_path s
   \<or> (\<exists>e \<in> set ls. candidate fs e \<and> elf_is_executable fs (pathname e)
         \<and> bin_path (fst (maps_loop fs ls (s, f))) = Some (pathname e)
         \<and> elf (map_r (fst (maps_loop fs ls (s, f)))) = region_of e)"
proof (induction ls arbitrary: s f)
  case Nil
  then show ?case by simp
next
  case (Cons e es)
  obtain s1 f1 where st1: "maps_step fs e (s, f) = (s1, f1)"
    by (cases "maps_step fs e (s, f)")
  consider (same) "bin_path s1 = bin_path s"
    | (new) "candidate fs e" "elf_is_executable fs (pathname e)"
        "bin_path s1 = Some (pathname e)" "elf (map_r s1) = region_of e"
    using maps_step_cases [of fs e s f] by (auto simp add: st1)
  then show ?case
  proof cases
    case same
    then show ?thesis using Cons.IH [of s1 f1] by (auto simp add: st1)
  next
    case new
    then have "bin_path s1 \<noteq> None" by simp
    from maps_loop_exec_found [OF this, of fs es f1] new
    show ?thesis by (auto simp add: st1)
  qed
qed

lemma maps_loop_lib:
  "lib_path (fst (maps_loop fs ls (s, f))) = lib_path s
   \<or> (\<exists>e \<in> set ls. candidate fs e \<and> \<not> elf_is_executable fs (pathname e)
         \<and> lib_path (fst (maps_loop fs ls (s, f))) = Some (pathname e))"
proof (induction ls arbitrary: s f)
  case Nil
  then show ?case by simp
next
  case (Cons e es)
  obtain s1 f1 where st1: "maps_step fs e (s, f) = (s1, f1)"
    by (cases "maps_step fs e (s, f)")
  consider (same) "lib_path s1 = lib_path s"
    | (new) "candidate fs e" "\<not> elf_is_executable fs (pathname e)" "lib_path s = None"
        "lib_path s1 = Some (pathname e)"
    using maps_step_cases [of fs e s f] by (auto simp add: st1)
  then show ?case
  proof cases
    case same
    then show ?thesis using Cons.IH [of s1 f1] by (auto simp add: st1)
  next
    case new
    show ?thesis
      using Cons.IH [of s1 f1] new by (auto simp add: st1)
  qed
qed

lemma maps_step_exec_accepted:
  "bin_path s = None \<Longrightarrow> candidate fs e \<Longrightarrow> elf_is_executable fs (pathname e) \<Longrightarrow>
   \<not> strstr (line e) (''[heap]'' @ [CHR 0x0A]) \<Longrightarrow>
     bin_path (fst (maps_step fs e (s, f))) = Some (pathname e)
     \<and> elf (map_r (fst (maps_step fs e (s, f)))) = region_of e"
  by (simp add: maps_step_def candidate_def Let_def)

text \<open>
  C3, as the code has it. A region is recorded as the binary or as the library only if its
  line contains \<^verbatim>\<open>python\<close> and its backing file has at least \<open>2 ^ 20\<close> bytes, 1 MiB
  itself included; the binary is an executable file and the \<^verbatim>\<open>elf\<close> region is then its
  region, the library is not an executable file. Once a binary is recorded, no later line
  changes the binary, the library or the \<^verbatim>\<open>elf\<close> region. As long as no binary is recorded,
  an executable candidate that is not taken for the heap is recorded as the binary, with its
  region, whether a library was recorded before it or not. When no library is recorded the
  object file handed to the analysis is the binary.
\<close>

theorem parse_maps_candidates:
  "(\<forall>p. bin_path (maps_result fs ls io self) = Some p \<longrightarrow>
      (\<exists>e \<in> set ls. candidate fs e \<and> elf_is_executable fs (pathname e) \<and> pathname e = p
         \<and> elf (map_r (maps_result fs ls io self)) = region_of e))
   \<and> (\<forall>p. lib_path (maps_result fs ls io self) = Some p \<longrightarrow>
      (\<exists>e \<in> set ls. candidate fs e \<and> \<not> elf_is_executable fs (pathname e) \<and> pathname e = p))
   \<and> (\<forall>xs ys. ls = xs @ ys \<longrightarrow> bin_path (maps_result fs xs io self) \<noteq> None \<longrightarrow>
        bin_path (maps_result fs ls io self) = bin_path (maps_result fs xs io self)
        \<and> lib_path (maps_result fs ls io self) = lib_path (maps_result fs xs io self)
        \<and> elf (map_r (maps_result fs ls io self)) = elf (map_r (maps_result fs xs io self)))
   \<and> (\<forall>xs e ys. ls = xs @ e # ys \<longrightarrow> bin_path (maps_result fs xs io self) = None \<longrightarrow>
        candidate fs e \<longrightarrow> elf_is_executable fs (pathname e) \<longrightarrow>
        \<not> strstr (line e) (''[heap]'' @ [CHR 0x0A]) \<longrightarrow>
        bin_path (maps_result fs ls io self) = Some (pathname e)
        \<and> elf (map_r (maps_result fs ls io self)) = region_of e)
   \<and> (lib_path (maps_result fs ls io self) = None \<longrightarrow>
        object_file (maps_result fs ls io self) = bin_path (maps_result fs ls io self))"
proof (intro conjI allI impI)
  fix p
  assume "bin_path (maps_result fs ls io self) = Some p"
  then show "\<exists>e \<in> set ls. candidate fs e \<and> elf_is_executable fs (pathname e) \<and> pathname e = p
         \<and> elf (map_r (maps_result fs ls io self)) = region_of e"
    using maps_loop_bin [of fs ls "maps_reset self" 0]
    by (auto simp add: maps_result_eq maps_reset_def)
next
  fix p
  assume "lib_path (maps_result fs ls io self) = Some p"
  then show "\<exists>e \<in> set ls. candidate fs e \<and> \<not> elf_is_executable fs (pathname e) \<and> pathname e = p"
    using maps_loop_lib [of fs ls "maps_reset self" 0]
    by (auto simp add: maps_result_eq maps_reset_def)
next
  fix xs ys
  assume ls: "ls = xs @ ys" and b: "bin_path (maps_result fs xs io self) \<noteq> None"
  obtain s1 f1 where st1: "maps_loop fs xs (maps_reset self, 0) = (s1, f1)"
    by (cases "maps_loop fs xs (maps_reset self, 0)")
  have "bin_path s1 \<noteq> None" using b by (simp add: maps_result_eq st1)
  from maps_loop_exec_found [OF this, of fs ys f1]
  have k: "bin_path (maps_result fs ls io self) = bin_path (maps_result fs xs io self)
        \<and> lib_path (maps_result fs ls io self) = lib_path (maps_result fs xs io self)
        \<and> elf (map_r (maps_result fs ls io self)) = elf (map_r (maps_result fs xs io self))"
    by (simp add: maps_result_eq ls maps_loop_append st1)
  from k show "bin_path (maps_result fs ls io self) = bin_path (maps_result fs xs io self)"
    by simp
  from k show "lib_path (maps_result fs ls io self) = lib_path (maps_result fs xs io self)"
    by simp
  from k show "elf (map_r (maps_result fs ls io self)) = elf (map_r (maps_result fs xs io self))"
    by simp
next
  fix xs e ys
  assume ls: "ls = xs @ e # ys" and b: "bin_path (maps_result fs xs io self) = None"
    and c: "candidate fs e" "elf_is_executable fs (pathname e)"
      "\<not> strstr (line e) (''[heap]'' @ [CHR 0x0A])"
  obtain s1 f1 where st1: "maps_loop fs xs (maps_reset self, 0) = (s1, f1)"
    by (cases "maps_loop fs xs (maps_reset self, 0)")
  obtain s2 f2 where st2: "maps_step fs e (s1, f1) = (s2, f2)"
    by (cases "maps_step fs e (s1, f1)")
  have "bin_path s1 = None" using b by (simp add: maps_result_eq st1)
  from maps_step_exec_accepted [OF this c, of f1]
  have acc: "bin_path s2 = Some (pathname e)" "elf (map_r s2) = region_of e"
    by (simp_all add: st2)
  then have "bin_path s2 \<noteq> None" by simp
  from maps_loop_exec_found [OF this, of fs ys f2] acc
  have k: "bin_path (maps_result fs ls io self) = Some (pathname e)
     \<and> elf (map_r (maps_result fs ls io self)) = region_of e"
    by (simp add: maps_result_eq ls maps_loop_append st1 st2)
  from k show "bin_path (maps_result fs ls io self) = Some (pathname e)" by simp
  from k show "elf (map_r (maps_result fs ls io self)) = region_of e" by simp
next
  assume "lib_path (maps_result fs ls io self) = None"
  then show "object_file (maps_result fs ls io self) = bin_path (maps_result fs ls io self)"
    by (simp add: object_file_def)
qed

lemma maps_result_demo: "maps_result fs_demo maps_demo io0 proc0 = demo_session"
  by (simp add: maps_result_def demo_session_def)

lemma candidate_line_python: "candidate fs_demo line_python"
  by (simp add: candidate_def line_python_def fs_demo_def file_size_def)

theorem parse_maps_candidates_witness:
  "bin_path (maps_result fs_demo maps_demo io0 proc0) = Some ''/usr/bin/python3.6''
   \<and> lib_path (maps_result fs_demo maps_demo io0 proc0) = None
   \<and> candidate fs_demo line_python
   \<and> elf_is_executable fs_demo (pathname line_python)
   \<and> \<not> strstr (line line_python) (''[heap]'' @ [CHR 0x0A])
   \<and> maps_demo = [] @ line_python # [line_heap]
   \<and> bin_path (maps_result fs_demo [] io0 proc0) = None
   \<and> elf (map_r (maps_result fs_demo maps_demo io0 proc0)) = region_of line_python
   \<and> object_file (maps_result fs_demo maps_demo io0 proc0) = Some ''/usr/bin/python3.6''"
proof -
  have a: "bin_path (maps_result fs_demo maps_demo io0 proc0) = Some ''/usr/bin/python3.6''"
    and b: "lib_path (maps_result fs_demo maps_demo io0 proc0) = None"
    unfolding maps_result_demo by (simp_all add: demo_session_eq proc0_def)
  have c: "elf_is_executable fs_demo (pathname line_python)"
    by (simp add: elf_is_executable_def fs_demo_def line_python_def ET_EXEC_def)
  have d: "\<not> strstr (line line_python) (''[heap]'' @ [CHR 0x0A])"
    by (simp add: line_python_def)
  have e: "maps_demo = [] @ line_python # [line_heap]"
    by (simp add: maps_demo_def)
  have f: "bin_path (maps_result fs_demo [] io0 proc0) = None"
    by (simp add: maps_result_eq maps_reset_def)
  show ?thesis
    using parse_maps_candidates [of fs_demo maps_demo io0 proc0] a b c d e f
      candidate_line_python
    by (metis (no_types, lifting))
qed

text \<open>
  C3 as stated fails: the binary of exactly 1 MiB is accepted, and its size does not exceed
  1 MiB.
\<close>

theorem parse_maps_accepts_1mib:
  "fst (py_proc__parse_maps_file fs_1mib (Inr maps_demo) io0 proc0) = 0
   \<and> bin_path (maps_result fs_1mib maps_demo io0 proc0) = Some ''/usr/bin/python3.6''
   \<and> elf (map_r (maps_result fs_1mib maps_demo io0 proc0)) = region_of line_python
   \<and> \<not> 2 ^ 20 < file_size fs_1mib ''/usr/bin/python3.6''"
  by (simp add: maps_result_def py_proc__parse_maps_file_def maps_demo_def line_python_def
      line_heap_def fs_1mib_def io0_def proc0_def maps_step_def maps_reset_def maps_return_def
      HEAP_MAP_def update_bounds_def set_heap_def set_elf_def Let_def elf_is_executable_def
      file_size_def ET_EXEC_def region_of_def)

text \<open>
  C4 fails on the code. With the library mapped below the binary, the library is recorded
  first and the binary after it: the parse succeeds with both paths set, the \<^verbatim>\<open>elf\<close> region
  is the binary's, and the object file handed to the analysis is the library.
\<close>

theorem parse_maps_both_paths:
  "fst (py_proc__parse_maps_file fs_demo (Inr maps_lib_first) io0 proc0) = 0
   \<and> bin_path (maps_result fs_demo maps_lib_first io0 proc0) = Some ''/usr/bin/python3.6''
   \<and> lib_path (maps_result fs_demo maps_lib_first io0 proc0)
       = Some ''/usr/lib/libpython3.6m.so.1.0''
   \<and> elf (map_r (maps_result fs_demo maps_lib_first io0 proc0)) = region_of line_python
   \<and> object_file (maps_result fs_demo maps_lib_first io0 proc0)
       = Some ''/usr/lib/libpython3.6m.so.1.0''"
  by (simp add: maps_result_def py_proc__parse_maps_file_def maps_lib_first_def line_python_def
      line_heap_def line_libpython_def fs_demo_def io0_def proc0_def maps_step_def maps_reset_def
      maps_return_def HEAP_MAP_def update_bounds_def set_heap_def set_elf_def Let_def
      elf_is_executable_def file_size_def ET_EXEC_def region_of_def object_file_def)

section \<open>The offsets of table entries\<close>

text \<open>
  An \<^verbatim>\<open>int\<close> product below \<open>2 ^ 31\<close> does not wrap, and its extension is the product.
\<close>

lemma scast_of_nat_small:
  assumes "n < 2 ^ 31"
  shows "(scast (of_nat n :: 32 word) :: ('b :: len) word) = of_nat n"
proof -
  have "signed_take_bit 31 (int n) = int n"
    using assms by (intro signed_take_bit_int_eq_self) simp_all
  then show ?thesis by (simp add: signed_of_nat)
qed

lemma int_product:
  fixes x y :: "16 word"
  assumes "unat x * unat y < 2 ^ 31"
  shows "(scast ((ucast x * ucast y) :: 32 word) :: ('b :: len) word) = of_nat (unat x * unat y)"
proof -
  have "(ucast x * ucast y :: 32 word) = of_nat (unat x * unat y)"
    by (simp add: of_nat_unat)
  then show ?thesis using scast_of_nat_small [OF assms] by simp
qed

lemma int_index_product:
  fixes y :: "16 word"
  assumes "i * unat y < 2 ^ 31"
  shows "(scast ((of_nat i :: 32 word) * ucast y) :: ('b :: len) word) = of_nat (i * unat y)"
proof -
  have "((of_nat i :: 32 word) * ucast y) = of_nat (i * unat y)"
    by (simp add: of_nat_unat)
  then show ?thesis using scast_of_nat_small [OF assms] by simp
qed

lemma phdr_ptr_off:
  "i * unat (e_phentsize ehdr) < 2 ^ 31 \<Longrightarrow> phdr_ptr ehdr i = phdr_off ehdr i"
  by (simp add: phdr_ptr_def phdr_off_def int_index_product)

lemma ELF_SH_OFF16_names:
  "names_fit ehdr \<Longrightarrow> ELF_SH_OFF16 ehdr (e_shstrndx ehdr) = shdr_off ehdr (unat (e_shstrndx ehdr))"
  by (simp add: ELF_SH_OFF16_def shdr_off_def names_fit_def int_product)

lemma sht_size_fits:
  "unat (e_shnum ehdr) * unat (e_shentsize ehdr) < 2 ^ 31 \<Longrightarrow>
     sht_size ehdr = of_nat (unat (e_shnum ehdr) * unat (e_shentsize ehdr))"
  by (simp add: sht_size_def int_product)

lemma map_size_64:
  fixes ehdr :: "64 word elf_ehdr"
  shows "table_fits ehdr \<Longrightarrow> e_shoff ehdr + sht_size ehdr = map_size ehdr"
  by (simp add: table_fits_def sht_size_fits map_size_def shdr_off_def)

lemma map_size_32:
  fixes ehdr :: "32 word elf_ehdr"
  assumes "table_fits ehdr"
  shows "(ucast (ucast (e_shoff ehdr) + sht_size ehdr) :: 32 word) = map_size ehdr"
proof -
  define m where "m = unat (e_shnum ehdr) * unat (e_shentsize ehdr)"
  have m: "m < 2 ^ 31" using assms by (simp add: table_fits_def m_def)
  have s: "sht_size ehdr = of_nat m" using assms by (simp add: table_fits_def sht_size_fits m_def)
  have "(ucast (ucast (e_shoff ehdr) + (of_nat m :: 64 word)) :: 32 word) = e_shoff ehdr + of_nat m"
    by (simp add: word_unat_eq_iff unat_word_ariths unat_of_nat
        unsigned_ucast_eq take_bit_eq_mod mod_simps mod_mod_cancel)
  then show ?thesis by (simp add: s map_size_def shdr_off_def m_def)
qed

text \<open>
  The end of a table that fits: the offsets of its entries lie below it, in steps of the
  entry size.
\<close>

lemma table_end:
  fixes ehdr :: "('a :: len) word elf_ehdr"
  assumes "table_fits ehdr"
  shows "unat (e_shoff ehdr) + unat (e_shnum ehdr) * unat (e_shentsize ehdr)
           = unat (map_size ehdr)"
proof -
  define m where "m = unat (e_shnum ehdr) * unat (e_shentsize ehdr)"
  have m: "unat (e_shoff ehdr) + m < 2 ^ LENGTH('a)"
    using assms by (simp add: table_fits_def m_def)
  then have "m < 2 ^ LENGTH('a)" by simp
  then have um: "unat (of_nat m :: 'a word) = m" by (simp add: unat_of_nat)
  have "unat (e_shoff ehdr) + unat (of_nat m :: 'a word) < 2 ^ LENGTH('a)"
    using m um by simp
  then have "unat (e_shoff ehdr + of_nat m) = unat (e_shoff ehdr) + unat (of_nat m :: 'a word)"
    by (rule unat_add_lem [THEN iffD1])
  then show ?thesis using um by (simp add: map_size_def shdr_off_def m_def)
qed

section \<open>The dynamic-symbol scan\<close>

lemma check_sym_fst:
  "fst (py_proc__check_sym an self name v) = (if is_anchor an name then 1 else 0)"
  by (simp add: py_proc__check_sym_def is_anchor_def)

lemma check_sym_frame [simp]:
  "map_r (snd (py_proc__check_sym an self name v)) = map_r self"
  "bin_path (snd (py_proc__check_sym an self name v)) = bin_path self"
  "lib_path (snd (py_proc__check_sym an self name v)) = lib_path self"
  by (simp_all add: py_proc__check_sym_def)

lemma resolved_Nil [simp]: "resolved an [] = 0"
  by (simp add: resolved_def)

lemma resolved_Cons:
  "resolved an (x # xs) = (if is_anchor an (snd x) then 1 else 0) + resolved an xs"
  by (simp add: resolved_def)

lemma resolved_pos: "(resolved an tr \<noteq> 0) = (\<exists>x \<in> set tr. is_anchor an (snd x))"
  by (simp add: resolved_def filter_empty_conv)

lemma table_order_Suc:
  "table_order off entsize (Suc n) = ucast off # table_order (off + entsize) entsize n"
proof -
  have "[0..<Suc n] = 0 # map Suc [0..<n]"
    by (simp add: upt_conv_Cons map_Suc_upt del: upt_Suc)
  then show ?thesis
    by (simp add: table_order_def comp_def algebra_simps del: upt_Suc)
qed

lemma take_table_order:
  "k \<le> n \<Longrightarrow> take k (table_order off ent n) = table_order off ent k"
  by (simp add: table_order_def take_map min_def)

lemma length_table_order [simp]: "length (table_order off ent n) = n"
  by (simp add: table_order_def)

lemma resolved_append: "resolved an (xs @ ys) = resolved an xs + resolved an ys"
  by (simp add: resolved_def)

lemma scan_dynsym_body:
  assumes "off < limit"
    and "(if off < limit then
        (case sym_at elf_map (ucast off) of
           None \<Rightarrow> None
         | Some entry \<Rightarrow>
        (case shdr_at elf_map p of
           None \<Rightarrow> None
         | Some strtabsh \<Rightarrow>
        (case str_at elf_map (ucast (sh_offset strtabsh) + ucast (st_name entry)) of
           None \<Rightarrow> None
         | Some sym_name \<Rightarrow>
             (let symbols = fst st; self = fst (snd st); tr = snd (snd st);
                  v = base (elf (map_r self)) + ucast (st_value entry - b);
                  r = py_proc__check_sym an self sym_name v;
                  symbols1 = symbols + fst r
              in if SYMBOLS \<le> symbols1
                 then Some (symbols1, snd r, tr @ [(ucast off, sym_name)])
                 else scan an elf_map p b limit entsize (off + entsize)
                        (symbols1, snd r, tr @ [(ucast off, sym_name)])))))
      else Some st) = Some y"
  shows "\<exists>nm r. fst r = (if is_anchor an nm then 1 else 0)
           \<and> map_r (snd r) = map_r (fst (snd st))
           \<and> (if SYMBOLS \<le> fst st + fst r
               then Some (fst st + fst r, snd r, snd (snd st) @ [(ucast off, nm)])
               else scan an elf_map p b limit entsize (off + entsize)
                      (fst st + fst r, snd r, snd (snd st) @ [(ucast off, nm)])) = Some y"
proof -
  obtain entry where e: "sym_at elf_map (ucast off) = Some entry"
    using assms by (cases "sym_at elf_map (ucast off)") simp_all
  obtain strtabsh where h: "shdr_at elf_map p = Some strtabsh"
    using assms e by (cases "shdr_at elf_map p") simp_all
  obtain nm where n:
    "str_at elf_map (ucast (sh_offset strtabsh) + ucast (st_name entry)) = Some nm"
    using assms e h
    by (cases "str_at elf_map (ucast (sh_offset strtabsh) + ucast (st_name entry))") simp_all
  define r where "r = py_proc__check_sym an (fst (snd st)) nm
      (base (elf (map_r (fst (snd st)))) + ucast (st_value entry - b))"
  have "(if SYMBOLS \<le> fst st + fst r
         then Some (fst st + fst r, snd r, snd (snd st) @ [(ucast off, nm)])
         else scan an elf_map p b limit entsize (off + entsize)
                (fst st + fst r, snd r, snd (snd st) @ [(ucast off, nm)])) = Some y"
    using assms by (simp add: e h n r_def Let_def split: if_splits)
  moreover have "fst r = (if is_anchor an nm then 1 else 0)"
    by (simp add: r_def check_sym_fst)
  moreover have "map_r (snd r) = map_r (fst (snd st))" by (simp add: r_def)
  ultimately show ?thesis by blast
qed

lemma scan_dynsym_post:
  "scan_dynsym an elf_map p b limit entsize off st = Some y \<Longrightarrow> fst st < SYMBOLS \<Longrightarrow>
     scan_post an limit entsize off st y"
proof (induction an elf_map p b limit entsize off st y
    rule: scan_dynsym.raw_induct [rotated 1, consumes 1, case_names step])
  case (step scan an elf_map p b limit entsize off st y)
  show ?case
  proof (cases "off < limit")
    case False
    with step.hyps have "y = st" by simp
    with False show ?thesis
      by (auto simp add: scan_post_def table_order_def intro!: exI [of _ "[]"])
  next
    case True
    from scan_dynsym_body [where scan = scan, OF True step.hyps]
    obtain nm r where r: "fst r = (if is_anchor an nm then 1 else 0)"
      and mr: "map_r (snd r) = map_r (fst (snd st))"
      and body: "(if SYMBOLS \<le> fst st + fst r
               then Some (fst st + fst r, snd r, snd (snd st) @ [(ucast off, nm)])
               else scan an elf_map p b limit entsize (off + entsize)
                      (fst st + fst r, snd r, snd (snd st) @ [(ucast off, nm)])) = Some y"
      by blast
    define symbols1 where "symbols1 = fst st + fst r"
    have s1: "symbols1 = fst st + (if is_anchor an nm then 1 else 0)"
      by (simp add: symbols1_def r)
    show ?thesis
    proof (cases "SYMBOLS \<le> symbols1")
      case True
      with body have y: "y = (symbols1, snd r, snd (snd st) @ [(ucast off, nm)])"
        by (simp add: symbols1_def)
      show ?thesis
        unfolding scan_post_def
        apply (intro exI [of _ "[(ucast off, nm)]"])
        using \<open>off < limit\<close> True step.prems s1 mr
        by (simp add: y resolved_Cons table_order_def)
    next
      case False
      with body have rec: "scan an elf_map p b limit entsize (off + entsize)
                        (symbols1, snd r, snd (snd st) @ [(ucast off, nm)]) = Some y"
        by (simp add: symbols1_def)
      have "fst (symbols1, snd r, snd (snd st) @ [(ucast off, nm)]) < SYMBOLS"
        using False by simp
      from step.IH [OF rec this]
      obtain tr where n:
        "snd (snd y) = (snd (snd st) @ [(ucast off, nm)]) @ tr"
        "map fst tr = table_order (off + entsize) entsize (length tr)"
        "fst y = symbols1 + resolved an tr"
        "\<forall>k < length tr. off + entsize + of_nat k * entsize < limit"
        "\<forall>k < length tr. symbols1 + resolved an (take k tr) < SYMBOLS"
        "(0 < length tr \<and> SYMBOLS \<le> fst y)
           \<or> \<not> off + entsize + of_nat (length tr) * entsize < limit"
        "map_r (fst (snd y)) = map_r (snd r)"
        unfolding scan_post_def by auto
      let ?tr = "(ucast off, nm) # tr"
      have a: "snd (snd y) = snd (snd st) @ ?tr" using n(1) by simp
      have a2: "map fst ?tr = table_order off entsize (length ?tr)"
        using n(2) by (simp add: table_order_Suc)
      have b: "fst y = fst st + resolved an ?tr"
        using n(3) s1 by (simp add: resolved_Cons)
      have c: "\<forall>k < length ?tr. off + of_nat k * entsize < limit"
      proof (intro allI impI)
        fix k assume "k < length ?tr"
        show "off + of_nat k * entsize < limit"
        proof (cases k)
          case 0
          then show ?thesis using \<open>off < limit\<close> by simp
        next
          case (Suc j)
          then have "j < length tr" using \<open>k < length ?tr\<close> by simp
          then show ?thesis using n(4) Suc by (simp add: algebra_simps)
        qed
      qed
      have d: "\<forall>k < length ?tr. fst st + resolved an (take k ?tr) < SYMBOLS"
      proof (intro allI impI)
        fix k assume "k < length ?tr"
        show "fst st + resolved an (take k ?tr) < SYMBOLS"
        proof (cases k)
          case 0
          then show ?thesis using step.prems by simp
        next
          case (Suc j)
          then have "j < length tr" using \<open>k < length ?tr\<close> by simp
          with n(5) have "symbols1 + resolved an (take j tr) < SYMBOLS" by blast
          then show ?thesis
            using Suc s1 by (auto simp add: resolved_Cons split: if_splits)
        qed
      qed
      have e: "(0 < length ?tr \<and> SYMBOLS \<le> fst y)
          \<or> \<not> off + of_nat (length ?tr) * entsize < limit"
        using n(6) by (auto simp add: algebra_simps)
      have f: "map_r (fst (snd y)) = map_r (fst (snd st))"
        using n(7) mr by simp
      show ?thesis
        unfolding scan_post_def using a a2 b c d e f by blast
    qed
  qed
qed

lemma scan_dynsym_result:
  assumes "scan_dynsym an elf_map p b limit ent off (0, self, []) = Some y"
  shows "fst y = resolved an (snd (snd y))"
    and "map fst (snd (snd y)) = table_order off ent (length (snd (snd y)))"
    and "\<forall>k < length (snd (snd y)). resolved an (take k (snd (snd y))) < SYMBOLS"
    and "\<forall>k < length (snd (snd y)). off + of_nat k * ent < limit"
    and "SYMBOLS \<le> resolved an (snd (snd y))
         \<or> \<not> off + of_nat (length (snd (snd y))) * ent < limit"
    and "map_r (fst (snd y)) = map_r self"
proof -
  have "scan_post an limit ent off (0, self, []) y"
    using scan_dynsym_post [OF assms] by (simp add: SYMBOLS_def)
  then obtain tr where n:
    "snd (snd y) = tr"
    "map fst tr = table_order off ent (length tr)"
    "fst y = resolved an tr"
    "\<forall>k < length tr. off + of_nat k * ent < limit"
    "\<forall>k < length tr. resolved an (take k tr) < SYMBOLS"
    "(0 < length tr \<and> SYMBOLS \<le> fst y) \<or> \<not> off + of_nat (length tr) * ent < limit"
    "map_r (fst (snd y)) = map_r self"
    unfolding scan_post_def by auto
  show "fst y = resolved an (snd (snd y))" using n(1,3) by simp
  show "map fst (snd (snd y)) = table_order off ent (length (snd (snd y)))"
    using n(1,2) by simp
  show "\<forall>k < length (snd (snd y)). resolved an (take k (snd (snd y))) < SYMBOLS"
    using n(1,5) by simp
  show "\<forall>k < length (snd (snd y)). off + of_nat k * ent < limit"
    using n(1,4) by simp
  show "SYMBOLS \<le> resolved an (snd (snd y))
         \<or> \<not> off + of_nat (length (snd (snd y))) * ent < limit"
    using n(1,3,6) by auto
  show "map_r (fst (snd y)) = map_r self" by (rule n(7))
qed

lemma search_dynsym_result:
  assumes "search_dynsym an ehdr elf_map b sec = Some y"
  shows "fst y = resolved an (snd (snd y))"
    and "\<forall>k < length (snd (snd y)). resolved an (take k (snd (snd y))) < SYMBOLS"
    and "map_r (fst (snd y)) = map_r (snd sec)"
proof -
  have "y = (0, snd sec, [])
        \<or> (\<exists>p limit ent off.
              scan_dynsym an elf_map p b limit ent off (0, snd sec, []) = Some y)"
    using assms unfolding search_dynsym_def
    by (auto split: option.splits if_splits)
  then have "fst y = resolved an (snd (snd y))
      \<and> (\<forall>k < length (snd (snd y)). resolved an (take k (snd (snd y))) < SYMBOLS)
      \<and> map_r (fst (snd y)) = map_r (snd sec)"
  proof (elim disjE exE)
    assume "y = (0, snd sec, [])"
    then show ?thesis by simp
  next
    fix p limit ent off
    assume "scan_dynsym an elf_map p b limit ent off (0, snd sec, []) = Some y"
    from scan_dynsym_result(1,3,6) [OF this] show ?thesis by simp
  qed
  then show "fst y = resolved an (snd (snd y))"
    and "\<forall>k < length (snd (snd y)). resolved an (take k (snd (snd y))) < SYMBOLS"
    and "map_r (fst (snd y)) = map_r (snd sec)" by simp_all
qed

lemma not_symbols_iff: "(not_symbols s = 0) = (s \<noteq> 0)"
  by (simp add: not_symbols_def)

lemma not_symbols_0 [simp]: "not_symbols 0 = 1"
  by (simp add: not_symbols_def)

lemma not_symbols_range: "not_symbols s = 0 \<or> not_symbols s = 1"
  by (simp add: not_symbols_def)

lemma analyze_elf64_cases:
  assumes "py_proc__analyze_elf64 an files ehdr_v self = Some r"
  shows "r = (1, self, [])
       \<or> (\<exists>elf_map b sec y. search_dynsym an (v64 ehdr_v) elf_map b sec = Some y
             \<and> r = (not_symbols (fst y), snd y))"
  using assms unfolding py_proc__analyze_elf64_def Let_def
  by (simp split: option.splits if_splits del: split_paired_Ex) blast+

lemma analyze_elf32_cases:
  assumes "py_proc__analyze_elf32 an files ehdr_v self = Some r"
  shows "r = (1, self, [])
       \<or> (\<exists>elf_map b sec y. search_dynsym an (v32 ehdr_v) elf_map b sec = Some y
             \<and> r = (not_symbols (fst y), snd y))"
  using assms unfolding py_proc__analyze_elf32_def Let_def
  by (simp split: option.splits if_splits del: split_paired_Ex) blast+

lemma search_success_iff:
  assumes "search_dynsym an ehdr elf_map b sec = Some y"
    and "r = (not_symbols (fst y), snd y)"
  shows "(fst r = 0) = (\<exists>x \<in> set (snd (snd r)). is_anchor an (snd x))"
    and "\<forall>k < length (snd (snd r)). resolved an (take k (snd (snd r))) < SYMBOLS"
  using search_dynsym_result(1,2) [OF assms(1)] assms(2)
  by (simp_all add: not_symbols_iff resolved_pos)

section \<open>Which loops return\<close>

lemma scan_dynsym_returns:
  fixes limit entsize off :: "('a :: len) word"
  assumes "0 < unat entsize" and "unat limit + unat entsize \<le> 2 ^ LENGTH('a)"
  shows "dynsym_readable elf_map p limit entsize off \<Longrightarrow>
           \<exists>y. scan_dynsym an elf_map p b limit entsize off st = Some y"
proof (induction "unat limit - unat off" arbitrary: off st rule: less_induct)
  case less
  show ?case
  proof (cases "off < limit")
    case False
    then show ?thesis by (subst scan_dynsym.simps) (simp del: split_paired_Ex)
  next
    case True
    then have lt: "unat off < unat limit" by (simp add: word_less_nat_alt)
    then have "unat off + unat entsize < 2 ^ LENGTH('a)" using assms(2) by simp
    then have nxt: "unat (off + entsize) = unat off + unat entsize"
      by (rule unat_add_lem [THEN iffD1])
    have dec: "unat limit - unat (off + entsize) < unat limit - unat off"
      using nxt lt assms(1) by simp
    have "unat off + 0 * unat entsize < unat limit \<longrightarrow>
        sym_readable elf_map p (ucast (off + of_nat 0 * entsize))"
      using less.prems unfolding dynsym_readable_def by blast
    then have "sym_readable elf_map p (ucast off)" using lt by simp
    then obtain entry strtabsh nm where rd: "sym_at elf_map (ucast off) = Some entry"
      "shdr_at elf_map p = Some strtabsh"
      "str_at elf_map (ucast (sh_offset strtabsh) + ucast (st_name entry)) = Some nm"
      by (auto simp add: sym_readable_def split: option.splits)
    have next_ok: "dynsym_readable elf_map p limit entsize (off + entsize)"
      unfolding dynsym_readable_def
    proof (intro allI impI)
      fix k
      assume "unat (off + entsize) + k * unat entsize < unat limit"
      then have "unat off + Suc k * unat entsize < unat limit" using nxt by simp
      then have "sym_readable elf_map p (ucast (off + of_nat (Suc k) * entsize))"
        using less.prems unfolding dynsym_readable_def by blast
      then show "sym_readable elf_map p (ucast (off + entsize + of_nat k * entsize))"
        by (simp add: algebra_simps)
    qed
    define r where "r = py_proc__check_sym an (fst (snd st)) nm
        (base (elf (map_r (fst (snd st)))) + ucast (st_value entry - b))"
    define st1 where "st1 = (fst st + fst r, snd r, snd (snd st) @ [(ucast off :: addr, nm)])"
    have unf: "scan_dynsym an elf_map p b limit entsize off st =
        (if SYMBOLS \<le> fst st + fst r then Some st1
         else scan_dynsym an elf_map p b limit entsize (off + entsize) st1)"
      unfolding st1_def r_def
      by (subst scan_dynsym.simps) (simp add: True rd Let_def)
    show ?thesis
    proof (cases "SYMBOLS \<le> fst st + fst r")
      case True
      then show ?thesis by (simp add: unf del: split_paired_Ex)
    next
      case False
      then show ?thesis
        using less.hyps [OF dec next_ok, of st1] by (simp add: unf del: split_paired_Ex)
    qed
  qed
qed

lemma search_dynsym_returns:
  fixes ehdr :: "('a :: len) word elf_ehdr"
  assumes "\<forall>d. fst sec = Some d \<longrightarrow>
     (\<exists>sh. shdr_at elf_map d = Some sh
        \<and> (sh_offset sh \<noteq> 0 \<longrightarrow>
             regular_table (sh_offset sh + sh_size sh) (sh_entsize sh)
             \<and> dynsym_readable elf_map (ucast (ELF_SH_OFF32 ehdr (sh_link sh)))
                 (sh_offset sh + sh_size sh) (sh_entsize sh) (sh_offset sh)))"
  shows "\<exists>y. search_dynsym an ehdr elf_map b sec = Some y"
proof (cases "fst sec")
  case None
  then show ?thesis by (simp add: search_dynsym_def del: split_paired_Ex)
next
  case (Some d)
  with assms obtain sh where sh: "shdr_at elf_map d = Some sh"
    and ok: "sh_offset sh \<noteq> 0 \<longrightarrow>
             regular_table (sh_offset sh + sh_size sh) (sh_entsize sh)
             \<and> dynsym_readable elf_map (ucast (ELF_SH_OFF32 ehdr (sh_link sh)))
                 (sh_offset sh + sh_size sh) (sh_entsize sh) (sh_offset sh)"
    by blast
  show ?thesis
  proof (cases "sh_offset sh = 0")
    case True
    then show ?thesis by (simp add: search_dynsym_def Some sh del: split_paired_Ex)
  next
    case False
    with ok have "0 < unat (sh_entsize sh)"
      and "unat (sh_offset sh + sh_size sh) + unat (sh_entsize sh) \<le> 2 ^ LENGTH('a)"
      and "dynsym_readable elf_map (ucast (ELF_SH_OFF32 ehdr (sh_link sh)))
                 (sh_offset sh + sh_size sh) (sh_entsize sh) (sh_offset sh)"
      by (simp_all add: regular_table_def)
    from scan_dynsym_returns [OF this]
    show ?thesis by (simp add: search_dynsym_def Some sh False del: split_paired_Ex)
  qed
qed

text \<open>
  A loop over the section headers of a table that fits returns when the section headers
  and their names are readable; the header it leaves in \<^verbatim>\<open>p_dynsym\<close>, if any, is one of
  the table, of type \<^verbatim>\<open>SHT_DYNSYM\<close>.
\<close>

lemma step_offset:
  fixes off :: "('a :: len) word" and ent :: "16 word"
  shows "off + ucast ent + of_nat (k * unat ent) = off + of_nat (Suc k * unat ent)"
  by (simp add: of_nat_unat algebra_simps)

lemma sections_exact_64:
  assumes "0 < unat ent"
  shows "unat off + n * unat ent = unat esize \<Longrightarrow>
     (\<forall>k < n. \<exists>sh. shdr_at elf_map (off + of_nat (k * unat ent)) = Some sh
                 \<and> str_at elf_map (nb + ucast (sh_name sh)) \<noteq> None) \<Longrightarrow>
     \<exists>y. scan_sections_64 elf_map nb b esize ent off st = Some y
        \<and> (fst y = fst st
           \<or> (\<exists>k < n. \<exists>sh. fst y = Some (off + of_nat (k * unat ent))
                 \<and> shdr_at elf_map (off + of_nat (k * unat ent)) = Some sh
                 \<and> sh_type sh = SHT_DYNSYM))"
proof (induction n arbitrary: off st)
  case 0
  then have "off = esize" by (simp add: word_unat_eq_iff)
  then show ?case by (subst scan_sections_64.simps) (simp del: split_paired_Ex)
next
  case (Suc n)
  have lt: "off < esize" using Suc.prems(1) assms by (simp add: word_less_nat_alt)
  have "unat off + unat ent \<le> unat esize" using Suc.prems(1) by simp
  moreover have "unat esize < 2 ^ 64" using unsigned_less [of esize] by simp
  ultimately have bound: "unat off + unat ent < 2 ^ 64" by simp
  have ue: "unat (ucast ent :: 64 word) = unat ent"
    by (simp add: unsigned_ucast_eq take_bit_nat_eq_self
        order_less_le_trans [OF unsigned_less])
  have "unat (off + ucast ent) = unat off + unat ent"
    using bound ue by (simp add: unat_add_lem [THEN iffD1])
  then have pre: "unat (off + ucast ent) + n * unat ent = unat esize"
    using Suc.prems(1) by simp
  have "\<exists>sh. shdr_at elf_map (off + of_nat (0 * unat ent)) = Some sh
          \<and> str_at elf_map (nb + ucast (sh_name sh)) \<noteq> None"
    using Suc.prems(2) by blast
  then obtain sh nm where sh: "shdr_at elf_map off = Some sh"
    and nm: "str_at elf_map (nb + ucast (sh_name sh)) = Some nm" by auto
  obtain st1 where st1: "sec_step_64 elf_map nb b off st = Some st1"
    and f1: "fst st1 = fst st \<or> (fst st1 = Some off \<and> sh_type sh = SHT_DYNSYM)"
    by (simp add: sec_step_64_def sh nm)
  have rest: "\<forall>k < n. \<exists>sh. shdr_at elf_map (off + ucast ent + of_nat (k * unat ent)) = Some sh
                 \<and> str_at elf_map (nb + ucast (sh_name sh)) \<noteq> None"
  proof (intro allI impI)
    fix k assume "k < n"
    then have "Suc k < Suc n" by simp
    with Suc.prems(2) show "\<exists>sh. shdr_at elf_map (off + ucast ent + of_nat (k * unat ent)) = Some sh
                 \<and> str_at elf_map (nb + ucast (sh_name sh)) \<noteq> None"
      unfolding step_offset by blast
  qed
  from Suc.IH [OF pre rest, of st1]
  obtain y where y: "scan_sections_64 elf_map nb b esize ent (off + ucast ent) st1 = Some y"
    and fy: "fst y = fst st1
           \<or> (\<exists>k < n. \<exists>sh. fst y = Some (off + ucast ent + of_nat (k * unat ent))
                 \<and> shdr_at elf_map (off + ucast ent + of_nat (k * unat ent)) = Some sh
                 \<and> sh_type sh = SHT_DYNSYM)"
    by blast
  have run: "scan_sections_64 elf_map nb b esize ent off st = Some y"
    by (subst scan_sections_64.simps) (simp add: lt st1 y)
  have "fst y = fst st
           \<or> (\<exists>k < Suc n. \<exists>sh. fst y = Some (off + of_nat (k * unat ent))
                 \<and> shdr_at elf_map (off + of_nat (k * unat ent)) = Some sh
                 \<and> sh_type sh = SHT_DYNSYM)"
    using fy
  proof (elim disjE exE conjE)
    assume "fst y = fst st1"
    with f1 sh show ?thesis by (auto intro!: exI [of _ 0])
  next
    fix k sh'
    assume "k < n" "fst y = Some (off + ucast ent + of_nat (k * unat ent))"
      "shdr_at elf_map (off + ucast ent + of_nat (k * unat ent)) = Some sh'"
      "sh_type sh' = SHT_DYNSYM"
    then have "Suc k < Suc n \<and> fst y = Some (off + of_nat (Suc k * unat ent))
        \<and> shdr_at elf_map (off + of_nat (Suc k * unat ent)) = Some sh'
        \<and> sh_type sh' = SHT_DYNSYM"
      unfolding step_offset by simp
    then show ?thesis by blast
  qed
  with run show ?case by blast
qed

lemma sections_exact_32:
  assumes "0 < unat ent"
  shows "unat off + n * unat ent = unat esize \<Longrightarrow>
     (\<forall>k < n. \<exists>sh. shdr_at elf_map (ucast (off + of_nat (k * unat ent))) = Some sh
                 \<and> str_at elf_map (nb + ucast (sh_name sh)) \<noteq> None) \<Longrightarrow>
     \<exists>y. scan_sections_32 elf_map nb esize ent off st = Some y
        \<and> (fst y = fst st
           \<or> (\<exists>k < n. \<exists>sh. fst y = Some (ucast (off + of_nat (k * unat ent)))
                 \<and> shdr_at elf_map (ucast (off + of_nat (k * unat ent))) = Some sh
                 \<and> sh_type sh = SHT_DYNSYM))"
proof (induction n arbitrary: off st)
  case 0
  then have "off = esize" by (simp add: word_unat_eq_iff)
  then show ?case by (subst scan_sections_32.simps) (simp del: split_paired_Ex)
next
  case (Suc n)
  have lt: "off < esize" using Suc.prems(1) assms by (simp add: word_less_nat_alt)
  have "unat off + unat ent \<le> unat esize" using Suc.prems(1) by simp
  moreover have "unat esize < 2 ^ 32" using unsigned_less [of esize] by simp
  ultimately have bound: "unat off + unat ent < 2 ^ 32" by simp
  have ue: "unat (ucast ent :: 32 word) = unat ent"
    by (simp add: unsigned_ucast_eq take_bit_nat_eq_self
        order_less_le_trans [OF unsigned_less])
  have "unat (off + ucast ent) = unat off + unat ent"
    using bound ue by (simp add: unat_add_lem [THEN iffD1])
  then have pre: "unat (off + ucast ent) + n * unat ent = unat esize"
    using Suc.prems(1) by simp
  have "\<exists>sh. shdr_at elf_map (ucast (off + of_nat (0 * unat ent))) = Some sh
          \<and> str_at elf_map (nb + ucast (sh_name sh)) \<noteq> None"
    using Suc.prems(2) by blast
  then obtain sh nm where sh: "shdr_at elf_map (ucast off) = Some sh"
    and nm: "str_at elf_map (nb + ucast (sh_name sh)) = Some nm" by auto
  obtain st1 where st1: "sec_step_32 elf_map nb off st = Some st1"
    and f1: "fst st1 = fst st \<or> (fst st1 = Some (ucast off) \<and> sh_type sh = SHT_DYNSYM)"
    by (cases "sh_type sh = SHT_DYNSYM") (simp_all add: sec_step_32_def sh nm)
  have rest: "\<forall>k < n. \<exists>sh. shdr_at elf_map (ucast (off + ucast ent + of_nat (k * unat ent)))
                   = Some sh
                 \<and> str_at elf_map (nb + ucast (sh_name sh)) \<noteq> None"
  proof (intro allI impI)
    fix k assume "k < n"
    then have "Suc k < Suc n" by simp
    with Suc.prems(2)
    show "\<exists>sh. shdr_at elf_map (ucast (off + ucast ent + of_nat (k * unat ent))) = Some sh
                 \<and> str_at elf_map (nb + ucast (sh_name sh)) \<noteq> None"
      unfolding step_offset by blast
  qed
  from Suc.IH [OF pre rest, of st1]
  obtain y where y: "scan_sections_32 elf_map nb esize ent (off + ucast ent) st1 = Some y"
    and fy: "fst y = fst st1
           \<or> (\<exists>k < n. \<exists>sh. fst y = Some (ucast (off + ucast ent + of_nat (k * unat ent)))
                 \<and> shdr_at elf_map (ucast (off + ucast ent + of_nat (k * unat ent))) = Some sh
                 \<and> sh_type sh = SHT_DYNSYM)"
    by blast
  have run: "scan_sections_32 elf_map nb esize ent off st = Some y"
    by (subst scan_sections_32.simps) (simp add: lt st1 y)
  have "fst y = fst st
           \<or> (\<exists>k < Suc n. \<exists>sh. fst y = Some (ucast (off + of_nat (k * unat ent)))
                 \<and> shdr_at elf_map (ucast (off + of_nat (k * unat ent))) = Some sh
                 \<and> sh_type sh = SHT_DYNSYM)"
    using fy
  proof (elim disjE exE conjE)
    assume "fst y = fst st1"
    with f1 sh show ?thesis by (auto intro!: exI [of _ 0])
  next
    fix k sh'
    assume "k < n" "fst y = Some (ucast (off + ucast ent + of_nat (k * unat ent)))"
      "shdr_at elf_map (ucast (off + ucast ent + of_nat (k * unat ent))) = Some sh'"
      "sh_type sh' = SHT_DYNSYM"
    then have "Suc k < Suc n \<and> fst y = Some (ucast (off + of_nat (Suc k * unat ent)))
        \<and> shdr_at elf_map (ucast (off + of_nat (Suc k * unat ent))) = Some sh'
        \<and> sh_type sh' = SHT_DYNSYM"
      unfolding step_offset by simp
    then show ?thesis by blast
  qed
  with run show ?case by blast
qed

section \<open>The two files analysed\<close>

lemma elf64_demo_sel:
  "phdr_at elf64_demo = struct_at 0x3000 56 phdr64_demo"
  "shdr_at elf64_demo = struct_at 0x3000 64 shdr64_demo"
  "sym_at elf64_demo = struct_at 0x3000 24 sym64_demo"
  "str_at elf64_demo = string_at 0x3000 str_demo"
  by (simp_all add: elf64_demo_def elf64_view_def)

lemma elf64_import_sel:
  "phdr_at elf64_import = struct_at 0x3000 56 phdr64_demo"
  "shdr_at elf64_import = struct_at 0x3000 64 shdr64_demo"
  "sym_at elf64_import = struct_at 0x3000 24 sym64_import"
  "str_at elf64_import = string_at 0x3000 str_demo"
  by (simp_all add: elf64_import_def elf64_view_def)

lemma elf32_demo_sel:
  "phdr_at elf32_demo = struct_at 0x3000 32 phdr32_demo"
  "shdr_at elf32_demo = struct_at 0x3000 40 shdr32_demo"
  "sym_at elf32_demo = struct_at 0x3000 16 sym32_demo"
  "str_at elf32_demo = string_at 0x3000 str_demo"
  by (simp_all add: elf32_demo_def elf32_view_def)

lemma object_file_demo: "object_file demo_session = Some ''/usr/bin/python3.6''"
  by (simp add: object_file_def demo_session_eq proc0_def)

lemma files_demo_map:
  "open_mmap files64_demo (Some p) 0x2140 = Some elf64_demo"
  "open_mmap files64_import (Some p) 0x2140 = Some elf64_import"
  "open_mmap files32_demo (Some p) 0x20c8 = Some elf32_demo"
  by (simp_all add: open_mmap_def files64_demo_def files64_import_def files32_demo_def
      elf64_demo_def elf64_import_def elf32_demo_def readable_bytes_def page_up_def)

lemma map_size_demo:
  "sht_size ehdr64_demo = 0x140" "sht_size ehdr32_demo = 0xc8"
  by (simp_all add: sht_size_def ehdr64_demo_def ehdr32_demo_def)

lemma get_base_64_demo: "get_base_64 ehdr64_demo elf64_demo = Some 0x400000"
  by (simp add: get_base_64_def get_base_from.simps phdr_ptr_def ehdr64_demo_def
      elf64_demo_sel struct_at_def phdr64_demo_def PT_LOAD_def)

lemma get_base_64_import: "get_base_64 ehdr64_demo elf64_import = Some 0x400000"
  by (simp add: get_base_64_def get_base_from.simps phdr_ptr_def ehdr64_demo_def
      elf64_import_sel struct_at_def phdr64_demo_def PT_LOAD_def)

lemma get_base_32_demo: "get_base_32 ehdr32_demo elf32_demo = Some 0x08048000"
  by (simp add: get_base_32_def get_base_from.simps phdr_ptr_def ehdr32_demo_def
      elf32_demo_sel struct_at_def phdr32_demo_def PT_LOAD_def)

lemma sections_64_demo:
  "scan_sections_64 elf64_demo 0x1f00 0x400000 0x2140 64 0x2000 (None, demo_session)
     = Some (Some 0x2040, demo_session\<lparr>map_r := (map_r demo_session)\<lparr>bss :=
             \<lparr>base = 0x6b0000, size_b = 0x2000\<rparr>\<rparr>\<rparr>)"
  by (simp add: scan_sections_64.simps sec_step_64_def elf64_demo_sel struct_at_def
      string_at_def shdr64_demo_def str_demo_def SHT_DYNSYM_def demo_session_eq proc0_def)

lemma sections_64_import:
  "scan_sections_64 elf64_import 0x1f00 0x400000 0x2140 64 0x2000 (None, demo_session)
     = Some (Some 0x2040, session_import)"
  by (simp add: scan_sections_64.simps sec_step_64_def elf64_import_sel struct_at_def
      string_at_def shdr64_demo_def str_demo_def SHT_DYNSYM_def session_import_def
      demo_session_eq proc0_def)

lemma sections_32_demo:
  "scan_sections_32 elf32_demo 0x1f00 0x20c8 40 0x2000 (None, demo_session)
     = Some (Some 0x2028, demo_session)"
  by (simp add: scan_sections_32.simps sec_step_32_def elf32_demo_sel struct_at_def
      string_at_def shdr32_demo_def str_demo_def SHT_DYNSYM_def)

lemma dynsym_64_demo:
  "scan_dynsym an_demo elf64_demo 0x2080 0x400000 0x360 24 0x300
      (0, demo_session\<lparr>map_r := (map_r demo_session)\<lparr>bss :=
             \<lparr>base = 0x6b0000, size_b = 0x2000\<rparr>\<rparr>\<rparr>, [])
     = Some (2, session_analysed,
             [(0x300, []), (0x318, ''_PyThreadState_Current''), (0x330, ''_PyRuntime'')])"
  by (simp add: scan_dynsym.simps elf64_demo_sel struct_at_def string_at_def shdr64_demo_def
      sym64_demo_def str_demo_def an_demo_def py_proc__check_sym_def SYMBOLS_def
      session_analysed_def demo_session_eq proc0_def Let_def)

lemma dynsym_64_import:
  "scan_dynsym an_demo elf64_import 0x2080 0x400000 0x360 24 0x300 (0, session_import, [])
     = Some (1, session_import,
             [(0x300, []), (0x318, ''_PyRuntime''), (0x330, ''Py_Main''), (0x348, [])])"
  by (simp add: scan_dynsym.simps elf64_import_sel struct_at_def string_at_def shdr64_demo_def
      sym64_import_def str_demo_def an_demo_def py_proc__check_sym_def SYMBOLS_def
      session_import_def demo_session_eq proc0_def Let_def)

lemma dynsym_32_demo:
  "scan_dynsym an_demo elf32_demo 0x2050 0x08048000 0x330 16 0x300 (0, demo_session, [])
     = Some (1, session_analysed32,
             [(0x300, []), (0x310, ''_PyRuntime''), (0x320, ''Py_Main'')])"
  by (simp add: scan_dynsym.simps elf32_demo_sel struct_at_def string_at_def shdr32_demo_def
      sym32_demo_def str_demo_def an_demo_def py_proc__check_sym_def SYMBOLS_def
      session_analysed32_def demo_session_eq proc0_def Let_def)

lemma names_header_demo:
  "shdr_at elf64_demo 0x2100 = Some (shdr64_demo 0x2100)"
  "shdr_at elf64_import 0x2100 = Some (shdr64_demo 0x2100)"
  "shdr_at elf64_demo 0x2040 = Some (shdr64_demo 0x2040)"
  "shdr_at elf64_import 0x2040 = Some (shdr64_demo 0x2040)"
  "shdr_at elf32_demo 0x20a0 = Some (shdr32_demo 0x20a0)"
  "shdr_at elf32_demo 0x2028 = Some (shdr32_demo 0x2028)"
  by (simp_all add: elf64_demo_sel elf64_import_sel elf32_demo_sel struct_at_def)

lemma analyze_elf64_demo:
  "py_proc__analyze_elf64 an_demo files64_demo ehdr_v_demo demo_session
     = Some (0, session_analysed,
             [(0x300, []), (0x318, ''_PyThreadState_Current''), (0x330, ''_PyRuntime'')])"
proof -
  have ehdr: "v64 ehdr_v_demo = ehdr64_demo" by (simp add: ehdr_v_demo_def)
  have names: "ELF_SH_OFF16 ehdr64_demo (e_shstrndx ehdr64_demo) = 0x2100"
    by (simp add: ELF_SH_OFF16_def ehdr64_demo_def)
  have link: "ELF_SH_OFF32 ehdr64_demo (sh_link (shdr64_demo 0x2040)) = 0x2080"
    by (simp add: ELF_SH_OFF32_def ehdr64_demo_def shdr64_demo_def)
  have sizes: "e_shentsize ehdr64_demo = 64" "e_shoff ehdr64_demo = 0x2000"
    by (simp_all add: ehdr64_demo_def)
  have hdr: "sh_offset (shdr64_demo 0x2100) = 0x1f00" "sh_offset (shdr64_demo 0x2040) = 0x300"
    "sh_size (shdr64_demo 0x2040) = 96" "sh_entsize (shdr64_demo 0x2040) = 24"
    by (simp_all add: shdr64_demo_def)
  show ?thesis
    by (simp add: py_proc__analyze_elf64_def search_dynsym_def Let_def ehdr map_size_demo
        object_file_demo files_demo_map names names_header_demo get_base_64_demo sizes hdr
        link sections_64_demo dynsym_64_demo not_symbols_def)
qed

lemma analyze_elf64_import:
  "py_proc__analyze_elf64 an_demo files64_import ehdr_v_demo demo_session
     = Some (0, session_import,
             [(0x300, []), (0x318, ''_PyRuntime''), (0x330, ''Py_Main''), (0x348, [])])"
proof -
  have ehdr: "v64 ehdr_v_demo = ehdr64_demo" by (simp add: ehdr_v_demo_def)
  have names: "ELF_SH_OFF16 ehdr64_demo (e_shstrndx ehdr64_demo) = 0x2100"
    by (simp add: ELF_SH_OFF16_def ehdr64_demo_def)
  have link: "ELF_SH_OFF32 ehdr64_demo (sh_link (shdr64_demo 0x2040)) = 0x2080"
    by (simp add: ELF_SH_OFF32_def ehdr64_demo_def shdr64_demo_def)
  have sizes: "e_shentsize ehdr64_demo = 64" "e_shoff ehdr64_demo = 0x2000"
    by (simp_all add: ehdr64_demo_def)
  have hdr: "sh_offset (shdr64_demo 0x2100) = 0x1f00" "sh_offset (shdr64_demo 0x2040) = 0x300"
    "sh_size (shdr64_demo 0x2040) = 96" "sh_entsize (shdr64_demo 0x2040) = 24"
    by (simp_all add: shdr64_demo_def)
  show ?thesis
    by (simp add: py_proc__analyze_elf64_def search_dynsym_def Let_def ehdr map_size_demo
        object_file_demo files_demo_map names names_header_demo get_base_64_import sizes hdr
        link sections_64_import dynsym_64_import not_symbols_def)
qed

lemma analyze_elf32_demo:
  "py_proc__analyze_elf32 an_demo files32_demo ehdr_v_demo32 demo_session
     = Some (0, session_analysed32,
             [(0x300, []), (0x310, ''_PyRuntime''), (0x320, ''Py_Main'')])"
proof -
  have ehdr: "v32 ehdr_v_demo32 = ehdr32_demo" by (simp add: ehdr_v_demo32_def)
  have names: "ELF_SH_OFF16 ehdr32_demo (e_shstrndx ehdr32_demo) = 0x20a0"
    by (simp add: ELF_SH_OFF16_def ehdr32_demo_def)
  have link: "ELF_SH_OFF32 ehdr32_demo (sh_link (shdr32_demo 0x2028)) = 0x2050"
    by (simp add: ELF_SH_OFF32_def ehdr32_demo_def shdr32_demo_def)
  have sizes: "e_shentsize ehdr32_demo = 40" "e_shoff ehdr32_demo = 0x2000"
    by (simp_all add: ehdr32_demo_def)
  have hdr: "sh_offset (shdr32_demo 0x20a0) = 0x1f00" "sh_offset (shdr32_demo 0x2028) = 0x300"
    "sh_size (shdr32_demo 0x2028) = 48" "sh_entsize (shdr32_demo 0x2028) = 16"
    by (simp_all add: shdr32_demo_def)
  show ?thesis
    by (simp add: py_proc__analyze_elf32_def search_dynsym_def Let_def ehdr map_size_demo
        object_file_demo files_demo_map names names_header_demo get_base_32_demo sizes hdr
        link sections_32_demo dynsym_32_demo not_symbols_def)
qed

lemma dynsym_readable_demo:
  "dynsym_readable elf64_demo 0x2080 0x360 24 0x300"
  "dynsym_readable elf32_demo 0x2050 0x330 16 0x300"
proof -
  show "dynsym_readable elf64_demo 0x2080 0x360 24 0x300"
    unfolding dynsym_readable_def
  proof (intro allI impI)
    fix k
    assume "unat (0x300 :: 64 word) + k * unat (24 :: 64 word) < unat (0x360 :: 64 word)"
    then have "k = 0 \<or> k = 1 \<or> k = 2 \<or> k = 3" by simp arith
    then show "sym_readable elf64_demo 0x2080 (ucast ((0x300 :: 64 word) + of_nat k * 24))"
      by (elim disjE)
         (simp_all add: sym_readable_def elf64_demo_sel struct_at_def string_at_def
            sym64_demo_def shdr64_demo_def str_demo_def)
  qed
  show "dynsym_readable elf32_demo 0x2050 0x330 16 0x300"
    unfolding dynsym_readable_def
  proof (intro allI impI)
    fix k
    assume "unat (0x300 :: 32 word) + k * unat (16 :: 32 word) < unat (0x330 :: 32 word)"
    then have "k = 0 \<or> k = 1 \<or> k = 2" by simp arith
    then show "sym_readable elf32_demo 0x2050 (ucast ((0x300 :: 32 word) + of_nat k * 16))"
      by (elim disjE)
         (simp_all add: sym_readable_def elf32_demo_sel struct_at_def string_at_def
            sym32_demo_def shdr32_demo_def str_demo_def)
  qed
qed

section \<open>Success of the analysis and the short circuit\<close>

text \<open>
  C8. The loop over a dynamic symbol table reads the entries in table order, from the first
  one on and without a gap. Before each entry it reads, fewer than \<open>SYMBOLS\<close> anchors were
  resolved by the entries before: no entry is read after the one that brings the count to
  \<open>SYMBOLS\<close>. The count returned is the number of anchors among the entries read, and the
  loop ends only with the count reached or the table exhausted. The same holds for the
  symbols an analyzer reads. And the loop does end when the entry size is not 0,
  stepping through the table does not wrap around and the entries of the table are
  readable.
\<close>

theorem dynsym_scan_short_circuit:
  fixes limit ent off :: "('a :: len) word"
  shows "(scan_dynsym an elf_map p_strtabsh b limit ent off (0, self, []) = Some y \<longrightarrow>
      map fst (snd (snd y)) = table_order off ent (length (snd (snd y)))
      \<and> (\<forall>k < length (snd (snd y)). off + of_nat k * ent < limit)
      \<and> (\<forall>k < length (snd (snd y)). resolved an (take k (snd (snd y))) < SYMBOLS)
      \<and> fst y = resolved an (snd (snd y))
      \<and> (SYMBOLS \<le> resolved an (snd (snd y))
          \<or> \<not> off + of_nat (length (snd (snd y))) * ent < limit))
   \<and> (py_proc__analyze_elf64 an files64 ehdr_v self64 = Some r64 \<longrightarrow>
        (\<forall>k < length (snd (snd r64)). resolved an (take k (snd (snd r64))) < SYMBOLS))
   \<and> (py_proc__analyze_elf32 an files32 ehdr_v32 self32 = Some r32 \<longrightarrow>
        (\<forall>k < length (snd (snd r32)). resolved an (take k (snd (snd r32))) < SYMBOLS))
   \<and> (0 < unat ent \<and> unat limit + unat ent \<le> 2 ^ LENGTH('a)
        \<and> dynsym_readable elf_map p_strtabsh limit ent off \<longrightarrow>
        (\<exists>z. scan_dynsym an elf_map p_strtabsh b limit ent off (0, self, []) = Some z))"
proof (intro conjI impI)
  assume a: "scan_dynsym an elf_map p_strtabsh b limit ent off (0, self, []) = Some y"
  show "map fst (snd (snd y)) = table_order off ent (length (snd (snd y)))"
    by (rule scan_dynsym_result(2) [OF a])
  show "\<forall>k < length (snd (snd y)). off + of_nat k * ent < limit"
    by (rule scan_dynsym_result(4) [OF a])
  show "\<forall>k < length (snd (snd y)). resolved an (take k (snd (snd y))) < SYMBOLS"
    by (rule scan_dynsym_result(3) [OF a])
  show "fst y = resolved an (snd (snd y))"
    by (rule scan_dynsym_result(1) [OF a])
  show "SYMBOLS \<le> resolved an (snd (snd y))
          \<or> \<not> off + of_nat (length (snd (snd y))) * ent < limit"
    by (rule scan_dynsym_result(5) [OF a])
next
  assume a: "py_proc__analyze_elf64 an files64 ehdr_v self64 = Some r64"
  from analyze_elf64_cases [OF a]
  show "\<forall>k < length (snd (snd r64)). resolved an (take k (snd (snd r64))) < SYMBOLS"
    using search_success_iff(2) by (elim disjE exE conjE) (simp, blast)
next
  assume a: "py_proc__analyze_elf32 an files32 ehdr_v32 self32 = Some r32"
  from analyze_elf32_cases [OF a]
  show "\<forall>k < length (snd (snd r32)). resolved an (take k (snd (snd r32))) < SYMBOLS"
    using search_success_iff(2) by (elim disjE exE conjE) (simp, blast)
next
  assume "0 < unat ent \<and> unat limit + unat ent \<le> 2 ^ LENGTH('a)
        \<and> dynsym_readable elf_map p_strtabsh limit ent off"
  then show "\<exists>z. scan_dynsym an elf_map p_strtabsh b limit ent off (0, self, []) = Some z"
    using scan_dynsym_returns by blast
qed

text \<open>
  On the 64-bit file the table has four entries and the third completes the set: three
  entries are read, the fourth is not.
\<close>

theorem dynsym_scan_short_circuit_witness:
  "scan_dynsym an_demo elf64_demo 0x2080 0x400000 0x360 24 0x300
      (0, demo_session\<lparr>map_r := (map_r demo_session)\<lparr>bss :=
             \<lparr>base = 0x6b0000, size_b = 0x2000\<rparr>\<rparr>\<rparr>, [])
     = Some (2, session_analysed,
             [(0x300, []), (0x318, ''_PyThreadState_Current''), (0x330, ''_PyRuntime'')])
   \<and> py_proc__analyze_elf64 an_demo files64_demo ehdr_v_demo demo_session
     = Some (0, session_analysed,
             [(0x300, []), (0x318, ''_PyThreadState_Current''), (0x330, ''_PyRuntime'')])
   \<and> py_proc__analyze_elf32 an_demo files32_demo ehdr_v_demo32 demo_session
     = Some (0, session_analysed32,
             [(0x300, []), (0x310, ''_PyRuntime''), (0x320, ''Py_Main'')])
   \<and> table_order (0x300 :: 64 word) 24 3 = [0x300, 0x318, 0x330]
   \<and> resolved an_demo
        [(0x300, []), (0x318, ''_PyThreadState_Current''), (0x330, ''_PyRuntime'')] = 2
   \<and> (0x300 :: 64 word) + of_nat 3 * 24 < 0x360
   \<and> 0 < unat (24 :: 64 word)
   \<and> unat (0x360 :: 64 word) + unat (24 :: 64 word) \<le> 2 ^ LENGTH(64)
   \<and> dynsym_readable elf64_demo 0x2080 0x360 24 0x300"
proof -
  let ?tr = "[(0x300 :: addr, []), (0x318, ''_PyThreadState_Current''), (0x330, ''_PyRuntime'')]"
  have t: "table_order (0x300 :: 64 word) 24 3 = [0x300, 0x318, 0x330]"
    by (simp add: table_order_def upt_rec)
  have l: "(0x300 :: 64 word) + of_nat 3 * 24 < 0x360" by simp
  have "fst (2 :: int, session_analysed, ?tr) = resolved an_demo (snd (snd (2 :: int, session_analysed, ?tr)))"
    using dynsym_scan_short_circuit [where an = an_demo and elf_map = elf64_demo
        and p_strtabsh = "0x2080" and b = "0x400000" and limit = "0x360" and ent = 24
        and off = "0x300"
        and self = "demo_session\<lparr>map_r := (map_r demo_session)\<lparr>bss :=
             \<lparr>base = 0x6b0000, size_b = 0x2000\<rparr>\<rparr>\<rparr>"
        and y = "(2, session_analysed, ?tr)"
        and ?files64.0 = files64_demo and ehdr_v = ehdr_v_demo and ?self64.0 = demo_session
        and ?r64.0 = "(0, session_analysed, ?tr)"
        and ?files32.0 = files32_demo and ?ehdr_v32.0 = ehdr_v_demo32
        and ?self32.0 = demo_session
        and ?r32.0 = "(0, session_analysed32,
          [(0x300, []), (0x310, ''_PyRuntime''), (0x320, ''Py_Main'')])"]
      dynsym_64_demo
    by blast
  then have r: "resolved an_demo ?tr = 2" by simp
  show ?thesis
    using dynsym_64_demo analyze_elf64_demo analyze_elf32_demo t r l dynsym_readable_demo(1)
    by simp
qed

section \<open>The load bias\<close>

lemma phdrs_nth:
  assumes "phdrs ehdr elf_map = map Some phs" and "i < unat (e_phnum ehdr)"
  shows "length phs = unat (e_phnum ehdr)"
    and "phdr_at elf_map (phdr_off ehdr i) = Some (phs ! i)"
proof -
  have "length (phdrs ehdr elf_map) = unat (e_phnum ehdr)" by (simp add: phdrs_def)
  then show len: "length phs = unat (e_phnum ehdr)" using assms(1) by simp
  have "phdrs ehdr elf_map ! i = phdr_at elf_map (phdr_off ehdr i)"
    using assms(2) by (simp add: phdrs_def)
  then show "phdr_at elf_map (phdr_off ehdr i) = Some (phs ! i)"
    using assms len by simp
qed

lemma phdrs_fit_index:
  assumes "phdrs_fit ehdr" and "i < unat (e_phnum ehdr)"
  shows "phdr_ptr ehdr i = phdr_off ehdr i"
proof (rule phdr_ptr_off)
  have "i * unat (e_phentsize ehdr) \<le> unat (e_phnum ehdr) * unat (e_phentsize ehdr)"
    using assms(2) by (intro mult_le_mono1) simp
  from this assms(1) [unfolded phdrs_fit_def]
  show "i * unat (e_phentsize ehdr) < 2 ^ 31" by (rule order_le_less_trans)
qed

lemma get_base_from_spec:
  assumes fit: "phdrs_fit ehdr" and tab: "phdrs ehdr elf_map = map Some phs"
    and al: "\<forall>ph. first_load phs = Some ph \<longrightarrow> p_align ph \<noteq> 0"
  shows "i \<le> unat (e_phnum ehdr) \<Longrightarrow> \<forall>j < i. p_type (phs ! j) \<noteq> PT_LOAD \<Longrightarrow>
           get_base_from ehdr elf_map i = Some (load_bias_spec phs)"
proof (induction "unat (e_phnum ehdr) - i" arbitrary: i rule: less_induct)
  case less
  show ?case
  proof (cases "i < unat (e_phnum ehdr)")
    case True
    have len: "length phs = unat (e_phnum ehdr)" by (rule phdrs_nth(1) [OF tab True])
    have rd: "phdr_at elf_map (phdr_ptr ehdr i) = Some (phs ! i)"
      using phdrs_nth(2) [OF tab True] phdrs_fit_index [OF fit True] by simp
    show ?thesis
    proof (cases "p_type (phs ! i) = PT_LOAD")
      case load: True
      have fl: "first_load phs = Some (phs ! i)"
        unfolding first_load_def find_Some_iff
        using True len load less.prems(2) by (intro exI [of _ i]) simp
      then have "p_align (phs ! i) \<noteq> 0" using al by blast
      then show ?thesis
        by (subst get_base_from.simps) (simp add: True rd load load_bias_spec_def fl)
    next
      case noload: False
      have "\<forall>j < i + 1. p_type (phs ! j) \<noteq> PT_LOAD"
        using less.prems(2) noload by (auto simp add: less_Suc_eq)
      moreover have "unat (e_phnum ehdr) - (i + 1) < unat (e_phnum ehdr) - i"
        using True by simp
      moreover have "i + 1 \<le> unat (e_phnum ehdr)" using True by simp
      ultimately have "get_base_from ehdr elf_map (i + 1) = Some (load_bias_spec phs)"
        using less.hyps by blast
      then show ?thesis
        by (subst get_base_from.simps) (simp add: True rd noload)
    qed
  next
    case False
    with less.prems(1) have i: "i = unat (e_phnum ehdr)" by simp
    have "length phs = unat (e_phnum ehdr)"
      using tab by (metis length_map phdrs_def diff_zero length_upt)
    then have "first_load phs = None"
      unfolding first_load_def find_None_iff using less.prems(2) i
      by (metis in_set_conv_nth)
    then show ?thesis
      by (subst get_base_from.simps) (simp add: False load_bias_spec_def)
  qed
qed

lemma get_base_spec:
  assumes "phdrs_fit ehdr" and "phdrs ehdr elf_map = map Some phs"
    and "\<forall>ph. first_load phs = Some ph \<longrightarrow> p_align ph \<noteq> 0"
  shows "get_base_from ehdr elf_map 0 = Some (load_bias_spec phs)"
  using get_base_from_spec [OF assms, of 0] by simp

text \<open>
  With a mapping of length 0, as the all-zero header asks for, or without a path, no
  analyzer returns, whatever the files are.
\<close>

lemma analyze_elf_unmapped:
  "object_file self = None \<or> e_shoff (v64 ehdr_v) + sht_size (v64 ehdr_v) = 0 \<Longrightarrow>
     py_proc__analyze_elf64 an files64 ehdr_v self = None"
  "object_file self = None
     \<or> (ucast (ucast (e_shoff (v32 ehdr_v)) + sht_size (v32 ehdr_v)) :: 32 word) = 0 \<Longrightarrow>
     py_proc__analyze_elf32 an files32 ehdr_v self = None"
  by (auto simp add: py_proc__analyze_elf64_def py_proc__analyze_elf32_def open_mmap_def
      Let_def)

lemma analyze_elf_zero_header:
  "py_proc__analyze_elf64 an files64 ehdr_v_zero self = None"
  "py_proc__analyze_elf32 an files32 ehdr_v_zero self = None"
  by (simp_all add: analyze_elf_unmapped ehdr_v_zero_def ehdr64_zero_def ehdr32_zero_def
      sht_size_def)

lemma analyze_elf64_no_load:
  assumes "open_mmap files (object_file self) (e_shoff (v64 ehdr_v) + sht_size (v64 ehdr_v))
           = Some elf_map"
    and "shdr_at elf_map (ELF_SH_OFF16 (v64 ehdr_v) (e_shstrndx (v64 ehdr_v))) \<noteq> None"
    and "get_base_64 (v64 ehdr_v) elf_map = Some (- 1)"
  shows "py_proc__analyze_elf64 an files ehdr_v self = Some (1, self, [])"
  using assms by (auto simp add: py_proc__analyze_elf64_def Let_def)

lemma analyze_elf32_no_load:
  assumes "open_mmap files (object_file self)
             (ucast (ucast (ucast (e_shoff (v32 ehdr_v)) + sht_size (v32 ehdr_v)) :: 32 word))
           = Some elf_map"
    and "shdr_at elf_map (ucast (ELF_SH_OFF16 (v32 ehdr_v) (e_shstrndx (v32 ehdr_v)))) \<noteq> None"
    and "get_base_32 (v32 ehdr_v) elf_map = Some (- 1)"
  shows "py_proc__analyze_elf32 an files ehdr_v self = Some (1, self, [])"
  using assms by (auto simp add: py_proc__analyze_elf32_def Let_def)

text \<open>
  C6. For both widths, on a program header table that fits and is readable, the load bias
  computed is the one the specification words: with \<open>ph\<close> the first loadable program header
  in table order, \<open>p_vaddr ph\<close> aligned down to \<open>p_align ph\<close>, that is
  \<open>p_vaddr ph - p_vaddr ph mod p_align ph\<close>, for an alignment that is not 0. Without a
  loadable segment it is the sentinel, the word \<open>- 1\<close>, and the analysis, once it has mapped
  the file and read the section header of the section names, returns 1 with the session
  unchanged and no symbol read.
\<close>

theorem load_bias:
  "(phdrs_fit ehdr64 \<and> phdrs ehdr64 elf64 = map Some phs64
      \<and> first_load phs64 = Some ph64 \<and> p_align ph64 \<noteq> 0 \<longrightarrow>
        get_base_64 ehdr64 elf64 = Some (p_vaddr ph64 - p_vaddr ph64 mod p_align ph64)
        \<and> get_base_64 ehdr64 elf64 = Some (load_bias_spec phs64))
   \<and> (phdrs_fit ehdr32 \<and> phdrs ehdr32 elf32 = map Some phs32
      \<and> first_load phs32 = Some ph32 \<and> p_align ph32 \<noteq> 0 \<longrightarrow>
        get_base_32 ehdr32 elf32 = Some (p_vaddr ph32 - p_vaddr ph32 mod p_align ph32)
        \<and> get_base_32 ehdr32 elf32 = Some (load_bias_spec phs32))
   \<and> (open_mmap files64 (object_file self) (e_shoff (v64 ehdr_v) + sht_size (v64 ehdr_v))
        = Some m64
      \<and> shdr_at m64 (ELF_SH_OFF16 (v64 ehdr_v) (e_shstrndx (v64 ehdr_v))) \<noteq> None
      \<and> phdrs_fit (v64 ehdr_v) \<and> phdrs (v64 ehdr_v) m64 = map Some hs64
      \<and> first_load hs64 = None \<longrightarrow>
        get_base_64 (v64 ehdr_v) m64 = Some (- 1)
        \<and> py_proc__analyze_elf64 an files64 ehdr_v self = Some (1, self, []))
   \<and> (open_mmap files32 (object_file self)
        (ucast (ucast (ucast (e_shoff (v32 ehdr_v)) + sht_size (v32 ehdr_v)) :: 32 word))
          = Some m32
      \<and> shdr_at m32 (ucast (ELF_SH_OFF16 (v32 ehdr_v) (e_shstrndx (v32 ehdr_v)))) \<noteq> None
      \<and> phdrs_fit (v32 ehdr_v) \<and> phdrs (v32 ehdr_v) m32 = map Some hs32
      \<and> first_load hs32 = None \<longrightarrow>
        get_base_32 (v32 ehdr_v) m32 = Some (- 1)
        \<and> py_proc__analyze_elf32 an files32 ehdr_v self = Some (1, self, []))"
proof (intro conjI impI)
  assume a: "phdrs_fit ehdr64 \<and> phdrs ehdr64 elf64 = map Some phs64
      \<and> first_load phs64 = Some ph64 \<and> p_align ph64 \<noteq> 0"
  then have "get_base_64 ehdr64 elf64 = Some (load_bias_spec phs64)"
    unfolding get_base_64_def by (intro get_base_spec) simp_all
  then show "get_base_64 ehdr64 elf64 = Some (load_bias_spec phs64)"
    and "get_base_64 ehdr64 elf64 = Some (p_vaddr ph64 - p_vaddr ph64 mod p_align ph64)"
    using a by (simp_all add: load_bias_spec_def)
next
  assume a: "phdrs_fit ehdr32 \<and> phdrs ehdr32 elf32 = map Some phs32
      \<and> first_load phs32 = Some ph32 \<and> p_align ph32 \<noteq> 0"
  then have "get_base_32 ehdr32 elf32 = Some (load_bias_spec phs32)"
    unfolding get_base_32_def by (intro get_base_spec) simp_all
  then show "get_base_32 ehdr32 elf32 = Some (load_bias_spec phs32)"
    and "get_base_32 ehdr32 elf32 = Some (p_vaddr ph32 - p_vaddr ph32 mod p_align ph32)"
    using a by (simp_all add: load_bias_spec_def)
next
  assume a: "open_mmap files64 (object_file self) (e_shoff (v64 ehdr_v) + sht_size (v64 ehdr_v))
        = Some m64
      \<and> shdr_at m64 (ELF_SH_OFF16 (v64 ehdr_v) (e_shstrndx (v64 ehdr_v))) \<noteq> None
      \<and> phdrs_fit (v64 ehdr_v) \<and> phdrs (v64 ehdr_v) m64 = map Some hs64
      \<and> first_load hs64 = None"
  then have "get_base_64 (v64 ehdr_v) m64 = Some (load_bias_spec hs64)"
    unfolding get_base_64_def by (intro get_base_spec) simp_all
  then show b: "get_base_64 (v64 ehdr_v) m64 = Some (- 1)"
    using a by (simp add: load_bias_spec_def)
  show "py_proc__analyze_elf64 an files64 ehdr_v self = Some (1, self, [])"
    using a b by (intro analyze_elf64_no_load [where elf_map = m64]) simp_all
next
  assume a: "open_mmap files32 (object_file self)
        (ucast (ucast (ucast (e_shoff (v32 ehdr_v)) + sht_size (v32 ehdr_v)) :: 32 word))
          = Some m32
      \<and> shdr_at m32 (ucast (ELF_SH_OFF16 (v32 ehdr_v) (e_shstrndx (v32 ehdr_v)))) \<noteq> None
      \<and> phdrs_fit (v32 ehdr_v) \<and> phdrs (v32 ehdr_v) m32 = map Some hs32
      \<and> first_load hs32 = None"
  then have "get_base_32 (v32 ehdr_v) m32 = Some (load_bias_spec hs32)"
    unfolding get_base_32_def by (intro get_base_spec) simp_all
  then show b: "get_base_32 (v32 ehdr_v) m32 = Some (- 1)"
    using a by (simp add: load_bias_spec_def)
  show "py_proc__analyze_elf32 an files32 ehdr_v self = Some (1, self, [])"
    using a b by (intro analyze_elf32_no_load [where elf_map = m32]) simp_all
qed

lemma phdrs_demo:
  "phdrs ehdr64_demo elf64_demo = map Some [phdr64_demo 64, phdr64_demo 120]"
  "phdrs ehdr32_demo elf32_demo = map Some [phdr32_demo 52, phdr32_demo 84]"
  "phdrs (v64 ehdr_v_noload) elf64_demo = map Some [phdr64_demo 64]"
  "phdrs (v32 ehdr_v_noload) elf32_demo = map Some [phdr32_demo 52]"
  by (simp_all add: phdrs_def phdr_off_def ehdr_v_noload_def ehdr64_demo_def ehdr32_demo_def
      elf64_demo_sel elf32_demo_sel struct_at_def upt_rec)

lemma first_load_demo:
  "first_load [phdr64_demo 64, phdr64_demo 120] = Some (phdr64_demo 120)"
  "first_load [phdr32_demo 52, phdr32_demo 84] = Some (phdr32_demo 84)"
  "first_load [phdr64_demo 64] = None"
  "first_load [phdr32_demo 52] = None"
  by (simp_all add: first_load_def phdr64_demo_def phdr32_demo_def PT_LOAD_def)

lemma phdrs_fit_demo:
  "phdrs_fit ehdr64_demo" "phdrs_fit ehdr32_demo"
  "phdrs_fit (v64 ehdr_v_noload)" "phdrs_fit (v32 ehdr_v_noload)"
  by (simp_all add: phdrs_fit_def ehdr_v_noload_def ehdr64_demo_def ehdr32_demo_def)

lemma noload_map:
  "open_mmap files64_demo (object_file demo_session)
     (e_shoff (v64 ehdr_v_noload) + sht_size (v64 ehdr_v_noload)) = Some elf64_demo"
  "open_mmap files32_demo (object_file demo_session)
     (ucast (ucast (ucast (e_shoff (v32 ehdr_v_noload)) + sht_size (v32 ehdr_v_noload))
        :: 32 word)) = Some elf32_demo"
  "shdr_at elf64_demo (ELF_SH_OFF16 (v64 ehdr_v_noload) (e_shstrndx (v64 ehdr_v_noload)))
     = Some (shdr64_demo 0x2100)"
  "shdr_at elf32_demo
     (ucast (ELF_SH_OFF16 (v32 ehdr_v_noload) (e_shstrndx (v32 ehdr_v_noload))))
     = Some (shdr32_demo 0x20a0)"
  by (simp_all add: object_file_demo ehdr_v_noload_def ehdr64_demo_def ehdr32_demo_def
      sht_size_def ELF_SH_OFF16_def files_demo_map names_header_demo)

text \<open>
  On the two files the first loadable program header is the second one. With a header that
  gives the first program header only there is no loadable one: the load bias is the
  sentinel and the analysis fails without reading a symbol.
\<close>

theorem load_bias_witness:
  "phdrs_fit ehdr64_demo
   \<and> phdrs ehdr64_demo elf64_demo = map Some [phdr64_demo 64, phdr64_demo 120]
   \<and> first_load [phdr64_demo 64, phdr64_demo 120]
       = Some \<lparr>p_type = 1, p_vaddr = 0x400040, p_align = 0x1000\<rparr>
   \<and> get_base_64 ehdr64_demo elf64_demo = Some 0x400000
   \<and> phdrs_fit ehdr32_demo
   \<and> phdrs ehdr32_demo elf32_demo = map Some [phdr32_demo 52, phdr32_demo 84]
   \<and> first_load [phdr32_demo 52, phdr32_demo 84]
       = Some \<lparr>p_type = 1, p_vaddr = 0x08048000, p_align = 0x1000\<rparr>
   \<and> get_base_32 ehdr32_demo elf32_demo = Some 0x08048000
   \<and> open_mmap files64_demo (object_file demo_session)
       (e_shoff (v64 ehdr_v_noload) + sht_size (v64 ehdr_v_noload)) = Some elf64_demo
   \<and> shdr_at elf64_demo (ELF_SH_OFF16 (v64 ehdr_v_noload) (e_shstrndx (v64 ehdr_v_noload)))
       = Some (shdr64_demo 0x2100)
   \<and> phdrs_fit (v64 ehdr_v_noload)
   \<and> phdrs (v64 ehdr_v_noload) elf64_demo = map Some [phdr64_demo 64]
   \<and> first_load [phdr64_demo 64] = None
   \<and> get_base_64 (v64 ehdr_v_noload) elf64_demo = Some 0xFFFFFFFFFFFFFFFF
   \<and> py_proc__analyze_elf64 an_demo files64_demo ehdr_v_noload demo_session
       = Some (1, demo_session, [])
   \<and> open_mmap files32_demo (object_file demo_session)
       (ucast (ucast (ucast (e_shoff (v32 ehdr_v_noload)) + sht_size (v32 ehdr_v_noload))
          :: 32 word)) = Some elf32_demo
   \<and> shdr_at elf32_demo
       (ucast (ELF_SH_OFF16 (v32 ehdr_v_noload) (e_shstrndx (v32 ehdr_v_noload))))
       = Some (shdr32_demo 0x20a0)
   \<and> phdrs_fit (v32 ehdr_v_noload)
   \<and> phdrs (v32 ehdr_v_noload) elf32_demo = map Some [phdr32_demo 52]
   \<and> first_load [phdr32_demo 52] = None
   \<and> get_base_32 (v32 ehdr_v_noload) elf32_demo = Some 0xFFFFFFFF
   \<and> py_proc__analyze_elf32 an_demo files32_demo ehdr_v_noload demo_session
       = Some (1, demo_session, [])"
proof -
  have v: "phdr64_demo 120 = \<lparr>p_type = 1, p_vaddr = 0x400040, p_align = 0x1000\<rparr>"
    "phdr32_demo 84 = \<lparr>p_type = 1, p_vaddr = 0x08048000, p_align = 0x1000\<rparr>"
    by (simp_all add: phdr64_demo_def phdr32_demo_def)
  note inst = load_bias [where ?ehdr64.0 = ehdr64_demo and ?elf64.0 = elf64_demo
      and ?phs64.0 = "[phdr64_demo 64, phdr64_demo 120]"
      and ?ph64.0 = "\<lparr>p_type = 1, p_vaddr = 0x400040, p_align = 0x1000\<rparr>"
      and ?ehdr32.0 = ehdr32_demo and ?elf32.0 = elf32_demo
      and ?phs32.0 = "[phdr32_demo 52, phdr32_demo 84]"
      and ?ph32.0 = "\<lparr>p_type = 1, p_vaddr = 0x08048000, p_align = 0x1000\<rparr>"
      and ehdr_v = ehdr_v_noload and ?files64.0 = files64_demo and ?files32.0 = files32_demo
      and self = demo_session and an = an_demo and ?m64.0 = elf64_demo
      and ?m32.0 = elf32_demo and ?hs64.0 = "[phdr64_demo 64]"
      and ?hs32.0 = "[phdr32_demo 52]"]
  have a: "get_base_64 ehdr64_demo elf64_demo = Some 0x400000"
    using inst [THEN conjunct1] phdrs_fit_demo phdrs_demo first_load_demo v by simp
  have b: "get_base_32 ehdr32_demo elf32_demo = Some 0x08048000"
    using inst [THEN conjunct2, THEN conjunct1] phdrs_fit_demo phdrs_demo first_load_demo v
    by simp
  have c: "get_base_64 (v64 ehdr_v_noload) elf64_demo = Some 0xFFFFFFFFFFFFFFFF
      \<and> py_proc__analyze_elf64 an_demo files64_demo ehdr_v_noload demo_session
       = Some (1, demo_session, [])"
    using inst [THEN conjunct2, THEN conjunct2, THEN conjunct1]
      phdrs_fit_demo phdrs_demo first_load_demo noload_map by simp
  have d: "get_base_32 (v32 ehdr_v_noload) elf32_demo = Some 0xFFFFFFFF
      \<and> py_proc__analyze_elf32 an_demo files32_demo ehdr_v_noload demo_session
       = Some (1, demo_session, [])"
    using inst [THEN conjunct2, THEN conjunct2, THEN conjunct2]
      phdrs_fit_demo phdrs_demo first_load_demo noload_map by simp
  show ?thesis
    using a b c d phdrs_fit_demo phdrs_demo first_load_demo noload_map v by simp
qed

section \<open>When the analysis returns\<close>

lemma well_formed_tables:
  assumes "well_formed ehdr elf_map"
  shows "table_fits ehdr" and "names_fit ehdr" and "phdrs_fit ehdr"
    and "\<exists>names. shdr_at elf_map (ucast (shdr_off ehdr (unat (e_shstrndx ehdr)))) = Some names"
    and "\<exists>phs. phdrs ehdr elf_map = map Some phs
           \<and> (\<forall>ph. first_load phs = Some ph \<longrightarrow> p_align ph \<noteq> 0)"
proof -
  show "table_fits ehdr" and "names_fit ehdr" and "phdrs_fit ehdr"
    using assms by (simp_all add: well_formed_def)
  show "\<exists>names. shdr_at elf_map (ucast (shdr_off ehdr (unat (e_shstrndx ehdr)))) = Some names"
    using assms by (auto simp add: well_formed_def)
  obtain phs where phs: "phdrs ehdr elf_map = map Some phs"
    and al: "\<forall>ph \<in> set phs. p_type ph = PT_LOAD \<longrightarrow> p_align ph \<noteq> 0"
    using assms unfolding well_formed_def by blast
  have "\<forall>ph. first_load phs = Some ph \<longrightarrow> p_align ph \<noteq> 0"
  proof (intro allI impI)
    fix ph assume "first_load phs = Some ph"
    then have "ph \<in> set phs" "p_type ph = PT_LOAD"
      unfolding first_load_def find_Some_iff by auto
    with al show "p_align ph \<noteq> 0" by blast
  qed
  with phs show "\<exists>phs. phdrs ehdr elf_map = map Some phs
           \<and> (\<forall>ph. first_load phs = Some ph \<longrightarrow> p_align ph \<noteq> 0)" by blast
qed

lemma well_formed_sections:
  assumes "well_formed ehdr elf_map"
    and "shdr_at elf_map (ucast (shdr_off ehdr (unat (e_shstrndx ehdr)))) = Some names"
    and "j < unat (e_shnum ehdr)"
  shows "\<exists>sh. shdr_at elf_map (ucast (shdr_off ehdr j)) = Some sh
           \<and> str_at elf_map (ucast (sh_offset names) + ucast (sh_name sh)) \<noteq> None
           \<and> (sh_type sh = SHT_DYNSYM \<and> sh_offset sh \<noteq> 0 \<longrightarrow>
                regular_table (sh_offset sh + sh_size sh) (sh_entsize sh)
                \<and> dynsym_readable elf_map (ucast (ELF_SH_OFF32 ehdr (sh_link sh)))
                    (sh_offset sh + sh_size sh) (sh_entsize sh) (sh_offset sh))"
proof -
  from assms(1,3) obtain sh where sh: "shdr_at elf_map (ucast (shdr_off ehdr j)) = Some sh"
    and nm: "section_name ehdr elf_map sh \<noteq> None"
    and tab: "sh_type sh = SHT_DYNSYM \<and> sh_offset sh \<noteq> 0 \<longrightarrow>
                regular_table (sh_offset sh + sh_size sh) (sh_entsize sh)
                \<and> dynsym_readable elf_map (ucast (ELF_SH_OFF32 ehdr (sh_link sh)))
                    (sh_offset sh + sh_size sh) (sh_entsize sh) (sh_offset sh)"
    unfolding well_formed_def by blast
  have "str_at elf_map (ucast (sh_offset names) + ucast (sh_name sh)) \<noteq> None"
    using nm by (simp add: section_name_def assms(2))
  with sh tab show ?thesis by blast
qed

text \<open>
  An analyzer returns on an object file that is mapped and well formed.
\<close>

lemma analyze_elf64_returns:
  assumes mapped: "open_mmap files (object_file self) (map_size (v64 ehdr_v)) = Some elf_map"
    and wf: "well_formed (v64 ehdr_v) elf_map"
  shows "\<exists>r. py_proc__analyze_elf64 an files ehdr_v self = Some r"
proof -
  let ?ehdr = "v64 ehdr_v"
  let ?n = "unat (e_shnum ?ehdr)"
  let ?ent = "e_shentsize ?ehdr"
  note tf = well_formed_tables(1) [OF wf] and nf = well_formed_tables(2) [OF wf]
    and pf = well_formed_tables(3) [OF wf]
  have size: "e_shoff ?ehdr + sht_size ?ehdr = map_size ?ehdr" by (rule map_size_64 [OF tf])
  obtain names where names0:
    "shdr_at elf_map (ucast (shdr_off ?ehdr (unat (e_shstrndx ?ehdr)))) = Some names"
    using well_formed_tables(4) [OF wf] by blast
  then have names: "shdr_at elf_map (ELF_SH_OFF16 ?ehdr (e_shstrndx ?ehdr)) = Some names"
    by (simp add: ELF_SH_OFF16_names [OF nf])
  obtain phs where "phdrs ?ehdr elf_map = map Some phs"
    and "\<forall>ph. first_load phs = Some ph \<longrightarrow> p_align ph \<noteq> 0"
    using well_formed_tables(5) [OF wf] by blast
  then have "get_base_64 ?ehdr elf_map = Some (load_bias_spec phs)"
    unfolding get_base_64_def by (intro get_base_spec [OF pf])
  then obtain b where b: "get_base_64 ?ehdr elf_map = Some b" by blast
  show ?thesis
  proof (cases "b = - 1")
    case True
    then show ?thesis
      by (simp add: py_proc__analyze_elf64_def Let_def size mapped names b)
  next
    case False
    have "\<exists>sec. scan_sections_64 elf_map (sh_offset names) b (map_size ?ehdr) ?ent
              (e_shoff ?ehdr) (None, self) = Some sec
        \<and> (\<forall>d. fst sec = Some d \<longrightarrow>
             (\<exists>sh. shdr_at elf_map d = Some sh
                \<and> (sh_offset sh \<noteq> 0 \<longrightarrow>
                     regular_table (sh_offset sh + sh_size sh) (sh_entsize sh)
                     \<and> dynsym_readable elf_map (ucast (ELF_SH_OFF32 ?ehdr (sh_link sh)))
                         (sh_offset sh + sh_size sh) (sh_entsize sh) (sh_offset sh))))"
    proof (cases "0 < unat ?ent")
      case True
      have rd: "\<forall>k < ?n. \<exists>sh. shdr_at elf_map (e_shoff ?ehdr + of_nat (k * unat ?ent)) = Some sh
                 \<and> str_at elf_map (sh_offset names + ucast (sh_name sh)) \<noteq> None"
      proof (intro allI impI)
        fix k assume "k < ?n"
        from well_formed_sections [OF wf names0 this]
        show "\<exists>sh. shdr_at elf_map (e_shoff ?ehdr + of_nat (k * unat ?ent)) = Some sh
                 \<and> str_at elf_map (sh_offset names + ucast (sh_name sh)) \<noteq> None"
          by (auto simp add: shdr_off_def)
      qed
      from sections_exact_64 [OF True table_end [OF tf] rd, of b "(None, self)"]
      obtain sec where sec: "scan_sections_64 elf_map (sh_offset names) b (map_size ?ehdr) ?ent
              (e_shoff ?ehdr) (None, self) = Some sec"
        and d: "fst sec = None
           \<or> (\<exists>k < ?n. \<exists>sh. fst sec = Some (e_shoff ?ehdr + of_nat (k * unat ?ent))
                 \<and> shdr_at elf_map (e_shoff ?ehdr + of_nat (k * unat ?ent)) = Some sh
                 \<and> sh_type sh = SHT_DYNSYM)"
        unfolding fst_conv by blast
      have "\<forall>d. fst sec = Some d \<longrightarrow>
             (\<exists>sh. shdr_at elf_map d = Some sh
                \<and> (sh_offset sh \<noteq> 0 \<longrightarrow>
                     regular_table (sh_offset sh + sh_size sh) (sh_entsize sh)
                     \<and> dynsym_readable elf_map (ucast (ELF_SH_OFF32 ?ehdr (sh_link sh)))
                         (sh_offset sh + sh_size sh) (sh_entsize sh) (sh_offset sh)))"
      proof (intro allI impI)
        fix x assume x: "fst sec = Some x"
        with d obtain k sh where k: "k < ?n"
          and xk: "x = e_shoff ?ehdr + of_nat (k * unat ?ent)"
          and sh: "shdr_at elf_map x = Some sh" and ty: "sh_type sh = SHT_DYNSYM"
          by (metis option.inject option.distinct(1))
        from well_formed_sections [OF wf names0 k] sh ty
        show "\<exists>sh. shdr_at elf_map x = Some sh
                \<and> (sh_offset sh \<noteq> 0 \<longrightarrow>
                     regular_table (sh_offset sh + sh_size sh) (sh_entsize sh)
                     \<and> dynsym_readable elf_map (ucast (ELF_SH_OFF32 ?ehdr (sh_link sh)))
                         (sh_offset sh + sh_size sh) (sh_entsize sh) (sh_offset sh))"
          unfolding shdr_off_def xk [symmetric] ucast_id by (metis option.inject)
      qed
      with sec show ?thesis by blast
    next
      case False
      then have "map_size ?ehdr = e_shoff ?ehdr" by (simp add: map_size_def shdr_off_def)
      then have "scan_sections_64 elf_map (sh_offset names) b (map_size ?ehdr) ?ent
              (e_shoff ?ehdr) (None, self) = Some (None, self)"
        by (subst scan_sections_64.simps) simp
      then show ?thesis by simp
    qed
    then obtain sec where sec: "scan_sections_64 elf_map (sh_offset names) b (map_size ?ehdr)
              ?ent (e_shoff ?ehdr) (None, self) = Some sec"
      and ok: "\<forall>d. fst sec = Some d \<longrightarrow>
             (\<exists>sh. shdr_at elf_map d = Some sh
                \<and> (sh_offset sh \<noteq> 0 \<longrightarrow>
                     regular_table (sh_offset sh + sh_size sh) (sh_entsize sh)
                     \<and> dynsym_readable elf_map (ucast (ELF_SH_OFF32 ?ehdr (sh_link sh)))
                         (sh_offset sh + sh_size sh) (sh_entsize sh) (sh_offset sh)))"
      by blast
    from search_dynsym_returns [OF ok]
    obtain y where y: "search_dynsym an ?ehdr elf_map b sec = Some y" by blast
    have "py_proc__analyze_elf64 an files ehdr_v self = Some (not_symbols (fst y), snd y)"
      by (simp add: py_proc__analyze_elf64_def Let_def size mapped names b False sec y)
    then show ?thesis by blast
  qed
qed

lemma analyze_elf32_returns:
  assumes mapped: "open_mmap files (object_file self) (ucast (map_size (v32 ehdr_v))) = Some elf_map"
    and wf: "well_formed (v32 ehdr_v) elf_map"
  shows "\<exists>r. py_proc__analyze_elf32 an files ehdr_v self = Some r"
proof -
  let ?ehdr = "v32 ehdr_v"
  let ?n = "unat (e_shnum ?ehdr)"
  let ?ent = "e_shentsize ?ehdr"
  note tf = well_formed_tables(1) [OF wf] and nf = well_formed_tables(2) [OF wf]
    and pf = well_formed_tables(3) [OF wf]
  have size: "(ucast (ucast (e_shoff ?ehdr) + sht_size ?ehdr) :: 32 word) = map_size ?ehdr"
    by (rule map_size_32 [OF tf])
  obtain names where names0:
    "shdr_at elf_map (ucast (shdr_off ?ehdr (unat (e_shstrndx ?ehdr)))) = Some names"
    using well_formed_tables(4) [OF wf] by blast
  then have names:
    "shdr_at elf_map (ucast (ELF_SH_OFF16 ?ehdr (e_shstrndx ?ehdr))) = Some names"
    by (simp add: ELF_SH_OFF16_names [OF nf])
  obtain phs where "phdrs ?ehdr elf_map = map Some phs"
    and "\<forall>ph. first_load phs = Some ph \<longrightarrow> p_align ph \<noteq> 0"
    using well_formed_tables(5) [OF wf] by blast
  then have "get_base_32 ?ehdr elf_map = Some (load_bias_spec phs)"
    unfolding get_base_32_def by (intro get_base_spec [OF pf])
  then obtain b where b: "get_base_32 ?ehdr elf_map = Some b" by blast
  show ?thesis
  proof (cases "b = - 1")
    case True
    then show ?thesis
      by (simp add: py_proc__analyze_elf32_def Let_def size mapped names b)
  next
    case False
    have "\<exists>sec. scan_sections_32 elf_map (ucast (sh_offset names)) (map_size ?ehdr) ?ent
              (e_shoff ?ehdr) (None, self) = Some sec
        \<and> (\<forall>d. fst sec = Some d \<longrightarrow>
             (\<exists>sh. shdr_at elf_map d = Some sh
                \<and> (sh_offset sh \<noteq> 0 \<longrightarrow>
                     regular_table (sh_offset sh + sh_size sh) (sh_entsize sh)
                     \<and> dynsym_readable elf_map (ucast (ELF_SH_OFF32 ?ehdr (sh_link sh)))
                         (sh_offset sh + sh_size sh) (sh_entsize sh) (sh_offset sh))))"
    proof (cases "0 < unat ?ent")
      case True
      have rd: "\<forall>k < ?n. \<exists>sh. shdr_at elf_map (ucast (e_shoff ?ehdr + of_nat (k * unat ?ent)))
                   = Some sh
                 \<and> str_at elf_map (ucast (sh_offset names) + ucast (sh_name sh)) \<noteq> None"
      proof (intro allI impI)
        fix k assume "k < ?n"
        from well_formed_sections [OF wf names0 this]
        show "\<exists>sh. shdr_at elf_map (ucast (e_shoff ?ehdr + of_nat (k * unat ?ent))) = Some sh
                 \<and> str_at elf_map (ucast (sh_offset names) + ucast (sh_name sh)) \<noteq> None"
          by (auto simp add: shdr_off_def)
      qed
      from sections_exact_32 [OF True table_end [OF tf] rd, of "(None, self)"]
      obtain sec where sec: "scan_sections_32 elf_map (ucast (sh_offset names))
              (map_size ?ehdr) ?ent (e_shoff ?ehdr) (None, self) = Some sec"
        and d: "fst sec = None
           \<or> (\<exists>k < ?n. \<exists>sh. fst sec = Some (ucast (e_shoff ?ehdr + of_nat (k * unat ?ent)))
                 \<and> shdr_at elf_map (ucast (e_shoff ?ehdr + of_nat (k * unat ?ent))) = Some sh
                 \<and> sh_type sh = SHT_DYNSYM)"
        unfolding fst_conv by blast
      have "\<forall>d. fst sec = Some d \<longrightarrow>
             (\<exists>sh. shdr_at elf_map d = Some sh
                \<and> (sh_offset sh \<noteq> 0 \<longrightarrow>
                     regular_table (sh_offset sh + sh_size sh) (sh_entsize sh)
                     \<and> dynsym_readable elf_map (ucast (ELF_SH_OFF32 ?ehdr (sh_link sh)))
                         (sh_offset sh + sh_size sh) (sh_entsize sh) (sh_offset sh)))"
      proof (intro allI impI)
        fix x assume x: "fst sec = Some x"
        with d obtain k sh where k: "k < ?n"
          and xk: "x = ucast (e_shoff ?ehdr + of_nat (k * unat ?ent))"
          and sh: "shdr_at elf_map x = Some sh" and ty: "sh_type sh = SHT_DYNSYM"
          by (metis option.inject option.distinct(1))
        from well_formed_sections [OF wf names0 k] sh ty
        show "\<exists>sh. shdr_at elf_map x = Some sh
                \<and> (sh_offset sh \<noteq> 0 \<longrightarrow>
                     regular_table (sh_offset sh + sh_size sh) (sh_entsize sh)
                     \<and> dynsym_readable elf_map (ucast (ELF_SH_OFF32 ?ehdr (sh_link sh)))
                         (sh_offset sh + sh_size sh) (sh_entsize sh) (sh_offset sh))"
          unfolding shdr_off_def xk [symmetric] ucast_id by (metis option.inject)
      qed
      with sec show ?thesis by blast
    next
      case False
      then have "map_size ?ehdr = e_shoff ?ehdr" by (simp add: map_size_def shdr_off_def)
      then have "scan_sections_32 elf_map (ucast (sh_offset names)) (map_size ?ehdr) ?ent
              (e_shoff ?ehdr) (None, self) = Some (None, self)"
        by (subst scan_sections_32.simps) simp
      then show ?thesis by simp
    qed
    then obtain sec where sec: "scan_sections_32 elf_map (ucast (sh_offset names))
              (map_size ?ehdr) ?ent (e_shoff ?ehdr) (None, self) = Some sec"
      and ok: "\<forall>d. fst sec = Some d \<longrightarrow>
             (\<exists>sh. shdr_at elf_map d = Some sh
                \<and> (sh_offset sh \<noteq> 0 \<longrightarrow>
                     regular_table (sh_offset sh + sh_size sh) (sh_entsize sh)
                     \<and> dynsym_readable elf_map (ucast (ELF_SH_OFF32 ?ehdr (sh_link sh)))
                         (sh_offset sh + sh_size sh) (sh_entsize sh) (sh_offset sh)))"
      by blast
    from search_dynsym_returns [OF ok]
    obtain y where y: "search_dynsym an ?ehdr elf_map b sec = Some y" by blast
    have "py_proc__analyze_elf32 an files ehdr_v self = Some (not_symbols (fst y), snd y)"
      by (simp add: py_proc__analyze_elf32_def Let_def size mapped names b False sec y)
    then show ?thesis by blast
  qed
qed

text \<open>The two files are well formed.\<close>

lemma section_name_demo:
  "section_name ehdr64_demo elf64_demo sh = str_at elf64_demo (0x1f00 + ucast (sh_name sh))"
  "section_name ehdr32_demo elf32_demo sh' = str_at elf32_demo (0x1f00 + ucast (sh_name sh'))"
  by (simp_all add: section_name_def shdr_off_def ehdr64_demo_def ehdr32_demo_def
      elf64_demo_sel elf32_demo_sel struct_at_def shdr64_demo_def shdr32_demo_def)

lemma well_formed_64_demo: "well_formed ehdr64_demo elf64_demo"
  unfolding well_formed_def
proof (intro conjI allI impI)
  show "table_fits ehdr64_demo" by (simp add: table_fits_def ehdr64_demo_def)
  show "names_fit ehdr64_demo" by (simp add: names_fit_def ehdr64_demo_def)
  show "phdrs_fit ehdr64_demo" by (rule phdrs_fit_demo)
  show "shdr_at elf64_demo (ucast (shdr_off ehdr64_demo (unat (e_shstrndx ehdr64_demo))))
          \<noteq> None"
    by (simp add: shdr_off_def ehdr64_demo_def elf64_demo_sel struct_at_def)
  show "\<exists>phs. phdrs ehdr64_demo elf64_demo = map Some phs
          \<and> (\<forall>ph \<in> set phs. p_type ph = PT_LOAD \<longrightarrow> p_align ph \<noteq> 0)"
    by (intro exI [of _ "[phdr64_demo 64, phdr64_demo 120]"])
       (simp add: phdrs_demo phdr64_demo_def PT_LOAD_def)
next
  fix j
  assume "j < unat (e_shnum ehdr64_demo)"
  then have "j = 0 \<or> j = 1 \<or> j = 2 \<or> j = 3 \<or> j = 4"
    by (simp add: ehdr64_demo_def) arith
  moreover have "ELF_SH_OFF32 ehdr64_demo 2 = 0x2080"
    by (simp add: ELF_SH_OFF32_def ehdr64_demo_def)
  moreover have "shdr_off ehdr64_demo j = 0x2000 + of_nat j * 64"
    by (simp add: shdr_off_def ehdr64_demo_def)
  ultimately
  show "\<exists>sh. shdr_at elf64_demo (ucast (shdr_off ehdr64_demo j)) = Some sh
          \<and> section_name ehdr64_demo elf64_demo sh \<noteq> None
          \<and> (sh_type sh = SHT_DYNSYM \<and> sh_offset sh \<noteq> 0 \<longrightarrow>
               regular_table (sh_offset sh + sh_size sh) (sh_entsize sh)
               \<and> dynsym_readable elf64_demo (ucast (ELF_SH_OFF32 ehdr64_demo (sh_link sh)))
                   (sh_offset sh + sh_size sh) (sh_entsize sh) (sh_offset sh))"
    using dynsym_readable_demo(1)
    by (elim disjE)
       (simp_all add: section_name_demo elf64_demo_sel
          struct_at_def string_at_def shdr64_demo_def str_demo_def SHT_DYNSYM_def
          regular_table_def)
qed

lemma well_formed_32_demo: "well_formed ehdr32_demo elf32_demo"
  unfolding well_formed_def
proof (intro conjI allI impI)
  show "table_fits ehdr32_demo" by (simp add: table_fits_def ehdr32_demo_def)
  show "names_fit ehdr32_demo" by (simp add: names_fit_def ehdr32_demo_def)
  show "phdrs_fit ehdr32_demo" by (rule phdrs_fit_demo)
  show "shdr_at elf32_demo (ucast (shdr_off ehdr32_demo (unat (e_shstrndx ehdr32_demo))))
          \<noteq> None"
    by (simp add: shdr_off_def ehdr32_demo_def elf32_demo_sel struct_at_def)
  show "\<exists>phs. phdrs ehdr32_demo elf32_demo = map Some phs
          \<and> (\<forall>ph \<in> set phs. p_type ph = PT_LOAD \<longrightarrow> p_align ph \<noteq> 0)"
    by (intro exI [of _ "[phdr32_demo 52, phdr32_demo 84]"])
       (simp add: phdrs_demo phdr32_demo_def PT_LOAD_def)
next
  fix j
  assume "j < unat (e_shnum ehdr32_demo)"
  then have "j = 0 \<or> j = 1 \<or> j = 2 \<or> j = 3 \<or> j = 4"
    by (simp add: ehdr32_demo_def) arith
  moreover have "ELF_SH_OFF32 ehdr32_demo 2 = 0x2050"
    by (simp add: ELF_SH_OFF32_def ehdr32_demo_def)
  moreover have "shdr_off ehdr32_demo j = 0x2000 + of_nat j * 40"
    by (simp add: shdr_off_def ehdr32_demo_def)
  ultimately
  show "\<exists>sh. shdr_at elf32_demo (ucast (shdr_off ehdr32_demo j)) = Some sh
          \<and> section_name ehdr32_demo elf32_demo sh \<noteq> None
          \<and> (sh_type sh = SHT_DYNSYM \<and> sh_offset sh \<noteq> 0 \<longrightarrow>
               regular_table (sh_offset sh + sh_size sh) (sh_entsize sh)
               \<and> dynsym_readable elf32_demo (ucast (ELF_SH_OFF32 ehdr32_demo (sh_link sh)))
                   (sh_offset sh + sh_size sh) (sh_entsize sh) (sh_offset sh))"
    using dynsym_readable_demo(2)
    by (elim disjE)
       (simp_all add: section_name_demo elf32_demo_sel
          struct_at_def string_at_def shdr32_demo_def str_demo_def SHT_DYNSYM_def
          regular_table_def)
qed

lemma mapped_demo:
  "open_mmap files64_demo (object_file demo_session) (map_size (v64 ehdr_v_demo)) = Some elf64_demo"
  "open_mmap files32_demo (object_file demo_session) (ucast (map_size (v32 ehdr_v_demo32)))
     = Some elf32_demo"
  by (simp_all add: object_file_demo map_size_def shdr_off_def ehdr_v_demo_def
      ehdr_v_demo32_def ehdr64_demo_def ehdr32_demo_def files_demo_map)

section \<open>Success of the analysis\<close>

text \<open>
  C5, as the code has it. Each analyzer, when it returns, returns 0 or 1, and it returns 0
  (success) exactly when at least one of the symbols it read is an anchor: one resolved
  anchor is enough and two are accepted too; the address stored for an anchor is not
  tested. When no anchor is resolved it returns 1. And each analyzer does return when the
  object file is mapped and well formed.
\<close>

theorem analyze_elf_success_iff:
  "(py_proc__analyze_elf64 an files64 ehdr_v self = Some r64 \<longrightarrow>
      (fst r64 = 0 \<longleftrightarrow> (\<exists>x \<in> set (snd (snd r64)). is_anchor an (snd x)))
      \<and> (fst r64 = 0 \<or> fst r64 = 1))
   \<and> (py_proc__analyze_elf32 an files32 ehdr_v32 self32 = Some r32 \<longrightarrow>
      (fst r32 = 0 \<longleftrightarrow> (\<exists>x \<in> set (snd (snd r32)). is_anchor an (snd x)))
      \<and> (fst r32 = 0 \<or> fst r32 = 1))
   \<and> (open_mmap files64 (object_file self) (map_size (v64 ehdr_v)) = Some m64
        \<and> well_formed (v64 ehdr_v) m64 \<longrightarrow>
      (\<exists>r. py_proc__analyze_elf64 an files64 ehdr_v self = Some r))
   \<and> (open_mmap files32 (object_file self32) (ucast (map_size (v32 ehdr_v32))) = Some m32
        \<and> well_formed (v32 ehdr_v32) m32 \<longrightarrow>
      (\<exists>r. py_proc__analyze_elf32 an files32 ehdr_v32 self32 = Some r))"
proof (intro conjI impI)
  assume a: "py_proc__analyze_elf64 an files64 ehdr_v self = Some r64"
  from analyze_elf64_cases [OF a]
  show "fst r64 = 0 \<longleftrightarrow> (\<exists>x \<in> set (snd (snd r64)). is_anchor an (snd x))"
    using search_success_iff(1) by (elim disjE exE conjE) (simp, blast)
  from analyze_elf64_cases [OF a]
  show "fst r64 = 0 \<or> fst r64 = 1"
    using not_symbols_range by (elim disjE exE conjE) (simp, fastforce)
next
  assume a: "py_proc__analyze_elf32 an files32 ehdr_v32 self32 = Some r32"
  from analyze_elf32_cases [OF a]
  show "fst r32 = 0 \<longleftrightarrow> (\<exists>x \<in> set (snd (snd r32)). is_anchor an (snd x))"
    using search_success_iff(1) by (elim disjE exE conjE) (simp, blast)
  from analyze_elf32_cases [OF a]
  show "fst r32 = 0 \<or> fst r32 = 1"
    using not_symbols_range by (elim disjE exE conjE) (simp, fastforce)
next
  assume "open_mmap files64 (object_file self) (map_size (v64 ehdr_v)) = Some m64
        \<and> well_formed (v64 ehdr_v) m64"
  then show "\<exists>r. py_proc__analyze_elf64 an files64 ehdr_v self = Some r"
    using analyze_elf64_returns by blast
next
  assume "open_mmap files32 (object_file self32) (ucast (map_size (v32 ehdr_v32))) = Some m32
        \<and> well_formed (v32 ehdr_v32) m32"
  then show "\<exists>r. py_proc__analyze_elf32 an files32 ehdr_v32 self32 = Some r"
    using analyze_elf32_returns by blast
qed

text \<open>
  The two files are mapped and well formed, the analysis of each returns 0, and an anchor
  is among the symbols read.
\<close>

theorem analyze_elf_success_iff_witness:
  "py_proc__analyze_elf64 an_demo files64_demo ehdr_v_demo demo_session
     = Some (0, session_analysed,
             [(0x300, []), (0x318, ''_PyThreadState_Current''), (0x330, ''_PyRuntime'')])
   \<and> py_proc__analyze_elf32 an_demo files32_demo ehdr_v_demo32 demo_session
     = Some (0, session_analysed32,
             [(0x300, []), (0x310, ''_PyRuntime''), (0x320, ''Py_Main'')])
   \<and> (\<exists>x \<in> set [(0x300 :: addr, []), (0x318, ''_PyThreadState_Current''),
                   (0x330, ''_PyRuntime'')]. is_anchor an_demo (snd x))
   \<and> (\<exists>x \<in> set [(0x300 :: addr, []), (0x310, ''_PyRuntime''), (0x320, ''Py_Main'')].
         is_anchor an_demo (snd x))
   \<and> open_mmap files64_demo (object_file demo_session) (map_size (v64 ehdr_v_demo)) = Some elf64_demo
   \<and> well_formed (v64 ehdr_v_demo) elf64_demo
   \<and> open_mmap files32_demo (object_file demo_session) (ucast (map_size (v32 ehdr_v_demo32)))
       = Some elf32_demo
   \<and> well_formed (v32 ehdr_v_demo32) elf32_demo
   \<and> (\<exists>r. py_proc__analyze_elf64 an_demo files64_demo ehdr_v_demo demo_session = Some r)
   \<and> (\<exists>r. py_proc__analyze_elf32 an_demo files32_demo ehdr_v_demo32 demo_session = Some r)"
proof -
  have wf: "well_formed (v64 ehdr_v_demo) elf64_demo" "well_formed (v32 ehdr_v_demo32) elf32_demo"
    by (simp_all add: ehdr_v_demo_def ehdr_v_demo32_def well_formed_64_demo
        well_formed_32_demo)
  note inst = analyze_elf_success_iff [where an = an_demo and ?files64.0 = files64_demo
      and ehdr_v = ehdr_v_demo and self = demo_session
      and ?r64.0 = "(0, session_analysed,
        [(0x300, []), (0x318, ''_PyThreadState_Current''), (0x330, ''_PyRuntime'')])"
      and ?files32.0 = files32_demo and ?ehdr_v32.0 = ehdr_v_demo32 and ?self32.0 = demo_session
      and ?r32.0 = "(0, session_analysed32,
        [(0x300, []), (0x310, ''_PyRuntime''), (0x320, ''Py_Main'')])"
      and ?m64.0 = elf64_demo and ?m32.0 = elf32_demo]
  have a: "\<exists>x \<in> set [(0x300 :: addr, []), (0x318, ''_PyThreadState_Current''),
                   (0x330, ''_PyRuntime'')]. is_anchor an_demo (snd x)"
    using inst [THEN conjunct1] analyze_elf64_demo by simp
  have b: "\<exists>x \<in> set [(0x300 :: addr, []), (0x310, ''_PyRuntime''), (0x320, ''Py_Main'')].
         is_anchor an_demo (snd x)"
    using inst [THEN conjunct2, THEN conjunct1] analyze_elf32_demo by simp
  have c: "\<exists>r. py_proc__analyze_elf64 an_demo files64_demo ehdr_v_demo demo_session = Some r"
    using inst [THEN conjunct2, THEN conjunct2, THEN conjunct1] mapped_demo(1) wf(1)
    by blast
  have d: "\<exists>r. py_proc__analyze_elf32 an_demo files32_demo ehdr_v_demo32 demo_session = Some r"
    using inst [THEN conjunct2, THEN conjunct2, THEN conjunct2] mapped_demo(2) wf(2)
    by blast
  show ?thesis
    using a b c d analyze_elf64_demo analyze_elf32_demo mapped_demo wf by blast
qed

text \<open>
  C5 as stated fails. On the 64-bit file both anchors are resolved to non-null addresses,
  not exactly one, and the analysis succeeds. On the file that imports \<^verbatim>\<open>_PyRuntime\<close>
  the value of the symbol is 0 and the address computed for it,
  \<open>0x400000 + (0 - 0x400000)\<close>, is null: no anchor has a non-null address, and the analysis
  succeeds.
\<close>

theorem analyze_elf64_both_anchors:
  "py_proc__analyze_elf64 an_demo files64_demo ehdr_v_demo demo_session
     = Some (0, session_analysed,
             [(0x300, []), (0x318, ''_PyThreadState_Current''), (0x330, ''_PyRuntime'')])
   \<and> py_runtime_raddr session_analysed \<noteq> 0
   \<and> tstate_head_raddr session_analysed \<noteq> 0
   \<and> py_proc__analyze_elf64 an_demo files64_import ehdr_v_demo demo_session
     = Some (0, session_import,
             [(0x300, []), (0x318, ''_PyRuntime''), (0x330, ''Py_Main''), (0x348, [])])
   \<and> py_runtime_raddr session_import = 0
   \<and> tstate_head_raddr session_import = 0"
proof -
  have "py_runtime_raddr session_analysed \<noteq> 0" "tstate_head_raddr session_analysed \<noteq> 0"
    "py_runtime_raddr session_import = 0" "tstate_head_raddr session_import = 0"
    by (simp_all add: session_analysed_def session_import_def demo_session_eq proc0_def)
  then show ?thesis by (simp add: analyze_elf64_demo analyze_elf64_import)
qed

section \<open>The BSS region\<close>















section \<open>The dispatcher\<close>

lemma ehdr64_demo_format:
  "\<not> memcmp (e_ident ehdr64_demo) ELFMAG SELFMAG"
  "e_shoff ehdr64_demo \<noteq> 0"
  "\<not> e_shnum ehdr64_demo < 2"
  "e_ident ehdr64_demo EI_CLASS = ELFCLASS64"
  by (simp_all add: memcmp_def ELFMAG_def SELFMAG_def EI_CLASS_def ELFCLASS64_def
      ehdr64_demo_def ident64_demo_def upt_rec)

text \<open>
  C7 fails on the code. The format test and the dispatch look at the local \<^verbatim>\<open>ehdr\<close>,
  a copy of \<^verbatim>\<open>ehdr_v\<close> taken before the header is read from the target. On the first
  call the buffer is all zero: the header read is a well-formed 64-bit header (magic, a
  section header offset, five sections, class 64), which the 64-bit analyzer handles, and
  the dispatcher fails without calling it. A second call, on the same target, sees the
  header that the first call left in the buffer and dispatches.
\<close>

theorem analyze_elf_stale_header:
  "py_proc__analyze_elf an_demo object_files_demo memcpy_demo ehdr_v_zero demo_session
     = (Some (FAIL, demo_session, []), ehdr_v_demo)
   \<and> memcpy_demo demo_session (base (elf (map_r demo_session))) = (0, ehdr_v_demo)
   \<and> \<not> memcmp (e_ident (v64 ehdr_v_demo)) ELFMAG SELFMAG
   \<and> e_shoff (v64 ehdr_v_demo) \<noteq> 0
   \<and> \<not> e_shnum (v64 ehdr_v_demo) < 2
   \<and> e_ident (v64 ehdr_v_demo) EI_CLASS = ELFCLASS64
   \<and> py_proc__analyze_elf64 an_demo (as_elf64 object_files_demo) ehdr_v_demo demo_session
       = Some (0, session_analysed,
               [(0x300, []), (0x318, ''_PyThreadState_Current''), (0x330, ''_PyRuntime'')])
   \<and> py_proc__analyze_elf an_demo object_files_demo memcpy_demo ehdr_v_demo demo_session
       = (Some (0, session_analysed,
                [(0x300, []), (0x318, ''_PyThreadState_Current''), (0x330, ''_PyRuntime'')]),
          ehdr_v_demo)"
proof -
  have v: "v64 ehdr_v_demo = ehdr64_demo" "v64 ehdr_v_zero = ehdr64_zero"
    by (simp_all add: ehdr_v_demo_def ehdr_v_zero_def)
  have f: "as_elf64 object_files_demo = files64_demo"
    by (simp add: object_files_demo_def)
  have first: "py_proc__analyze_elf an_demo object_files_demo memcpy_demo ehdr_v_zero
      demo_session = (Some (FAIL, demo_session, []), ehdr_v_demo)"
    by (simp add: py_proc__analyze_elf_def Let_def memcpy_demo_def v ehdr64_zero_def)
  have second: "py_proc__analyze_elf an_demo object_files_demo memcpy_demo ehdr_v_demo
      demo_session
       = (Some (0, session_analysed,
                [(0x300, []), (0x318, ''_PyThreadState_Current''), (0x330, ''_PyRuntime'')]),
          ehdr_v_demo)"
    by (simp add: py_proc__analyze_elf_def Let_def memcpy_demo_def v f ehdr64_demo_format
        ELFCLASS64_def ELFCLASS32_def analyze_elf64_demo)
  show ?thesis
    using first second
    by (simp add: v f ehdr64_demo_format analyze_elf64_demo memcpy_demo_def)
qed


end
